theory Spec2Isabelle
  imports Main "HOL-Library.Option_ord" "HOL-Library.Multiset"
begin

section \<open>Data model (drizzle/schema.ts)\<close>

text \<open>
  Every table of the schema is a record of its columns. A nullable column has an
  \<open>option\<close> type (\<open>None\<close> is SQL \<open>NULL\<close>); a \<open>notNull\<close> column has the plain type.
  Primary keys are the auto-increment counters of the store, user ids are the numeric
  ids of the authenticated caller, timestamps are milliseconds as integers, and a
  \<open>json\<close> column holds its document as serialised text.
  Field names carry a table prefix because record fields share one name space.
\<close>

type_synonym timestamp = int
type_synonym json = string

datatype role = RoleUser | RoleAdmin

datatype interactionType = ITMessage | ITText | ITInstruction

datatype messageType = MTMessage | MTText | MTInstruction | MTUser | MTSystem

text \<open>A JavaScript \<open>Error\<close> with its message.\<close>

datatype error = Error string

record User =
  u_id :: nat
  u_openId :: string
  u_name :: "string option"
  u_email :: "string option"
  u_loginMethod :: "string option"
  u_role :: role
  u_createdAt :: timestamp
  u_updatedAt :: timestamp
  u_lastSignedIn :: timestamp

record ApiKey =
  ak_id :: nat
  ak_userId :: nat
  ak_keyName :: string
  ak_encryptedKey :: string
  ak_lastUsed :: "timestamp option"
  ak_createdAt :: timestamp

record Character =
  ch_id :: nat
  ch_userId :: nat
  ch_name :: string
  ch_label :: string
  ch_promptDescription :: "string option"
  ch_displayDescription :: "string option"
  ch_imageUrl :: "string option"
  ch_isUserCharacter :: "bool option"
  ch_createdAt :: timestamp
  ch_updatedAt :: timestamp

record Scenario =
  sc_id :: nat
  sc_userId :: nat
  sc_title :: string
  sc_promptDescription :: "string option"
  sc_displayDescription :: "string option"
  sc_imageUrl :: "string option"
  sc_isPublic :: "bool option"
  sc_createdAt :: timestamp
  sc_updatedAt :: timestamp

record ScenarioCharacter =
  scc_id :: nat
  scc_scenarioId :: nat
  scc_characterId :: "nat option"
  scc_name :: string
  scc_label :: string
  scc_promptDescription :: "string option"
  scc_isUserCharacter :: "bool option"
  scc_orderIndex :: "int option"

record ScenarioInteraction =
  sci_id :: nat
  sci_scenarioId :: nat
  sci_interactionType :: interactionType
  sci_characterLabel :: "string option"
  sci_content :: string
  sci_isSticky :: "bool option"
  sci_orderIndex :: "int option"

record ChatSession =
  cs_id :: nat
  cs_userId :: nat
  cs_scenarioId :: "nat option"
  cs_title :: string
  cs_systemPrompt :: "string option"
  cs_modelId :: "string option"
  cs_samplingParams :: "json option"
  cs_createdAt :: timestamp
  cs_updatedAt :: timestamp

record ChatMessage =
  cm_id :: nat
  cm_sessionId :: nat
  cm_messageType :: messageType
  cm_characterLabel :: "string option"
  cm_characterName :: "string option"
  cm_content :: string
  cm_isSticky :: "bool option"
  cm_createdAt :: timestamp

record Story =
  st_id :: nat
  st_userId :: nat
  st_title :: string
  st_plotDescription :: "string option"
  st_styleDescription :: "string option"
  st_content :: "string option"
  st_modelId :: "string option"
  st_samplingParams :: "json option"
  st_createdAt :: timestamp
  st_updatedAt :: timestamp

record StoryCharacter =
  stc_id :: nat
  stc_storyId :: nat
  stc_name :: string
  stc_description :: "string option"
  stc_orderIndex :: "int option"

record GeneratedImage =
  gi_id :: nat
  gi_userId :: nat
  gi_includePrompt :: string
  gi_excludePrompt :: "string option"
  gi_cfgScale :: "int option"
  gi_fidelity :: "int option"
  gi_aspectRatio :: "string option"
  gi_style :: "string option"
  gi_seed :: "int option"
  gi_imageUrl :: "string option"
  gi_createdAt :: timestamp

subsection \<open>Insert and partial-update objects\<close>

text \<open>
  An \<open>Insert...\<close> object gives the required columns plainly and every optional column
  as an \<open>option\<close>: \<open>None\<close> is the key left out (JavaScript \<open>undefined\<close>), so the
  column default applies. For a nullable column the supplied value is itself an
  \<open>option\<close>, so \<open>Some None\<close> is an explicit \<open>null\<close>. The store-generated columns
  (\<open>id\<close>, \<open>createdAt\<close>, \<open>updatedAt\<close>) are never supplied to an insert by the routing
  layer and are not part of the \<open>Insert...\<close> objects. A \<open>Partial...\<close> object is the
  argument of an update, \<open>Partial<Insert...>\<close>: a key for every column of the table,
  \<open>id\<close>, \<open>userId\<close>, \<open>createdAt\<close> and \<open>updatedAt\<close> included, each optional, with the
  same reading of \<open>None\<close>.
\<close>

record InsertUser =
  iu_openId :: string
  iu_name :: "string option option"
  iu_email :: "string option option"
  iu_loginMethod :: "string option option"
  iu_role :: "role option"
  iu_lastSignedIn :: "timestamp option"

record InsertApiKey =
  iak_userId :: nat
  iak_keyName :: string
  iak_encryptedKey :: string
  iak_lastUsed :: "timestamp option option"

record InsertCharacter =
  ich_userId :: nat
  ich_name :: string
  ich_label :: string
  ich_promptDescription :: "string option option"
  ich_displayDescription :: "string option option"
  ich_imageUrl :: "string option option"
  ich_isUserCharacter :: "bool option option"

record PartialCharacter =
  pch_id :: "nat option"
  pch_userId :: "nat option"
  pch_name :: "string option"
  pch_label :: "string option"
  pch_promptDescription :: "string option option"
  pch_displayDescription :: "string option option"
  pch_imageUrl :: "string option option"
  pch_isUserCharacter :: "bool option option"
  pch_createdAt :: "timestamp option"
  pch_updatedAt :: "timestamp option"

record InsertScenario =
  isc_userId :: nat
  isc_title :: string
  isc_promptDescription :: "string option option"
  isc_displayDescription :: "string option option"
  isc_imageUrl :: "string option option"
  isc_isPublic :: "bool option option"

record PartialScenario =
  psc_id :: "nat option"
  psc_userId :: "nat option"
  psc_title :: "string option"
  psc_promptDescription :: "string option option"
  psc_displayDescription :: "string option option"
  psc_imageUrl :: "string option option"
  psc_isPublic :: "bool option option"
  psc_createdAt :: "timestamp option"
  psc_updatedAt :: "timestamp option"

record InsertScenarioCharacter =
  iscc_scenarioId :: nat
  iscc_characterId :: "nat option option"
  iscc_name :: string
  iscc_label :: string
  iscc_promptDescription :: "string option option"
  iscc_isUserCharacter :: "bool option option"
  iscc_orderIndex :: "int option option"

record InsertScenarioInteraction =
  isci_scenarioId :: nat
  isci_interactionType :: interactionType
  isci_characterLabel :: "string option option"
  isci_content :: string
  isci_isSticky :: "bool option option"
  isci_orderIndex :: "int option option"

record PartialScenarioInteraction =
  psci_id :: "nat option"
  psci_scenarioId :: "nat option"
  psci_interactionType :: "interactionType option"
  psci_characterLabel :: "string option option"
  psci_content :: "string option"
  psci_isSticky :: "bool option option"
  psci_orderIndex :: "int option option"

record InsertChatSession =
  ics_userId :: nat
  ics_scenarioId :: "nat option option"
  ics_title :: string
  ics_systemPrompt :: "string option option"
  ics_modelId :: "string option option"
  ics_samplingParams :: "json option option"

record PartialChatSession =
  pcs_id :: "nat option"
  pcs_userId :: "nat option"
  pcs_scenarioId :: "nat option option"
  pcs_title :: "string option"
  pcs_systemPrompt :: "string option option"
  pcs_modelId :: "string option option"
  pcs_samplingParams :: "json option option"
  pcs_createdAt :: "timestamp option"
  pcs_updatedAt :: "timestamp option"

record InsertChatMessage =
  icm_sessionId :: nat
  icm_messageType :: messageType
  icm_characterLabel :: "string option option"
  icm_characterName :: "string option option"
  icm_content :: string
  icm_isSticky :: "bool option option"

record InsertStory =
  ist_userId :: nat
  ist_title :: string
  ist_plotDescription :: "string option option"
  ist_styleDescription :: "string option option"
  ist_content :: "string option option"
  ist_modelId :: "string option option"
  ist_samplingParams :: "json option option"

record PartialStory =
  pst_id :: "nat option"
  pst_userId :: "nat option"
  pst_title :: "string option"
  pst_plotDescription :: "string option option"
  pst_styleDescription :: "string option option"
  pst_content :: "string option option"
  pst_modelId :: "string option option"
  pst_samplingParams :: "json option option"
  pst_createdAt :: "timestamp option"
  pst_updatedAt :: "timestamp option"

record InsertStoryCharacter =
  istc_storyId :: nat
  istc_name :: string
  istc_description :: "string option option"
  istc_orderIndex :: "int option option"

record PartialStoryCharacter =
  pstc_id :: "nat option"
  pstc_storyId :: "nat option"
  pstc_name :: "string option"
  pstc_description :: "string option option"
  pstc_orderIndex :: "int option option"

record InsertGeneratedImage =
  igi_userId :: nat
  igi_includePrompt :: string
  igi_excludePrompt :: "string option option"
  igi_cfgScale :: "int option option"
  igi_fidelity :: "int option option"
  igi_aspectRatio :: "string option option"
  igi_style :: "string option option"
  igi_seed :: "int option option"
  igi_imageUrl :: "string option option"

subsection \<open>The store\<close>

text \<open>
  A table is the list of its rows in insertion order together with its auto-increment
  counter. The store holds the tables and its SQL mode: in strict mode a value longer
  than its \<open>varchar\<close> column is refused, otherwise it is cut to the column's length.
  The connection returned by \<open>getDb\<close> is a \<open>store option\<close>: \<open>None\<close> is the
  \<open>null\<close> handle of an unavailable database.
\<close>

record 'r table =
  rows :: "'r list"
  nextId :: nat

record store =
  users :: "User table"
  apiKeys :: "ApiKey table"
  characters :: "Character table"
  scenarios :: "Scenario table"
  scenarioCharacters :: "ScenarioCharacter table"
  scenarioInteractions :: "ScenarioInteraction table"
  chatSessions :: "ChatSession table"
  chatMessages :: "ChatMessage table"
  stories :: "Story table"
  storyCharacters :: "StoryCharacter table"
  generatedImages :: "GeneratedImage table"
  sqlStrict :: bool

definition empty_table :: "'r table" where
  "empty_table = \<lparr>rows = [], nextId = 1\<rparr>"

definition empty_store :: store where
  "empty_store = \<lparr>users = empty_table, apiKeys = empty_table, characters = empty_table,
     scenarios = empty_table, scenarioCharacters = empty_table,
     scenarioInteractions = empty_table, chatSessions = empty_table,
     chatMessages = empty_table, stories = empty_table, storyCharacters = empty_table,
     generatedImages = empty_table, sqlStrict = True\<rparr>"

subsection \<open>Statements\<close>

text \<open>
  The query builder's statements on one table. \<open>insert_row\<close> gives the new row the
  counter's value and returns it as \<open>insertId\<close>. \<open>dflt\<close> is the column default of a
  key left out of an insert, and \<open>setcol\<close> the assignment of an update, which skips a
  key that is \<open>undefined\<close>.
\<close>

definition insert_row :: "(nat \<Rightarrow> 'r) \<Rightarrow> 'r table \<Rightarrow> nat \<times> 'r table" where
  "insert_row mk t = (nextId t, t\<lparr>rows := rows t @ [mk (nextId t)], nextId := Suc (nextId t)\<rparr>)"

definition select_where :: "('r \<Rightarrow> bool) \<Rightarrow> 'r table \<Rightarrow> 'r list" where
  "select_where p t = filter p (rows t)"

definition delete_where :: "('r \<Rightarrow> bool) \<Rightarrow> 'r table \<Rightarrow> 'r table" where
  "delete_where p t = t\<lparr>rows := filter (\<lambda>r. \<not> p r) (rows t)\<rparr>"

definition update_where :: "('r \<Rightarrow> bool) \<Rightarrow> ('r \<Rightarrow> 'r) \<Rightarrow> 'r table \<Rightarrow> 'r table" where
  "update_where p f t = t\<lparr>rows := map (\<lambda>r. if p r then f r else r) (rows t)\<rparr>"

definition dflt :: "'a \<Rightarrow> 'a option \<Rightarrow> 'a" where
  "dflt d v = (case v of None \<Rightarrow> d | Some x \<Rightarrow> x)"

definition setcol :: "'a option \<Rightarrow> 'a \<Rightarrow> 'a" where
  "setcol v old = (case v of None \<Rightarrow> old | Some x \<Rightarrow> x)"

text \<open>
  \<open>ORDER BY\<close> on one key sorts by that key, ascending, or descending by sorting on the
  negated timestamp. The statement names no second key, so the order of rows with equal
  keys is the store's and not the program's: the parameter \<open>tie\<close> ranks the rows as the
  store happens to read them, and rows with equal keys come out by that rank.
\<close>

definition orderBy :: "('r \<Rightarrow> int) \<Rightarrow> ('r \<Rightarrow> 'k::linorder) \<Rightarrow> 'r list \<Rightarrow> 'r list" where
  "orderBy tie k xs = sort_key k (sort_key tie xs)"

definition orderBy_desc :: "('r \<Rightarrow> int) \<Rightarrow> ('r \<Rightarrow> timestamp) \<Rightarrow> 'r list \<Rightarrow> 'r list" where
  "orderBy_desc tie k xs = sort_key (\<lambda>r. - k r) (sort_key tie xs)"

text \<open>
  \<open>onUpdateNow\<close>: a column declared \<open>.onUpdateNow()\<close> is set to the current time by
  the store when an update changes the value of some other column of the row.
\<close>

definition onUpdateNow :: "('r \<Rightarrow> 'r) \<Rightarrow> ('r \<Rightarrow> 'r) \<Rightarrow> 'r \<Rightarrow> 'r" where
  "onUpdateNow stamp f r = (if f r = r then r else stamp (f r))"

text \<open>
  A \<open>varchar(n)\<close> column holds at most \<open>n\<close> characters. \<open>varchar\<close> tests a value
  against the length, \<open>varchar_opt\<close> a key that may be left out and \<open>varchar_null\<close> a
  key of a nullable column; \<open>cut_opt\<close> and \<open>cut_null\<close> cut such keys to the length.
\<close>

definition varchar :: "nat \<Rightarrow> string \<Rightarrow> bool" where
  "varchar n s = (length s \<le> n)"

definition varchar_opt :: "nat \<Rightarrow> string option \<Rightarrow> bool" where
  "varchar_opt n v = (case v of None \<Rightarrow> True | Some s \<Rightarrow> varchar n s)"

definition varchar_null :: "nat \<Rightarrow> string option option \<Rightarrow> bool" where
  "varchar_null n v = (case v of None \<Rightarrow> True | Some w \<Rightarrow> varchar_opt n w)"

definition cut_opt :: "nat \<Rightarrow> string option \<Rightarrow> string option" where
  "cut_opt n v = map_option (take n) v"

definition cut_null :: "nat \<Rightarrow> string option option \<Rightarrow> string option option" where
  "cut_null n v = map_option (map_option (take n)) v"

text \<open>
  \<open>insert_values\<close> is \<open>insert(table).values(data)\<close>: data that fits its columns is
  inserted as it is; data that does not is refused by a strict store and cut by any
  other. A refused insert leaves the table as it was.
\<close>

definition insert_values ::
  "bool \<Rightarrow> ('d \<Rightarrow> bool) \<Rightarrow> ('d \<Rightarrow> 'd) \<Rightarrow> ('d \<Rightarrow> nat \<Rightarrow> 'r) \<Rightarrow> 'd \<Rightarrow> 'r table \<Rightarrow>
   error + nat \<times> 'r table" where
  "insert_values strict fits shorten mk d t =
     (if fits d then Inr (insert_row (mk d) t)
      else if strict then Inl (Error ''Data too long for column'')
      else Inr (insert_row (mk (shorten d)) t))"

text \<open>
  \<open>update_set\<close> is \<open>update(table).set(data).where(p)\<close> once the data has a defined
  key. \<open>fits\<close> says whether the data fits its columns and \<open>setsId\<close> whether it assigns
  the primary key; \<open>f\<close> writes the data into a row. A strict store refuses data that
  does not fit as soon as a row is to be written, and every store refuses an update
  that would leave two rows with one primary key. A refused update leaves the table
  as it was.
\<close>

definition update_set ::
  "bool \<Rightarrow> bool \<Rightarrow> bool \<Rightarrow> ('r \<Rightarrow> nat) \<Rightarrow> ('r \<Rightarrow> bool) \<Rightarrow> ('r \<Rightarrow> 'r) \<Rightarrow> 'r table \<Rightarrow>
   error + 'r table" where
  "update_set strict fits setsId idf p f t =
     (if strict \<and> \<not> fits \<and> list_ex p (rows t) then Inl (Error ''Data too long for column'')
      else if setsId \<and> \<not> distinct (map idf (rows (update_where p f t)))
      then Inl (Error ''Duplicate entry for key PRIMARY'')
      else Inr (update_where p f t))"

section \<open>Persistence layer (server/db.ts)\<close>

text \<open>
  Every operation first takes the connection (\<open>getDb\<close>): the argument \<open>conn\<close>.
  A read returns its rows, a create returns \<open>Inl\<close> the raised error or \<open>Inr\<close> the
  \<open>insertId\<close> with the store after the insert, a delete returns the connection
  after the statement (unchanged when it returned early), and an update returns
  \<open>Inl\<close> the raised error or \<open>Inr\<close> the connection after the statement. The argument
  \<open>now\<close> is the clock reading behind \<open>new Date()\<close> and \<open>defaultNow()\<close>.

  For each table, \<open>new_...\<close> is the row that an insert of the data writes (the column
  defaults for the keys left out, the store's id and timestamps), \<open>fits_...\<close> says
  whether the data fits the \<open>varchar\<close> columns of the table as the schema declares
  them, and \<open>cut_...\<close> cuts the data to them; \<open>apply_Partial...\<close> assigns the defined
  keys of an update's data to a row and \<open>no_values_Partial...\<close> says that no key is
  defined.
\<close>

subsection \<open>User helpers\<close>

text \<open>
  \<open>upsertUser\<close> is modelled for identities that the table can hold: the lengths of
  the \<open>varchar\<close> columns of \<open>users\<close> (\<open>openId\<close>, \<open>email\<close>, \<open>loginMethod\<close>) are
  not part of the model.
\<close>

record UserUpdateSet =
  us_name :: "string option option"
  us_email :: "string option option"
  us_loginMethod :: "string option option"
  us_lastSignedIn :: "timestamp option"
  us_role :: "role option"

text \<open>
  \<open>assignNullable\<close>: an \<open>undefined\<close> field is skipped; otherwise the value written to
  \<open>values\<close> and \<open>updateSet\<close> is \<open>value ?? null\<close>, which replaces only \<open>null\<close> (and
  \<open>undefined\<close>) by \<open>null\<close>.
\<close>

definition assignNullable :: "string option option \<Rightarrow> string option option" where
  "assignNullable field =
     (case field of
        None \<Rightarrow> None
      | Some v \<Rightarrow> Some (case v of None \<Rightarrow> None | Some s \<Rightarrow> Some s))"

definition upsert_role :: "string \<Rightarrow> InsertUser \<Rightarrow> role option" where
  "upsert_role ownerOpenId user =
     (case iu_role user of
        Some r \<Rightarrow> Some r
      | None \<Rightarrow> if iu_openId user = ownerOpenId then Some RoleAdmin else None)"

definition upsert_values :: "string \<Rightarrow> timestamp \<Rightarrow> InsertUser \<Rightarrow> InsertUser" where
  "upsert_values ownerOpenId now user =
     \<lparr>iu_openId = iu_openId user,
      iu_name = assignNullable (iu_name user),
      iu_email = assignNullable (iu_email user),
      iu_loginMethod = assignNullable (iu_loginMethod user),
      iu_role = upsert_role ownerOpenId user,
      iu_lastSignedIn = (case iu_lastSignedIn user of Some t \<Rightarrow> Some t | None \<Rightarrow> Some now)\<rparr>"

text \<open>The update set before the emptiness test of line 80.\<close>

definition upsert_supplied :: "string \<Rightarrow> InsertUser \<Rightarrow> UserUpdateSet" where
  "upsert_supplied ownerOpenId user =
     \<lparr>us_name = assignNullable (iu_name user),
      us_email = assignNullable (iu_email user),
      us_loginMethod = assignNullable (iu_loginMethod user),
      us_lastSignedIn = iu_lastSignedIn user,
      us_role = upsert_role ownerOpenId user\<rparr>"

definition updateSet_keys :: "UserUpdateSet \<Rightarrow> string list" where
  "updateSet_keys s =
     (case us_name s of None \<Rightarrow> [] | Some _ \<Rightarrow> [''name'']) @
     (case us_email s of None \<Rightarrow> [] | Some _ \<Rightarrow> [''email'']) @
     (case us_loginMethod s of None \<Rightarrow> [] | Some _ \<Rightarrow> [''loginMethod'']) @
     (case us_lastSignedIn s of None \<Rightarrow> [] | Some _ \<Rightarrow> [''lastSignedIn'']) @
     (case us_role s of None \<Rightarrow> [] | Some _ \<Rightarrow> [''role''])"

definition upsert_updateSet :: "string \<Rightarrow> timestamp \<Rightarrow> InsertUser \<Rightarrow> UserUpdateSet" where
  "upsert_updateSet ownerOpenId now user =
     (let s = upsert_supplied ownerOpenId user
      in if length (updateSet_keys s) = 0 then s\<lparr>us_lastSignedIn := Some now\<rparr> else s)"

definition new_User :: "timestamp \<Rightarrow> InsertUser \<Rightarrow> nat \<Rightarrow> User" where
  "new_User now v i =
     \<lparr>u_id = i, u_openId = iu_openId v,
      u_name = dflt None (iu_name v), u_email = dflt None (iu_email v),
      u_loginMethod = dflt None (iu_loginMethod v),
      u_role = dflt RoleUser (iu_role v),
      u_createdAt = now, u_updatedAt = now,
      u_lastSignedIn = dflt now (iu_lastSignedIn v)\<rparr>"

definition apply_UserUpdateSet :: "UserUpdateSet \<Rightarrow> User \<Rightarrow> User" where
  "apply_UserUpdateSet s r =
     r\<lparr>u_name := setcol (us_name s) (u_name r),
       u_email := setcol (us_email s) (u_email r),
       u_loginMethod := setcol (us_loginMethod s) (u_loginMethod r),
       u_lastSignedIn := setcol (us_lastSignedIn s) (u_lastSignedIn r),
       u_role := setcol (us_role s) (u_role r)\<rparr>"

text \<open>
  \<open>INSERT ... ON DUPLICATE KEY UPDATE\<close> on the unique column \<open>openId\<close>: a row with
  the same \<open>openId\<close> is updated with the update set, otherwise the values are inserted.
\<close>

definition insert_onDuplicateKeyUpdate ::
  "timestamp \<Rightarrow> InsertUser \<Rightarrow> UserUpdateSet \<Rightarrow> User table \<Rightarrow> User table" where
  "insert_onDuplicateKeyUpdate now v s t =
     (case find (\<lambda>r. u_openId r = iu_openId v) (rows t) of
        None \<Rightarrow> snd (insert_row (new_User now v) t)
      | Some _ \<Rightarrow>
          update_where (\<lambda>r. u_openId r = iu_openId v)
            (onUpdateNow (\<lambda>r. r\<lparr>u_updatedAt := now\<rparr>) (apply_UserUpdateSet s)) t)"

definition upsertUser ::
  "string \<Rightarrow> store option \<Rightarrow> timestamp \<Rightarrow> InsertUser \<Rightarrow> error + store option" where
  "upsertUser ownerOpenId conn now user =
     (if iu_openId user = [] then Inl (Error ''User openId is required for upsert'')
      else case conn of
        None \<Rightarrow> Inr None
      | Some db \<Rightarrow>
          Inr (Some (db\<lparr>users :=
            insert_onDuplicateKeyUpdate now (upsert_values ownerOpenId now user)
              (upsert_updateSet ownerOpenId now user) (users db)\<rparr>)))"

definition getUserByOpenId :: "store option \<Rightarrow> string \<Rightarrow> User option" where
  "getUserByOpenId conn openId =
     (case conn of None \<Rightarrow> None
      | Some db \<Rightarrow> find (\<lambda>r. u_openId r = openId) (rows (users db)))"

subsection \<open>API key helpers\<close>

definition new_ApiKey :: "timestamp \<Rightarrow> InsertApiKey \<Rightarrow> nat \<Rightarrow> ApiKey" where
  "new_ApiKey now d i =
     \<lparr>ak_id = i, ak_userId = iak_userId d, ak_keyName = iak_keyName d,
      ak_encryptedKey = iak_encryptedKey d, ak_lastUsed = dflt None (iak_lastUsed d),
      ak_createdAt = now\<rparr>"

definition fits_InsertApiKey :: "InsertApiKey \<Rightarrow> bool" where
  "fits_InsertApiKey d = (varchar 100 (iak_keyName d))"

definition cut_InsertApiKey :: "InsertApiKey \<Rightarrow> InsertApiKey" where
  "cut_InsertApiKey d =
     d\<lparr>iak_keyName := take 100 (iak_keyName d)\<rparr>"

definition createApiKey ::
  "store option \<Rightarrow> timestamp \<Rightarrow> InsertApiKey \<Rightarrow> error + nat \<times> store" where
  "createApiKey conn now d =
     (case conn of None \<Rightarrow> Inl (Error ''Database not available'')
      | Some db \<Rightarrow>
          (case insert_values (sqlStrict db) fits_InsertApiKey cut_InsertApiKey
                  (new_ApiKey now) d (apiKeys db) of
             Inl e \<Rightarrow> Inl e
           | Inr (i, t) \<Rightarrow> Inr (i, db\<lparr>apiKeys := t\<rparr>)))"

text \<open>The projection selected by \<open>getApiKeysByUserId\<close>.\<close>

record ApiKeyInfo =
  aki_id :: nat
  aki_keyName :: string
  aki_lastUsed :: "timestamp option"
  aki_createdAt :: timestamp

definition getApiKeysByUserId :: "store option \<Rightarrow> nat \<Rightarrow> ApiKeyInfo list" where
  "getApiKeysByUserId conn userId =
     (case conn of None \<Rightarrow> []
      | Some db \<Rightarrow>
          map (\<lambda>r. \<lparr>aki_id = ak_id r, aki_keyName = ak_keyName r,
                    aki_lastUsed = ak_lastUsed r, aki_createdAt = ak_createdAt r\<rparr>)
            (select_where (\<lambda>r. ak_userId r = userId) (apiKeys db)))"

definition getApiKeyById :: "store option \<Rightarrow> nat \<Rightarrow> nat \<Rightarrow> ApiKey option" where
  "getApiKeyById conn i userId =
     (case conn of None \<Rightarrow> None
      | Some db \<Rightarrow> find (\<lambda>r. ak_id r = i \<and> ak_userId r = userId) (rows (apiKeys db)))"

definition deleteApiKey :: "store option \<Rightarrow> nat \<Rightarrow> nat \<Rightarrow> store option" where
  "deleteApiKey conn i userId =
     (case conn of None \<Rightarrow> None
      | Some db \<Rightarrow>
          Some (db\<lparr>apiKeys :=
            delete_where (\<lambda>r. ak_id r = i \<and> ak_userId r = userId) (apiKeys db)\<rparr>))"

definition updateApiKeyLastUsed :: "store option \<Rightarrow> timestamp \<Rightarrow> nat \<Rightarrow> store option" where
  "updateApiKeyLastUsed conn now i =
     (case conn of None \<Rightarrow> None
      | Some db \<Rightarrow>
          Some (db\<lparr>apiKeys :=
            update_where (\<lambda>r. ak_id r = i) (\<lambda>r. r\<lparr>ak_lastUsed := Some now\<rparr>) (apiKeys db)\<rparr>))"

subsection \<open>Character helpers\<close>

definition new_Character :: "timestamp \<Rightarrow> InsertCharacter \<Rightarrow> nat \<Rightarrow> Character" where
  "new_Character now d i =
     \<lparr>ch_id = i, ch_userId = ich_userId d, ch_name = ich_name d, ch_label = ich_label d,
      ch_promptDescription = dflt None (ich_promptDescription d),
      ch_displayDescription = dflt None (ich_displayDescription d),
      ch_imageUrl = dflt None (ich_imageUrl d),
      ch_isUserCharacter = dflt (Some False) (ich_isUserCharacter d),
      ch_createdAt = now, ch_updatedAt = now\<rparr>"

definition fits_InsertCharacter :: "InsertCharacter \<Rightarrow> bool" where
  "fits_InsertCharacter d = (varchar 200 (ich_name d) \<and> varchar 100 (ich_label d))"

definition cut_InsertCharacter :: "InsertCharacter \<Rightarrow> InsertCharacter" where
  "cut_InsertCharacter d =
     d\<lparr>ich_name := take 200 (ich_name d),
       ich_label := take 100 (ich_label d)\<rparr>"

definition apply_PartialCharacter :: "PartialCharacter \<Rightarrow> Character \<Rightarrow> Character" where
  "apply_PartialCharacter d r =
     r\<lparr>ch_id := setcol (pch_id d) (ch_id r),
       ch_userId := setcol (pch_userId d) (ch_userId r),
       ch_name := setcol (pch_name d) (ch_name r),
       ch_label := setcol (pch_label d) (ch_label r),
       ch_promptDescription := setcol (pch_promptDescription d) (ch_promptDescription r),
       ch_displayDescription := setcol (pch_displayDescription d) (ch_displayDescription r),
       ch_imageUrl := setcol (pch_imageUrl d) (ch_imageUrl r),
       ch_isUserCharacter := setcol (pch_isUserCharacter d) (ch_isUserCharacter r),
       ch_createdAt := setcol (pch_createdAt d) (ch_createdAt r),
       ch_updatedAt := setcol (pch_updatedAt d) (ch_updatedAt r)\<rparr>"

text \<open>\<open>.set(data)\<close> raises \<open>No values to set\<close> when no key of the data is defined.\<close>

definition no_values_PartialCharacter :: "PartialCharacter \<Rightarrow> bool" where
  "no_values_PartialCharacter d =
     (pch_id d = None \<and>
      pch_userId d = None \<and>
      pch_name d = None \<and>
      pch_label d = None \<and>
      pch_promptDescription d = None \<and>
      pch_displayDescription d = None \<and>
      pch_imageUrl d = None \<and>
      pch_isUserCharacter d = None \<and>
      pch_createdAt d = None \<and>
      pch_updatedAt d = None)"

definition fits_PartialCharacter :: "PartialCharacter \<Rightarrow> bool" where
  "fits_PartialCharacter d = (varchar_opt 200 (pch_name d) \<and> varchar_opt 100 (pch_label d))"

definition cut_PartialCharacter :: "PartialCharacter \<Rightarrow> PartialCharacter" where
  "cut_PartialCharacter d =
     d\<lparr>pch_name := cut_opt 200 (pch_name d),
       pch_label := cut_opt 100 (pch_label d)\<rparr>"

text \<open>
  What the update writes into a row of \<open>characters\<close>: the data, and the store's \<open>updatedAt\<close>
  stamp unless the data assigns \<open>updatedAt\<close> itself.
\<close>

definition set_Character :: "timestamp \<Rightarrow> PartialCharacter \<Rightarrow> Character \<Rightarrow> Character" where
  "set_Character now d r =
     (if pch_updatedAt d = None
      then onUpdateNow (\<lambda>r. r\<lparr>ch_updatedAt := now\<rparr>) (apply_PartialCharacter d) r
      else apply_PartialCharacter d r)"

definition createCharacter ::
  "store option \<Rightarrow> timestamp \<Rightarrow> InsertCharacter \<Rightarrow> error + nat \<times> store" where
  "createCharacter conn now d =
     (case conn of None \<Rightarrow> Inl (Error ''Database not available'')
      | Some db \<Rightarrow>
          (case insert_values (sqlStrict db) fits_InsertCharacter cut_InsertCharacter
                  (new_Character now) d (characters db) of
             Inl e \<Rightarrow> Inl e
           | Inr (i, t) \<Rightarrow> Inr (i, db\<lparr>characters := t\<rparr>)))"

definition getCharactersByUserId ::
  "(Character \<Rightarrow> int) \<Rightarrow> store option \<Rightarrow> nat \<Rightarrow> Character list" where
  "getCharactersByUserId tie conn userId =
     (case conn of None \<Rightarrow> []
      | Some db \<Rightarrow>
          orderBy_desc tie ch_updatedAt (select_where (\<lambda>r. ch_userId r = userId) (characters db)))"

definition getCharacterById :: "store option \<Rightarrow> nat \<Rightarrow> nat \<Rightarrow> Character option" where
  "getCharacterById conn i userId =
     (case conn of None \<Rightarrow> None
      | Some db \<Rightarrow> find (\<lambda>r. ch_id r = i \<and> ch_userId r = userId) (rows (characters db)))"

definition updateCharacter ::
  "store option \<Rightarrow> timestamp \<Rightarrow> nat \<Rightarrow> nat \<Rightarrow> PartialCharacter \<Rightarrow>
   error + store option" where
  "updateCharacter conn now i userId d =
     (case conn of None \<Rightarrow> Inr None
      | Some db \<Rightarrow>
          if no_values_PartialCharacter d then Inl (Error ''No values to set'')
          else
            (case update_set (sqlStrict db) (fits_PartialCharacter d) (pch_id d \<noteq> None) ch_id
                    (\<lambda>r. ch_id r = i \<and> ch_userId r = userId)
                    (set_Character now (cut_PartialCharacter d)) (characters db) of
               Inl e \<Rightarrow> Inl e
             | Inr t \<Rightarrow> Inr (Some (db\<lparr>characters := t\<rparr>))))"

definition deleteCharacter :: "store option \<Rightarrow> nat \<Rightarrow> nat \<Rightarrow> store option" where
  "deleteCharacter conn i userId =
     (case conn of None \<Rightarrow> None
      | Some db \<Rightarrow>
          Some (db\<lparr>characters :=
            delete_where (\<lambda>r. ch_id r = i \<and> ch_userId r = userId) (characters db)\<rparr>))"

subsection \<open>Scenario helpers\<close>

definition new_Scenario :: "timestamp \<Rightarrow> InsertScenario \<Rightarrow> nat \<Rightarrow> Scenario" where
  "new_Scenario now d i =
     \<lparr>sc_id = i, sc_userId = isc_userId d, sc_title = isc_title d,
      sc_promptDescription = dflt None (isc_promptDescription d),
      sc_displayDescription = dflt None (isc_displayDescription d),
      sc_imageUrl = dflt None (isc_imageUrl d),
      sc_isPublic = dflt (Some False) (isc_isPublic d),
      sc_createdAt = now, sc_updatedAt = now\<rparr>"

definition fits_InsertScenario :: "InsertScenario \<Rightarrow> bool" where
  "fits_InsertScenario d = (varchar 300 (isc_title d))"

definition cut_InsertScenario :: "InsertScenario \<Rightarrow> InsertScenario" where
  "cut_InsertScenario d =
     d\<lparr>isc_title := take 300 (isc_title d)\<rparr>"

definition apply_PartialScenario :: "PartialScenario \<Rightarrow> Scenario \<Rightarrow> Scenario" where
  "apply_PartialScenario d r =
     r\<lparr>sc_id := setcol (psc_id d) (sc_id r),
       sc_userId := setcol (psc_userId d) (sc_userId r),
       sc_title := setcol (psc_title d) (sc_title r),
       sc_promptDescription := setcol (psc_promptDescription d) (sc_promptDescription r),
       sc_displayDescription := setcol (psc_displayDescription d) (sc_displayDescription r),
       sc_imageUrl := setcol (psc_imageUrl d) (sc_imageUrl r),
       sc_isPublic := setcol (psc_isPublic d) (sc_isPublic r),
       sc_createdAt := setcol (psc_createdAt d) (sc_createdAt r),
       sc_updatedAt := setcol (psc_updatedAt d) (sc_updatedAt r)\<rparr>"

text \<open>\<open>.set(data)\<close> raises \<open>No values to set\<close> when no key of the data is defined.\<close>

definition no_values_PartialScenario :: "PartialScenario \<Rightarrow> bool" where
  "no_values_PartialScenario d =
     (psc_id d = None \<and>
      psc_userId d = None \<and>
      psc_title d = None \<and>
      psc_promptDescription d = None \<and>
      psc_displayDescription d = None \<and>
      psc_imageUrl d = None \<and>
      psc_isPublic d = None \<and>
      psc_createdAt d = None \<and>
      psc_updatedAt d = None)"

definition fits_PartialScenario :: "PartialScenario \<Rightarrow> bool" where
  "fits_PartialScenario d = (varchar_opt 300 (psc_title d))"

definition cut_PartialScenario :: "PartialScenario \<Rightarrow> PartialScenario" where
  "cut_PartialScenario d =
     d\<lparr>psc_title := cut_opt 300 (psc_title d)\<rparr>"

text \<open>
  What the update writes into a row of \<open>scenarios\<close>: the data, and the store's \<open>updatedAt\<close>
  stamp unless the data assigns \<open>updatedAt\<close> itself.
\<close>

definition set_Scenario :: "timestamp \<Rightarrow> PartialScenario \<Rightarrow> Scenario \<Rightarrow> Scenario" where
  "set_Scenario now d r =
     (if psc_updatedAt d = None
      then onUpdateNow (\<lambda>r. r\<lparr>sc_updatedAt := now\<rparr>) (apply_PartialScenario d) r
      else apply_PartialScenario d r)"

definition createScenario ::
  "store option \<Rightarrow> timestamp \<Rightarrow> InsertScenario \<Rightarrow> error + nat \<times> store" where
  "createScenario conn now d =
     (case conn of None \<Rightarrow> Inl (Error ''Database not available'')
      | Some db \<Rightarrow>
          (case insert_values (sqlStrict db) fits_InsertScenario cut_InsertScenario
                  (new_Scenario now) d (scenarios db) of
             Inl e \<Rightarrow> Inl e
           | Inr (i, t) \<Rightarrow> Inr (i, db\<lparr>scenarios := t\<rparr>)))"

definition getScenariosByUserId ::
  "(Scenario \<Rightarrow> int) \<Rightarrow> store option \<Rightarrow> nat \<Rightarrow> Scenario list" where
  "getScenariosByUserId tie conn userId =
     (case conn of None \<Rightarrow> []
      | Some db \<Rightarrow>
          orderBy_desc tie sc_updatedAt (select_where (\<lambda>r. sc_userId r = userId) (scenarios db)))"

text \<open>
  \<open>getPublicScenarios\<close>: the store's \<open>LIKE\<close> operator is the parameter \<open>like\<close>
  (pattern first); an empty or missing search string is falsy and gives the
  unfiltered branch.
\<close>

definition getPublicScenarios ::
  "(Scenario \<Rightarrow> int) \<Rightarrow> (string \<Rightarrow> string \<Rightarrow> bool) \<Rightarrow>
   store option \<Rightarrow> string option \<Rightarrow> Scenario list" where
  "getPublicScenarios tie like conn searchQuery =
     (case conn of None \<Rightarrow> []
      | Some db \<Rightarrow>
          if searchQuery \<noteq> None \<and> searchQuery \<noteq> Some []
          then orderBy_desc tie sc_createdAt
                 (select_where
                    (\<lambda>r. sc_isPublic r = Some True \<and>
                         like (''%'' @ the searchQuery @ ''%'') (sc_title r))
                    (scenarios db))
          else orderBy_desc tie sc_createdAt
                 (select_where (\<lambda>r. sc_isPublic r = Some True) (scenarios db)))"

definition getScenarioById :: "store option \<Rightarrow> nat \<Rightarrow> Scenario option" where
  "getScenarioById conn i =
     (case conn of None \<Rightarrow> None
      | Some db \<Rightarrow> find (\<lambda>r. sc_id r = i) (rows (scenarios db)))"

definition updateScenario ::
  "store option \<Rightarrow> timestamp \<Rightarrow> nat \<Rightarrow> nat \<Rightarrow> PartialScenario \<Rightarrow>
   error + store option" where
  "updateScenario conn now i userId d =
     (case conn of None \<Rightarrow> Inr None
      | Some db \<Rightarrow>
          if no_values_PartialScenario d then Inl (Error ''No values to set'')
          else
            (case update_set (sqlStrict db) (fits_PartialScenario d) (psc_id d \<noteq> None) sc_id
                    (\<lambda>r. sc_id r = i \<and> sc_userId r = userId)
                    (set_Scenario now (cut_PartialScenario d)) (scenarios db) of
               Inl e \<Rightarrow> Inl e
             | Inr t \<Rightarrow> Inr (Some (db\<lparr>scenarios := t\<rparr>))))"

text \<open>
  A cascading delete is a sequence of statements, each awaited before the next. The
  statements of the three cascades are values, so that the store after every prefix of
  the sequence can be named.
\<close>

datatype stmt =
    DeleteScenarioInteractionsOf nat
  | DeleteScenarioCharactersOf nat
  | DeleteScenarioRow nat nat
  | DeleteChatMessagesOf nat
  | DeleteChatSessionRow nat nat
  | DeleteStoryCharactersOf nat
  | DeleteStoryRow nat nat

fun exec :: "store \<Rightarrow> stmt \<Rightarrow> store" where
  "exec db (DeleteScenarioInteractionsOf i) =
     db\<lparr>scenarioInteractions :=
       delete_where (\<lambda>r. sci_scenarioId r = i) (scenarioInteractions db)\<rparr>"
| "exec db (DeleteScenarioCharactersOf i) =
     db\<lparr>scenarioCharacters :=
       delete_where (\<lambda>r. scc_scenarioId r = i) (scenarioCharacters db)\<rparr>"
| "exec db (DeleteScenarioRow i userId) =
     db\<lparr>scenarios := delete_where (\<lambda>r. sc_id r = i \<and> sc_userId r = userId) (scenarios db)\<rparr>"
| "exec db (DeleteChatMessagesOf i) =
     db\<lparr>chatMessages := delete_where (\<lambda>r. cm_sessionId r = i) (chatMessages db)\<rparr>"
| "exec db (DeleteChatSessionRow i userId) =
     db\<lparr>chatSessions :=
       delete_where (\<lambda>r. cs_id r = i \<and> cs_userId r = userId) (chatSessions db)\<rparr>"
| "exec db (DeleteStoryCharactersOf i) =
     db\<lparr>storyCharacters := delete_where (\<lambda>r. stc_storyId r = i) (storyCharacters db)\<rparr>"
| "exec db (DeleteStoryRow i userId) =
     db\<lparr>stories := delete_where (\<lambda>r. st_id r = i \<and> st_userId r = userId) (stories db)\<rparr>"

definition deleteScenario_stmts :: "nat \<Rightarrow> nat \<Rightarrow> stmt list" where
  "deleteScenario_stmts i userId =
     [DeleteScenarioInteractionsOf i, DeleteScenarioCharactersOf i, DeleteScenarioRow i userId]"

definition deleteScenario :: "store option \<Rightarrow> nat \<Rightarrow> nat \<Rightarrow> store option" where
  "deleteScenario conn i userId =
     (case conn of None \<Rightarrow> None
      | Some db \<Rightarrow> Some (foldl exec db (deleteScenario_stmts i userId)))"

subsection \<open>Scenario character helpers\<close>

definition new_ScenarioCharacter :: "InsertScenarioCharacter \<Rightarrow> nat \<Rightarrow> ScenarioCharacter" where
  "new_ScenarioCharacter d i =
     \<lparr>scc_id = i, scc_scenarioId = iscc_scenarioId d,
      scc_characterId = dflt None (iscc_characterId d),
      scc_name = iscc_name d, scc_label = iscc_label d,
      scc_promptDescription = dflt None (iscc_promptDescription d),
      scc_isUserCharacter = dflt (Some False) (iscc_isUserCharacter d),
      scc_orderIndex = dflt (Some 0) (iscc_orderIndex d)\<rparr>"

definition fits_InsertScenarioCharacter :: "InsertScenarioCharacter \<Rightarrow> bool" where
  "fits_InsertScenarioCharacter d = (varchar 200 (iscc_name d) \<and> varchar 100 (iscc_label d))"

definition cut_InsertScenarioCharacter :: "InsertScenarioCharacter \<Rightarrow> InsertScenarioCharacter" where
  "cut_InsertScenarioCharacter d =
     d\<lparr>iscc_name := take 200 (iscc_name d),
       iscc_label := take 100 (iscc_label d)\<rparr>"

definition addScenarioCharacter ::
  "store option \<Rightarrow> InsertScenarioCharacter \<Rightarrow> error + nat \<times> store" where
  "addScenarioCharacter conn d =
     (case conn of None \<Rightarrow> Inl (Error ''Database not available'')
      | Some db \<Rightarrow>
          (case insert_values (sqlStrict db) fits_InsertScenarioCharacter cut_InsertScenarioCharacter
                  (new_ScenarioCharacter) d (scenarioCharacters db) of
             Inl e \<Rightarrow> Inl e
           | Inr (i, t) \<Rightarrow> Inr (i, db\<lparr>scenarioCharacters := t\<rparr>)))"

definition getScenarioCharacters ::
  "(ScenarioCharacter \<Rightarrow> int) \<Rightarrow> store option \<Rightarrow> nat \<Rightarrow> ScenarioCharacter list" where
  "getScenarioCharacters tie conn scenarioId =
     (case conn of None \<Rightarrow> []
      | Some db \<Rightarrow>
          orderBy tie scc_orderIndex
            (select_where (\<lambda>r. scc_scenarioId r = scenarioId) (scenarioCharacters db)))"

definition deleteScenarioCharacter :: "store option \<Rightarrow> nat \<Rightarrow> store option" where
  "deleteScenarioCharacter conn i =
     (case conn of None \<Rightarrow> None
      | Some db \<Rightarrow>
          Some (db\<lparr>scenarioCharacters :=
            delete_where (\<lambda>r. scc_id r = i) (scenarioCharacters db)\<rparr>))"

subsection \<open>Scenario interaction helpers\<close>

definition new_ScenarioInteraction ::
  "InsertScenarioInteraction \<Rightarrow> nat \<Rightarrow> ScenarioInteraction" where
  "new_ScenarioInteraction d i =
     \<lparr>sci_id = i, sci_scenarioId = isci_scenarioId d,
      sci_interactionType = isci_interactionType d,
      sci_characterLabel = dflt None (isci_characterLabel d),
      sci_content = isci_content d,
      sci_isSticky = dflt (Some False) (isci_isSticky d),
      sci_orderIndex = dflt (Some 0) (isci_orderIndex d)\<rparr>"

definition fits_InsertScenarioInteraction :: "InsertScenarioInteraction \<Rightarrow> bool" where
  "fits_InsertScenarioInteraction d = (varchar_null 100 (isci_characterLabel d))"

definition cut_InsertScenarioInteraction :: "InsertScenarioInteraction \<Rightarrow> InsertScenarioInteraction" where
  "cut_InsertScenarioInteraction d =
     d\<lparr>isci_characterLabel := cut_null 100 (isci_characterLabel d)\<rparr>"

definition apply_PartialScenarioInteraction :: "PartialScenarioInteraction \<Rightarrow> ScenarioInteraction \<Rightarrow> ScenarioInteraction" where
  "apply_PartialScenarioInteraction d r =
     r\<lparr>sci_id := setcol (psci_id d) (sci_id r),
       sci_scenarioId := setcol (psci_scenarioId d) (sci_scenarioId r),
       sci_interactionType := setcol (psci_interactionType d) (sci_interactionType r),
       sci_characterLabel := setcol (psci_characterLabel d) (sci_characterLabel r),
       sci_content := setcol (psci_content d) (sci_content r),
       sci_isSticky := setcol (psci_isSticky d) (sci_isSticky r),
       sci_orderIndex := setcol (psci_orderIndex d) (sci_orderIndex r)\<rparr>"

text \<open>\<open>.set(data)\<close> raises \<open>No values to set\<close> when no key of the data is defined.\<close>

definition no_values_PartialScenarioInteraction :: "PartialScenarioInteraction \<Rightarrow> bool" where
  "no_values_PartialScenarioInteraction d =
     (psci_id d = None \<and>
      psci_scenarioId d = None \<and>
      psci_interactionType d = None \<and>
      psci_characterLabel d = None \<and>
      psci_content d = None \<and>
      psci_isSticky d = None \<and>
      psci_orderIndex d = None)"

definition fits_PartialScenarioInteraction :: "PartialScenarioInteraction \<Rightarrow> bool" where
  "fits_PartialScenarioInteraction d = (varchar_null 100 (psci_characterLabel d))"

definition cut_PartialScenarioInteraction :: "PartialScenarioInteraction \<Rightarrow> PartialScenarioInteraction" where
  "cut_PartialScenarioInteraction d =
     d\<lparr>psci_characterLabel := cut_null 100 (psci_characterLabel d)\<rparr>"

definition addScenarioInteraction ::
  "store option \<Rightarrow> InsertScenarioInteraction \<Rightarrow> error + nat \<times> store" where
  "addScenarioInteraction conn d =
     (case conn of None \<Rightarrow> Inl (Error ''Database not available'')
      | Some db \<Rightarrow>
          (case insert_values (sqlStrict db) fits_InsertScenarioInteraction cut_InsertScenarioInteraction
                  (new_ScenarioInteraction) d (scenarioInteractions db) of
             Inl e \<Rightarrow> Inl e
           | Inr (i, t) \<Rightarrow> Inr (i, db\<lparr>scenarioInteractions := t\<rparr>)))"

definition getScenarioInteractions ::
  "(ScenarioInteraction \<Rightarrow> int) \<Rightarrow> store option \<Rightarrow> nat \<Rightarrow> ScenarioInteraction list" where
  "getScenarioInteractions tie conn scenarioId =
     (case conn of None \<Rightarrow> []
      | Some db \<Rightarrow>
          orderBy tie sci_orderIndex
            (select_where (\<lambda>r. sci_scenarioId r = scenarioId) (scenarioInteractions db)))"

definition updateScenarioInteraction ::
  "store option \<Rightarrow> nat \<Rightarrow> PartialScenarioInteraction \<Rightarrow>
   error + store option" where
  "updateScenarioInteraction conn i d =
     (case conn of None \<Rightarrow> Inr None
      | Some db \<Rightarrow>
          if no_values_PartialScenarioInteraction d then Inl (Error ''No values to set'')
          else
            (case update_set (sqlStrict db) (fits_PartialScenarioInteraction d) (psci_id d \<noteq> None) sci_id
                    (\<lambda>r. sci_id r = i)
                    (apply_PartialScenarioInteraction (cut_PartialScenarioInteraction d)) (scenarioInteractions db) of
               Inl e \<Rightarrow> Inl e
             | Inr t \<Rightarrow> Inr (Some (db\<lparr>scenarioInteractions := t\<rparr>))))"

definition deleteScenarioInteraction :: "store option \<Rightarrow> nat \<Rightarrow> store option" where
  "deleteScenarioInteraction conn i =
     (case conn of None \<Rightarrow> None
      | Some db \<Rightarrow>
          Some (db\<lparr>scenarioInteractions :=
            delete_where (\<lambda>r. sci_id r = i) (scenarioInteractions db)\<rparr>))"

subsection \<open>Chat session helpers\<close>

definition new_ChatSession :: "timestamp \<Rightarrow> InsertChatSession \<Rightarrow> nat \<Rightarrow> ChatSession" where
  "new_ChatSession now d i =
     \<lparr>cs_id = i, cs_userId = ics_userId d,
      cs_scenarioId = dflt None (ics_scenarioId d),
      cs_title = ics_title d,
      cs_systemPrompt = dflt None (ics_systemPrompt d),
      cs_modelId = dflt (Some ''lucid-v1-medium'') (ics_modelId d),
      cs_samplingParams = dflt None (ics_samplingParams d),
      cs_createdAt = now, cs_updatedAt = now\<rparr>"

definition fits_InsertChatSession :: "InsertChatSession \<Rightarrow> bool" where
  "fits_InsertChatSession d = (varchar 300 (ics_title d) \<and> varchar_null 100 (ics_modelId d))"

definition cut_InsertChatSession :: "InsertChatSession \<Rightarrow> InsertChatSession" where
  "cut_InsertChatSession d =
     d\<lparr>ics_title := take 300 (ics_title d),
       ics_modelId := cut_null 100 (ics_modelId d)\<rparr>"

definition apply_PartialChatSession :: "PartialChatSession \<Rightarrow> ChatSession \<Rightarrow> ChatSession" where
  "apply_PartialChatSession d r =
     r\<lparr>cs_id := setcol (pcs_id d) (cs_id r),
       cs_userId := setcol (pcs_userId d) (cs_userId r),
       cs_scenarioId := setcol (pcs_scenarioId d) (cs_scenarioId r),
       cs_title := setcol (pcs_title d) (cs_title r),
       cs_systemPrompt := setcol (pcs_systemPrompt d) (cs_systemPrompt r),
       cs_modelId := setcol (pcs_modelId d) (cs_modelId r),
       cs_samplingParams := setcol (pcs_samplingParams d) (cs_samplingParams r),
       cs_createdAt := setcol (pcs_createdAt d) (cs_createdAt r),
       cs_updatedAt := setcol (pcs_updatedAt d) (cs_updatedAt r)\<rparr>"

text \<open>\<open>.set(data)\<close> raises \<open>No values to set\<close> when no key of the data is defined.\<close>

definition no_values_PartialChatSession :: "PartialChatSession \<Rightarrow> bool" where
  "no_values_PartialChatSession d =
     (pcs_id d = None \<and>
      pcs_userId d = None \<and>
      pcs_scenarioId d = None \<and>
      pcs_title d = None \<and>
      pcs_systemPrompt d = None \<and>
      pcs_modelId d = None \<and>
      pcs_samplingParams d = None \<and>
      pcs_createdAt d = None \<and>
      pcs_updatedAt d = None)"

definition fits_PartialChatSession :: "PartialChatSession \<Rightarrow> bool" where
  "fits_PartialChatSession d = (varchar_opt 300 (pcs_title d) \<and> varchar_null 100 (pcs_modelId d))"

definition cut_PartialChatSession :: "PartialChatSession \<Rightarrow> PartialChatSession" where
  "cut_PartialChatSession d =
     d\<lparr>pcs_title := cut_opt 300 (pcs_title d),
       pcs_modelId := cut_null 100 (pcs_modelId d)\<rparr>"

text \<open>
  What the update writes into a row of \<open>chatSessions\<close>: the data, and the store's \<open>updatedAt\<close>
  stamp unless the data assigns \<open>updatedAt\<close> itself.
\<close>

definition set_ChatSession :: "timestamp \<Rightarrow> PartialChatSession \<Rightarrow> ChatSession \<Rightarrow> ChatSession" where
  "set_ChatSession now d r =
     (if pcs_updatedAt d = None
      then onUpdateNow (\<lambda>r. r\<lparr>cs_updatedAt := now\<rparr>) (apply_PartialChatSession d) r
      else apply_PartialChatSession d r)"

definition createChatSession ::
  "store option \<Rightarrow> timestamp \<Rightarrow> InsertChatSession \<Rightarrow> error + nat \<times> store" where
  "createChatSession conn now d =
     (case conn of None \<Rightarrow> Inl (Error ''Database not available'')
      | Some db \<Rightarrow>
          (case insert_values (sqlStrict db) fits_InsertChatSession cut_InsertChatSession
                  (new_ChatSession now) d (chatSessions db) of
             Inl e \<Rightarrow> Inl e
           | Inr (i, t) \<Rightarrow> Inr (i, db\<lparr>chatSessions := t\<rparr>)))"

definition getChatSessionsByUserId ::
  "(ChatSession \<Rightarrow> int) \<Rightarrow> store option \<Rightarrow> nat \<Rightarrow> ChatSession list" where
  "getChatSessionsByUserId tie conn userId =
     (case conn of None \<Rightarrow> []
      | Some db \<Rightarrow>
          orderBy_desc tie cs_updatedAt
            (select_where (\<lambda>r. cs_userId r = userId) (chatSessions db)))"

definition getChatSessionById :: "store option \<Rightarrow> nat \<Rightarrow> nat \<Rightarrow> ChatSession option" where
  "getChatSessionById conn i userId =
     (case conn of None \<Rightarrow> None
      | Some db \<Rightarrow> find (\<lambda>r. cs_id r = i \<and> cs_userId r = userId) (rows (chatSessions db)))"

definition updateChatSession ::
  "store option \<Rightarrow> timestamp \<Rightarrow> nat \<Rightarrow> nat \<Rightarrow> PartialChatSession \<Rightarrow>
   error + store option" where
  "updateChatSession conn now i userId d =
     (case conn of None \<Rightarrow> Inr None
      | Some db \<Rightarrow>
          if no_values_PartialChatSession d then Inl (Error ''No values to set'')
          else
            (case update_set (sqlStrict db) (fits_PartialChatSession d) (pcs_id d \<noteq> None) cs_id
                    (\<lambda>r. cs_id r = i \<and> cs_userId r = userId)
                    (set_ChatSession now (cut_PartialChatSession d)) (chatSessions db) of
               Inl e \<Rightarrow> Inl e
             | Inr t \<Rightarrow> Inr (Some (db\<lparr>chatSessions := t\<rparr>))))"

definition deleteChatSession_stmts :: "nat \<Rightarrow> nat \<Rightarrow> stmt list" where
  "deleteChatSession_stmts i userId = [DeleteChatMessagesOf i, DeleteChatSessionRow i userId]"

definition deleteChatSession :: "store option \<Rightarrow> nat \<Rightarrow> nat \<Rightarrow> store option" where
  "deleteChatSession conn i userId =
     (case conn of None \<Rightarrow> None
      | Some db \<Rightarrow> Some (foldl exec db (deleteChatSession_stmts i userId)))"

subsection \<open>Chat message helpers\<close>

definition new_ChatMessage :: "timestamp \<Rightarrow> InsertChatMessage \<Rightarrow> nat \<Rightarrow> ChatMessage" where
  "new_ChatMessage now d i =
     \<lparr>cm_id = i, cm_sessionId = icm_sessionId d, cm_messageType = icm_messageType d,
      cm_characterLabel = dflt None (icm_characterLabel d),
      cm_characterName = dflt None (icm_characterName d),
      cm_content = icm_content d,
      cm_isSticky = dflt (Some False) (icm_isSticky d),
      cm_createdAt = now\<rparr>"

definition fits_InsertChatMessage :: "InsertChatMessage \<Rightarrow> bool" where
  "fits_InsertChatMessage d = (varchar_null 100 (icm_characterLabel d) \<and> varchar_null 200 (icm_characterName d))"

definition cut_InsertChatMessage :: "InsertChatMessage \<Rightarrow> InsertChatMessage" where
  "cut_InsertChatMessage d =
     d\<lparr>icm_characterLabel := cut_null 100 (icm_characterLabel d),
       icm_characterName := cut_null 200 (icm_characterName d)\<rparr>"

definition addChatMessage ::
  "store option \<Rightarrow> timestamp \<Rightarrow> InsertChatMessage \<Rightarrow> error + nat \<times> store" where
  "addChatMessage conn now d =
     (case conn of None \<Rightarrow> Inl (Error ''Database not available'')
      | Some db \<Rightarrow>
          (case insert_values (sqlStrict db) fits_InsertChatMessage cut_InsertChatMessage
                  (new_ChatMessage now) d (chatMessages db) of
             Inl e \<Rightarrow> Inl e
           | Inr (i, t) \<Rightarrow> Inr (i, db\<lparr>chatMessages := t\<rparr>)))"

definition getChatMessages ::
  "(ChatMessage \<Rightarrow> int) \<Rightarrow> store option \<Rightarrow> nat \<Rightarrow> ChatMessage list" where
  "getChatMessages tie conn sessionId =
     (case conn of None \<Rightarrow> []
      | Some db \<Rightarrow>
          orderBy tie cm_createdAt
            (select_where (\<lambda>r. cm_sessionId r = sessionId) (chatMessages db)))"

definition deleteChatMessage :: "store option \<Rightarrow> nat \<Rightarrow> store option" where
  "deleteChatMessage conn i =
     (case conn of None \<Rightarrow> None
      | Some db \<Rightarrow>
          Some (db\<lparr>chatMessages := delete_where (\<lambda>r. cm_id r = i) (chatMessages db)\<rparr>))"

subsection \<open>Story helpers\<close>

definition new_Story :: "timestamp \<Rightarrow> InsertStory \<Rightarrow> nat \<Rightarrow> Story" where
  "new_Story now d i =
     \<lparr>st_id = i, st_userId = ist_userId d, st_title = ist_title d,
      st_plotDescription = dflt None (ist_plotDescription d),
      st_styleDescription = dflt None (ist_styleDescription d),
      st_content = dflt None (ist_content d),
      st_modelId = dflt (Some ''lucid-v1-medium'') (ist_modelId d),
      st_samplingParams = dflt None (ist_samplingParams d),
      st_createdAt = now, st_updatedAt = now\<rparr>"

definition fits_InsertStory :: "InsertStory \<Rightarrow> bool" where
  "fits_InsertStory d = (varchar 300 (ist_title d) \<and> varchar_null 100 (ist_modelId d))"

definition cut_InsertStory :: "InsertStory \<Rightarrow> InsertStory" where
  "cut_InsertStory d =
     d\<lparr>ist_title := take 300 (ist_title d),
       ist_modelId := cut_null 100 (ist_modelId d)\<rparr>"

definition apply_PartialStory :: "PartialStory \<Rightarrow> Story \<Rightarrow> Story" where
  "apply_PartialStory d r =
     r\<lparr>st_id := setcol (pst_id d) (st_id r),
       st_userId := setcol (pst_userId d) (st_userId r),
       st_title := setcol (pst_title d) (st_title r),
       st_plotDescription := setcol (pst_plotDescription d) (st_plotDescription r),
       st_styleDescription := setcol (pst_styleDescription d) (st_styleDescription r),
       st_content := setcol (pst_content d) (st_content r),
       st_modelId := setcol (pst_modelId d) (st_modelId r),
       st_samplingParams := setcol (pst_samplingParams d) (st_samplingParams r),
       st_createdAt := setcol (pst_createdAt d) (st_createdAt r),
       st_updatedAt := setcol (pst_updatedAt d) (st_updatedAt r)\<rparr>"

text \<open>\<open>.set(data)\<close> raises \<open>No values to set\<close> when no key of the data is defined.\<close>

definition no_values_PartialStory :: "PartialStory \<Rightarrow> bool" where
  "no_values_PartialStory d =
     (pst_id d = None \<and>
      pst_userId d = None \<and>
      pst_title d = None \<and>
      pst_plotDescription d = None \<and>
      pst_styleDescription d = None \<and>
      pst_content d = None \<and>
      pst_modelId d = None \<and>
      pst_samplingParams d = None \<and>
      pst_createdAt d = None \<and>
      pst_updatedAt d = None)"

definition fits_PartialStory :: "PartialStory \<Rightarrow> bool" where
  "fits_PartialStory d = (varchar_opt 300 (pst_title d) \<and> varchar_null 100 (pst_modelId d))"

definition cut_PartialStory :: "PartialStory \<Rightarrow> PartialStory" where
  "cut_PartialStory d =
     d\<lparr>pst_title := cut_opt 300 (pst_title d),
       pst_modelId := cut_null 100 (pst_modelId d)\<rparr>"

text \<open>
  What the update writes into a row of \<open>stories\<close>: the data, and the store's \<open>updatedAt\<close>
  stamp unless the data assigns \<open>updatedAt\<close> itself.
\<close>

definition set_Story :: "timestamp \<Rightarrow> PartialStory \<Rightarrow> Story \<Rightarrow> Story" where
  "set_Story now d r =
     (if pst_updatedAt d = None
      then onUpdateNow (\<lambda>r. r\<lparr>st_updatedAt := now\<rparr>) (apply_PartialStory d) r
      else apply_PartialStory d r)"

definition createStory ::
  "store option \<Rightarrow> timestamp \<Rightarrow> InsertStory \<Rightarrow> error + nat \<times> store" where
  "createStory conn now d =
     (case conn of None \<Rightarrow> Inl (Error ''Database not available'')
      | Some db \<Rightarrow>
          (case insert_values (sqlStrict db) fits_InsertStory cut_InsertStory
                  (new_Story now) d (stories db) of
             Inl e \<Rightarrow> Inl e
           | Inr (i, t) \<Rightarrow> Inr (i, db\<lparr>stories := t\<rparr>)))"

definition getStoriesByUserId ::
  "(Story \<Rightarrow> int) \<Rightarrow> store option \<Rightarrow> nat \<Rightarrow> Story list" where
  "getStoriesByUserId tie conn userId =
     (case conn of None \<Rightarrow> []
      | Some db \<Rightarrow>
          orderBy_desc tie st_updatedAt (select_where (\<lambda>r. st_userId r = userId) (stories db)))"

definition getStoryById :: "store option \<Rightarrow> nat \<Rightarrow> nat \<Rightarrow> Story option" where
  "getStoryById conn i userId =
     (case conn of None \<Rightarrow> None
      | Some db \<Rightarrow> find (\<lambda>r. st_id r = i \<and> st_userId r = userId) (rows (stories db)))"

definition updateStory ::
  "store option \<Rightarrow> timestamp \<Rightarrow> nat \<Rightarrow> nat \<Rightarrow> PartialStory \<Rightarrow>
   error + store option" where
  "updateStory conn now i userId d =
     (case conn of None \<Rightarrow> Inr None
      | Some db \<Rightarrow>
          if no_values_PartialStory d then Inl (Error ''No values to set'')
          else
            (case update_set (sqlStrict db) (fits_PartialStory d) (pst_id d \<noteq> None) st_id
                    (\<lambda>r. st_id r = i \<and> st_userId r = userId)
                    (set_Story now (cut_PartialStory d)) (stories db) of
               Inl e \<Rightarrow> Inl e
             | Inr t \<Rightarrow> Inr (Some (db\<lparr>stories := t\<rparr>))))"

definition deleteStory_stmts :: "nat \<Rightarrow> nat \<Rightarrow> stmt list" where
  "deleteStory_stmts i userId = [DeleteStoryCharactersOf i, DeleteStoryRow i userId]"

definition deleteStory :: "store option \<Rightarrow> nat \<Rightarrow> nat \<Rightarrow> store option" where
  "deleteStory conn i userId =
     (case conn of None \<Rightarrow> None
      | Some db \<Rightarrow> Some (foldl exec db (deleteStory_stmts i userId)))"

subsection \<open>Story character helpers\<close>

definition new_StoryCharacter :: "InsertStoryCharacter \<Rightarrow> nat \<Rightarrow> StoryCharacter" where
  "new_StoryCharacter d i =
     \<lparr>stc_id = i, stc_storyId = istc_storyId d, stc_name = istc_name d,
      stc_description = dflt None (istc_description d),
      stc_orderIndex = dflt (Some 0) (istc_orderIndex d)\<rparr>"

definition fits_InsertStoryCharacter :: "InsertStoryCharacter \<Rightarrow> bool" where
  "fits_InsertStoryCharacter d = (varchar 200 (istc_name d))"

definition cut_InsertStoryCharacter :: "InsertStoryCharacter \<Rightarrow> InsertStoryCharacter" where
  "cut_InsertStoryCharacter d =
     d\<lparr>istc_name := take 200 (istc_name d)\<rparr>"

definition apply_PartialStoryCharacter :: "PartialStoryCharacter \<Rightarrow> StoryCharacter \<Rightarrow> StoryCharacter" where
  "apply_PartialStoryCharacter d r =
     r\<lparr>stc_id := setcol (pstc_id d) (stc_id r),
       stc_storyId := setcol (pstc_storyId d) (stc_storyId r),
       stc_name := setcol (pstc_name d) (stc_name r),
       stc_description := setcol (pstc_description d) (stc_description r),
       stc_orderIndex := setcol (pstc_orderIndex d) (stc_orderIndex r)\<rparr>"

text \<open>\<open>.set(data)\<close> raises \<open>No values to set\<close> when no key of the data is defined.\<close>

definition no_values_PartialStoryCharacter :: "PartialStoryCharacter \<Rightarrow> bool" where
  "no_values_PartialStoryCharacter d =
     (pstc_id d = None \<and>
      pstc_storyId d = None \<and>
      pstc_name d = None \<and>
      pstc_description d = None \<and>
      pstc_orderIndex d = None)"

definition fits_PartialStoryCharacter :: "PartialStoryCharacter \<Rightarrow> bool" where
  "fits_PartialStoryCharacter d = (varchar_opt 200 (pstc_name d))"

definition cut_PartialStoryCharacter :: "PartialStoryCharacter \<Rightarrow> PartialStoryCharacter" where
  "cut_PartialStoryCharacter d =
     d\<lparr>pstc_name := cut_opt 200 (pstc_name d)\<rparr>"

definition addStoryCharacter ::
  "store option \<Rightarrow> InsertStoryCharacter \<Rightarrow> error + nat \<times> store" where
  "addStoryCharacter conn d =
     (case conn of None \<Rightarrow> Inl (Error ''Database not available'')
      | Some db \<Rightarrow>
          (case insert_values (sqlStrict db) fits_InsertStoryCharacter cut_InsertStoryCharacter
                  (new_StoryCharacter) d (storyCharacters db) of
             Inl e \<Rightarrow> Inl e
           | Inr (i, t) \<Rightarrow> Inr (i, db\<lparr>storyCharacters := t\<rparr>)))"

definition getStoryCharacters ::
  "(StoryCharacter \<Rightarrow> int) \<Rightarrow> store option \<Rightarrow> nat \<Rightarrow> StoryCharacter list" where
  "getStoryCharacters tie conn storyId =
     (case conn of None \<Rightarrow> []
      | Some db \<Rightarrow>
          orderBy tie stc_orderIndex
            (select_where (\<lambda>r. stc_storyId r = storyId) (storyCharacters db)))"

definition updateStoryCharacter ::
  "store option \<Rightarrow> nat \<Rightarrow> PartialStoryCharacter \<Rightarrow>
   error + store option" where
  "updateStoryCharacter conn i d =
     (case conn of None \<Rightarrow> Inr None
      | Some db \<Rightarrow>
          if no_values_PartialStoryCharacter d then Inl (Error ''No values to set'')
          else
            (case update_set (sqlStrict db) (fits_PartialStoryCharacter d) (pstc_id d \<noteq> None) stc_id
                    (\<lambda>r. stc_id r = i)
                    (apply_PartialStoryCharacter (cut_PartialStoryCharacter d)) (storyCharacters db) of
               Inl e \<Rightarrow> Inl e
             | Inr t \<Rightarrow> Inr (Some (db\<lparr>storyCharacters := t\<rparr>))))"

definition deleteStoryCharacter :: "store option \<Rightarrow> nat \<Rightarrow> store option" where
  "deleteStoryCharacter conn i =
     (case conn of None \<Rightarrow> None
      | Some db \<Rightarrow>
          Some (db\<lparr>storyCharacters :=
            delete_where (\<lambda>r. stc_id r = i) (storyCharacters db)\<rparr>))"

subsection \<open>Generated image helpers\<close>

definition new_GeneratedImage ::
  "timestamp \<Rightarrow> InsertGeneratedImage \<Rightarrow> nat \<Rightarrow> GeneratedImage" where
  "new_GeneratedImage now d i =
     \<lparr>gi_id = i, gi_userId = igi_userId d, gi_includePrompt = igi_includePrompt d,
      gi_excludePrompt = dflt None (igi_excludePrompt d),
      gi_cfgScale = dflt (Some 7) (igi_cfgScale d),
      gi_fidelity = dflt (Some 30) (igi_fidelity d),
      gi_aspectRatio = dflt (Some ''square'') (igi_aspectRatio d),
      gi_style = dflt None (igi_style d),
      gi_seed = dflt None (igi_seed d),
      gi_imageUrl = dflt None (igi_imageUrl d),
      gi_createdAt = now\<rparr>"

definition fits_InsertGeneratedImage :: "InsertGeneratedImage \<Rightarrow> bool" where
  "fits_InsertGeneratedImage d = (varchar_null 20 (igi_aspectRatio d) \<and> varchar_null 100 (igi_style d))"

definition cut_InsertGeneratedImage :: "InsertGeneratedImage \<Rightarrow> InsertGeneratedImage" where
  "cut_InsertGeneratedImage d =
     d\<lparr>igi_aspectRatio := cut_null 20 (igi_aspectRatio d),
       igi_style := cut_null 100 (igi_style d)\<rparr>"

definition createGeneratedImage ::
  "store option \<Rightarrow> timestamp \<Rightarrow> InsertGeneratedImage \<Rightarrow> error + nat \<times> store" where
  "createGeneratedImage conn now d =
     (case conn of None \<Rightarrow> Inl (Error ''Database not available'')
      | Some db \<Rightarrow>
          (case insert_values (sqlStrict db) fits_InsertGeneratedImage cut_InsertGeneratedImage
                  (new_GeneratedImage now) d (generatedImages db) of
             Inl e \<Rightarrow> Inl e
           | Inr (i, t) \<Rightarrow> Inr (i, db\<lparr>generatedImages := t\<rparr>)))"

text \<open>The second argument of \<open>getGeneratedImagesByUserId\<close> defaults to 50.\<close>

definition getGeneratedImagesByUserId ::
  "(GeneratedImage \<Rightarrow> int) \<Rightarrow> store option \<Rightarrow> nat \<Rightarrow> nat option \<Rightarrow> GeneratedImage list" where
  "getGeneratedImagesByUserId tie conn userId lim =
     (case conn of None \<Rightarrow> []
      | Some db \<Rightarrow>
          take (dflt 50 lim)
            (orderBy_desc tie gi_createdAt
               (select_where (\<lambda>r. gi_userId r = userId) (generatedImages db))))"

definition deleteGeneratedImage :: "store option \<Rightarrow> nat \<Rightarrow> nat \<Rightarrow> store option" where
  "deleteGeneratedImage conn i userId =
     (case conn of None \<Rightarrow> None
      | Some db \<Rightarrow>
          Some (db\<lparr>generatedImages :=
            delete_where (\<lambda>r. gi_id r = i \<and> gi_userId r = userId) (generatedImages db)\<rparr>))"

section \<open>Routing layer (server/routers.ts)\<close>

text \<open>
  The procedures the properties below are about. A protected procedure receives the
  authenticated caller's id (\<open>ctx.user.id\<close>, the argument \<open>ctxUser\<close>) and its parsed
  input. The procedures on child rows do not read the context at all.
\<close>




definition scenarios_delete :: "store option \<Rightarrow> nat \<Rightarrow> nat \<Rightarrow> store option" where
  "scenarios_delete conn ctxUser inputId = deleteScenario conn inputId ctxUser"

definition chat_deleteMessage :: "store option \<Rightarrow> nat \<Rightarrow> nat \<Rightarrow> store option" where
  "chat_deleteMessage conn ctxUser inputId = deleteChatMessage conn inputId"

section \<open>Notions used by the properties\<close>

text \<open>
  \<open>pk_ok\<close>: the primary-key discipline of an auto-increment table. The ids of the rows
  are pairwise distinct and below the counter. The empty table has it and every
  insert keeps it.
\<close>

definition pk_ok :: "('r \<Rightarrow> nat) \<Rightarrow> 'r table \<Rightarrow> bool" where
  "pk_ok idf t = (distinct (map idf (rows t)) \<and> list_all (\<lambda>r. idf r < nextId t) (rows t))"

text \<open>Two stores that differ only in the \<open>encryptedKey\<close> values of their API keys.\<close>

definition erase_encryptedKey :: "ApiKey \<Rightarrow> ApiKey" where
  "erase_encryptedKey r = r\<lparr>ak_encryptedKey := []\<rparr>"

definition differ_only_in_encryptedKey :: "store \<Rightarrow> store \<Rightarrow> bool" where
  "differ_only_in_encryptedKey db db' =
     (db\<lparr>apiKeys := (apiKeys db)\<lparr>rows := map erase_encryptedKey (rows (apiKeys db))\<rparr>\<rparr> =
      db'\<lparr>apiKeys := (apiKeys db')\<lparr>rows := map erase_encryptedKey (rows (apiKeys db'))\<rparr>\<rparr>)"

text \<open>The child rows of a parent id, per cascade.\<close>

definition scenario_children ::
  "store \<Rightarrow> nat \<Rightarrow> ScenarioInteraction list \<times> ScenarioCharacter list" where
  "scenario_children db i =
     (select_where (\<lambda>r. sci_scenarioId r = i) (scenarioInteractions db),
      select_where (\<lambda>r. scc_scenarioId r = i) (scenarioCharacters db))"

definition session_children :: "store \<Rightarrow> nat \<Rightarrow> ChatMessage list" where
  "session_children db i = select_where (\<lambda>r. cm_sessionId r = i) (chatMessages db)"

definition story_children :: "store \<Rightarrow> nat \<Rightarrow> StoryCharacter list" where
  "story_children db i = select_where (\<lambda>r. stc_storyId r = i) (storyCharacters db)"

text \<open>The store after the first \<open>n\<close> statements of a sequence (a stop after them).\<close>

definition run_prefix :: "nat \<Rightarrow> stmt list \<Rightarrow> store \<Rightarrow> store" where
  "run_prefix n ss db = foldl exec db (take n ss)"

text \<open>An identity that supplies nothing but its \<open>openId\<close>.\<close>

definition only_openId :: "string \<Rightarrow> InsertUser" where
  "only_openId x =
     \<lparr>iu_openId = x, iu_name = None, iu_email = None, iu_loginMethod = None,
      iu_role = None, iu_lastSignedIn = None\<rparr>"

text \<open>
  The normalisation of the specification's wording for \<open>upsertUser\<close>: a supplied
  falsy value (\<open>null\<close> or the empty string) becomes \<open>null\<close>. It is compared with
  \<open>assignNullable\<close> below.
\<close>

definition spec_normalize_falsy :: "string option option \<Rightarrow> string option option" where
  "spec_normalize_falsy field =
     (case field of
        None \<Rightarrow> None
      | Some v \<Rightarrow> Some (case v of None \<Rightarrow> None | Some s \<Rightarrow> if s = [] then None else Some s))"

text \<open>
  A small store for concrete runs, in strict mode: user 1 owns one row of every
  user-owned table, and each parent has child rows. Scenario 1 was created before
  scenario 2 and updated after it, and its two characters have the same \<open>orderIndex\<close>.
\<close>

definition demo_store :: store where
  "demo_store =
     \<lparr>users = empty_table,
      apiKeys = \<lparr>rows = [\<lparr>ak_id = 1, ak_userId = 1, ak_keyName = ''main'',
         ak_encryptedKey = ''c1ph3r'', ak_lastUsed = None, ak_createdAt = 10\<rparr>], nextId = 2\<rparr>,
      characters = \<lparr>rows = [\<lparr>ch_id = 1, ch_userId = 1, ch_name = ''Ann'', ch_label = ''a'',
         ch_promptDescription = Some ''brave'', ch_displayDescription = None,
         ch_imageUrl = None, ch_isUserCharacter = Some False,
         ch_createdAt = 10, ch_updatedAt = 10\<rparr>], nextId = 2\<rparr>,
      scenarios = \<lparr>rows =
        [\<lparr>sc_id = 1, sc_userId = 1, sc_title = ''Inn'', sc_promptDescription = Some ''an inn'',
          sc_displayDescription = None, sc_imageUrl = None, sc_isPublic = Some True,
          sc_createdAt = 10, sc_updatedAt = 50\<rparr>,
         \<lparr>sc_id = 2, sc_userId = 1, sc_title = ''Moor'', sc_promptDescription = None,
          sc_displayDescription = None, sc_imageUrl = None, sc_isPublic = Some True,
          sc_createdAt = 20, sc_updatedAt = 20\<rparr>], nextId = 3\<rparr>,
      scenarioCharacters = \<lparr>rows =
        [\<lparr>scc_id = 1, scc_scenarioId = 1, scc_characterId = None, scc_name = ''Ann'',
          scc_label = ''a'', scc_promptDescription = None, scc_isUserCharacter = Some False,
          scc_orderIndex = Some 0\<rparr>,
         \<lparr>scc_id = 2, scc_scenarioId = 1, scc_characterId = None, scc_name = ''Bob'',
          scc_label = ''b'', scc_promptDescription = None, scc_isUserCharacter = Some True,
          scc_orderIndex = Some 0\<rparr>], nextId = 3\<rparr>,
      scenarioInteractions = \<lparr>rows = [\<lparr>sci_id = 1, sci_scenarioId = 1,
         sci_interactionType = ITText, sci_characterLabel = None, sci_content = ''hi'',
         sci_isSticky = Some False, sci_orderIndex = Some 0\<rparr>], nextId = 2\<rparr>,
      chatSessions = \<lparr>rows = [\<lparr>cs_id = 1, cs_userId = 1, cs_scenarioId = None,
         cs_title = ''Evening'', cs_systemPrompt = None,
         cs_modelId = Some ''lucid-v1-medium'', cs_samplingParams = None,
         cs_createdAt = 10, cs_updatedAt = 10\<rparr>], nextId = 2\<rparr>,
      chatMessages = \<lparr>rows = [\<lparr>cm_id = 1, cm_sessionId = 1, cm_messageType = MTUser,
         cm_characterLabel = None, cm_characterName = None, cm_content = ''hello'',
         cm_isSticky = Some False, cm_createdAt = 11\<rparr>], nextId = 2\<rparr>,
      stories = \<lparr>rows = [\<lparr>st_id = 1, st_userId = 1, st_title = ''Tale'',
         st_plotDescription = None, st_styleDescription = None, st_content = None,
         st_modelId = Some ''lucid-v1-medium'', st_samplingParams = None,
         st_createdAt = 10, st_updatedAt = 10\<rparr>], nextId = 2\<rparr>,
      storyCharacters = \<lparr>rows = [\<lparr>stc_id = 1, stc_storyId = 1, stc_name = ''Bo'',
         stc_description = None, stc_orderIndex = Some 0\<rparr>], nextId = 2\<rparr>,
      generatedImages = \<lparr>rows = [\<lparr>gi_id = 1, gi_userId = 1, gi_includePrompt = ''a moor'',
         gi_excludePrompt = None, gi_cfgScale = Some 7, gi_fidelity = Some 30,
         gi_aspectRatio = Some ''square'', gi_style = None, gi_seed = None,
         gi_imageUrl = None, gi_createdAt = 10\<rparr>], nextId = 2\<rparr>,
      sqlStrict = True\<rparr>"

text \<open>A character that user 1 creates in a concrete run.\<close>

definition demo_character :: InsertCharacter where
  "demo_character = \<lparr>ich_userId = 1, ich_name = ''Cat'', ich_label = ''cat'',
     ich_promptDescription = None, ich_displayDescription = None, ich_imageUrl = None,
     ich_isUserCharacter = None\<rparr>"

text \<open>
  A listing \<open>out\<close> of the rows \<open>src\<close> in the order \<open>ord\<close> of the key \<open>k\<close>: the keys
  of \<open>out\<close> are in that order and \<open>out\<close> holds exactly the rows of \<open>src\<close>.
\<close>

definition listed :: "('k \<Rightarrow> 'k \<Rightarrow> bool) \<Rightarrow> ('r \<Rightarrow> 'k) \<Rightarrow> 'r list \<Rightarrow> 'r list \<Rightarrow> bool" where
  "listed ord k src out = (sorted_wrt ord (map k out) \<and> mset out = mset src)"

text \<open>
  Two ranks a store may read its rows by: the order of insertion, and the reverse of
  it.
\<close>

definition as_inserted :: "'r \<Rightarrow> int" where
  "as_inserted r = 0"

definition latest_first :: "('r \<Rightarrow> nat) \<Rightarrow> 'r \<Rightarrow> int" where
  "latest_first idf r = - int (idf r)"

text \<open>The partial objects with every key \<open>undefined\<close>.\<close>

definition undefined_PartialCharacter :: PartialCharacter where
  "undefined_PartialCharacter =
     \<lparr>pch_id = None, pch_userId = None, pch_name = None, pch_label = None,
      pch_promptDescription = None, pch_displayDescription = None, pch_imageUrl = None,
      pch_isUserCharacter = None, pch_createdAt = None, pch_updatedAt = None\<rparr>"

definition undefined_PartialScenario :: PartialScenario where
  "undefined_PartialScenario =
     \<lparr>psc_id = None, psc_userId = None, psc_title = None, psc_promptDescription = None,
      psc_displayDescription = None, psc_imageUrl = None, psc_isPublic = None,
      psc_createdAt = None, psc_updatedAt = None\<rparr>"









section \<open>Properties\<close>

subsection \<open>Statements on one table\<close>

lemma select_where_delete_where [simp]:
  "select_where p (delete_where p t) = []"
  by (simp add: select_where_def delete_where_def)

lemma rows_delete_where [simp]:
  "rows (delete_where p t) = filter (\<lambda>r. \<not> p r) (rows t)"
  by (simp add: delete_where_def)

lemma nextId_delete_where [simp]: "nextId (delete_where p t) = nextId t"
  by (simp add: delete_where_def)

lemma delete_where_no_match:
  assumes "\<And>r. r \<in> set (rows t) \<Longrightarrow> \<not> p r"
  shows "delete_where p t = t"
proof -
  have "filter (\<lambda>r. \<not> p r) (rows t) = rows t"
    using assms by (simp add: filter_id_conv)
  then show ?thesis by (simp add: delete_where_def)
qed

lemma update_where_no_match:
  assumes "\<And>r. r \<in> set (rows t) \<Longrightarrow> \<not> p r"
  shows "update_where p f t = t"
proof -
  have "map (\<lambda>r. if p r then f r else r) (rows t) = rows t"
    using assms by (simp add: map_idI)
  then show ?thesis by (simp add: update_where_def)
qed

lemma find_no_match:
  assumes "\<And>r. r \<in> set xs \<Longrightarrow> \<not> p r"
  shows "find p xs = None"
  using assms by (simp add: find_None_iff)


subsection \<open>The API-key list never shows the ciphertext\<close>

lemma list_sees_erased_rows:
  "map (\<lambda>r. \<lparr>aki_id = ak_id r, aki_keyName = ak_keyName r,
              aki_lastUsed = ak_lastUsed r, aki_createdAt = ak_createdAt r\<rparr>)
     (filter (\<lambda>r. ak_userId r = u) xs) =
   map (\<lambda>r. \<lparr>aki_id = ak_id r, aki_keyName = ak_keyName r,
              aki_lastUsed = ak_lastUsed r, aki_createdAt = ak_createdAt r\<rparr>)
     (filter (\<lambda>r. ak_userId r = u) (map erase_encryptedKey xs))"
  by (induction xs) (simp_all add: erase_encryptedKey_def)

lemma differ_only_rows:
  assumes "differ_only_in_encryptedKey db db'"
  shows "map erase_encryptedKey (rows (apiKeys db)) =
         map erase_encryptedKey (rows (apiKeys db'))"
proof -
  from assms have
    "rows (apiKeys (db\<lparr>apiKeys :=
        (apiKeys db)\<lparr>rows := map erase_encryptedKey (rows (apiKeys db))\<rparr>\<rparr>)) =
     rows (apiKeys (db'\<lparr>apiKeys :=
        (apiKeys db')\<lparr>rows := map erase_encryptedKey (rows (apiKeys db'))\<rparr>\<rparr>))"
    unfolding differ_only_in_encryptedKey_def by (rule arg_cong)
  then show ?thesis by simp
qed

text \<open>
  C10. The rows of \<open>getApiKeysByUserId\<close> have the four columns \<open>id\<close>, \<open>keyName\<close>,
  \<open>lastUsed\<close> and \<open>createdAt\<close> (the type \<open>ApiKeyInfo\<close>), and for every user id two
  stores that differ only in \<open>encryptedKey\<close> values give the same list.
\<close>

theorem list_hides_encryptedKey:
  assumes "differ_only_in_encryptedKey db db'"
  shows "getApiKeysByUserId (Some db) userId = getApiKeysByUserId (Some db') userId"
  using differ_only_rows [OF assms]
  by (simp add: getApiKeysByUserId_def select_where_def
        list_sees_erased_rows [of userId "rows (apiKeys db)"]
        list_sees_erased_rows [of userId "rows (apiKeys db')"])

theorem list_hides_encryptedKey_witness:
  "differ_only_in_encryptedKey demo_store
     (demo_store\<lparr>apiKeys := update_where (\<lambda>r. True) (\<lambda>r. r\<lparr>ak_encryptedKey := ''0ther''\<rparr>)
        (apiKeys demo_store)\<rparr>) \<and>
   getApiKeysByUserId (Some demo_store) 1 =
     [\<lparr>aki_id = 1, aki_keyName = ''main'', aki_lastUsed = None, aki_createdAt = 10\<rparr>] \<and>
   getApiKeysByUserId
     (Some (demo_store\<lparr>apiKeys := update_where (\<lambda>r. True) (\<lambda>r. r\<lparr>ak_encryptedKey := ''0ther''\<rparr>)
        (apiKeys demo_store)\<rparr>)) 1 =
     getApiKeysByUserId (Some demo_store) 1"
proof -
  have h: "differ_only_in_encryptedKey demo_store
     (demo_store\<lparr>apiKeys := update_where (\<lambda>r. True) (\<lambda>r. r\<lparr>ak_encryptedKey := ''0ther''\<rparr>)
        (apiKeys demo_store)\<rparr>)"
    by (simp add: differ_only_in_encryptedKey_def demo_store_def erase_encryptedKey_def
          update_where_def)
  have v: "getApiKeysByUserId (Some demo_store) 1 =
     [\<lparr>aki_id = 1, aki_keyName = ''main'', aki_lastUsed = None, aki_createdAt = 10\<rparr>]"
    by (simp add: getApiKeysByUserId_def demo_store_def select_where_def)
  from h v list_hides_encryptedKey [OF h, of 1] show ?thesis by simp
qed

subsection \<open>The unavailable store\<close>

text \<open>
  C6. With no connection every list operation returns the empty list, every get
  operation returns nothing, every create operation raises
  \<open>Database not available\<close>, and every update and delete operation returns
  silently, the connection still missing. \<open>upsertUser\<close>, which returns no result,
  returns silently as well once its \<open>openId\<close> check has passed.
\<close>

theorem unavailable_outcomes:
  "getApiKeysByUserId None userId = [] \<and>
   getCharactersByUserId tie_ch None userId = [] \<and>
   getScenariosByUserId tie_sc None userId = [] \<and>
   getPublicScenarios tie_sc like None searchQuery = [] \<and>
   getScenarioCharacters tie_scc None i = [] \<and>
   getScenarioInteractions tie_sci None i = [] \<and>
   getChatSessionsByUserId tie_cs None userId = [] \<and>
   getChatMessages tie_cm None i = [] \<and>
   getStoriesByUserId tie_st None userId = [] \<and>
   getStoryCharacters tie_stc None i = [] \<and>
   getGeneratedImagesByUserId tie_gi None userId lim = [] \<and>
   getUserByOpenId None openId = None \<and>
   getApiKeyById None i userId = None \<and>
   getCharacterById None i userId = None \<and>
   getScenarioById None i = None \<and>
   getChatSessionById None i userId = None \<and>
   getStoryById None i userId = None \<and>
   createApiKey None now dak = Inl (Error ''Database not available'') \<and>
   createCharacter None now dch = Inl (Error ''Database not available'') \<and>
   createScenario None now dsc = Inl (Error ''Database not available'') \<and>
   addScenarioCharacter None dscc = Inl (Error ''Database not available'') \<and>
   addScenarioInteraction None dsci = Inl (Error ''Database not available'') \<and>
   createChatSession None now dcs = Inl (Error ''Database not available'') \<and>
   addChatMessage None now dcm = Inl (Error ''Database not available'') \<and>
   createStory None now dst = Inl (Error ''Database not available'') \<and>
   addStoryCharacter None dstc = Inl (Error ''Database not available'') \<and>
   createGeneratedImage None now dgi = Inl (Error ''Database not available'') \<and>
   updateApiKeyLastUsed None now i = None \<and>
   updateCharacter None now i userId pch = Inr None \<and>
   updateScenario None now i userId psc = Inr None \<and>
   updateScenarioInteraction None i psci = Inr None \<and>
   updateChatSession None now i userId pcs = Inr None \<and>
   updateStory None now i userId pst = Inr None \<and>
   updateStoryCharacter None i pstc = Inr None \<and>
   deleteApiKey None i userId = None \<and>
   deleteCharacter None i userId = None \<and>
   deleteScenario None i userId = None \<and>
   deleteScenarioCharacter None i = None \<and>
   deleteScenarioInteraction None i = None \<and>
   deleteChatSession None i userId = None \<and>
   deleteChatMessage None i = None \<and>
   deleteStory None i userId = None \<and>
   deleteStoryCharacter None i = None \<and>
   deleteGeneratedImage None i userId = None \<and>
   upsertUser ownerOpenId None now user =
     (if iu_openId user = [] then Inl (Error ''User openId is required for upsert'')
      else Inr None)"
  by (simp add: upsertUser_def getUserByOpenId_def getApiKeysByUserId_def getCharactersByUserId_def
      getScenariosByUserId_def getPublicScenarios_def getScenarioCharacters_def
      getScenarioInteractions_def getChatSessionsByUserId_def getChatMessages_def
      getStoriesByUserId_def getStoryCharacters_def getGeneratedImagesByUserId_def
      getApiKeyById_def getCharacterById_def getScenarioById_def getChatSessionById_def
      getStoryById_def createApiKey_def createCharacter_def createScenario_def
      addScenarioCharacter_def addScenarioInteraction_def createChatSession_def
      addChatMessage_def createStory_def addStoryCharacter_def createGeneratedImage_def
      updateApiKeyLastUsed_def updateCharacter_def updateScenario_def
      updateScenarioInteraction_def updateChatSession_def updateStory_def
      updateStoryCharacter_def deleteApiKey_def deleteCharacter_def deleteScenario_def
      deleteScenarioCharacter_def deleteScenarioInteraction_def deleteChatSession_def
      deleteChatMessage_def deleteStory_def deleteStoryCharacter_def deleteGeneratedImage_def)

subsection \<open>Cascading deletes\<close>

lemma deleteScenario_eq:
  "deleteScenario (Some db) i userId =
     Some (db\<lparr>scenarioInteractions :=
               delete_where (\<lambda>r. sci_scenarioId r = i) (scenarioInteractions db),
             scenarioCharacters :=
               delete_where (\<lambda>r. scc_scenarioId r = i) (scenarioCharacters db),
             scenarios :=
               delete_where (\<lambda>r. sc_id r = i \<and> sc_userId r = userId) (scenarios db)\<rparr>)"
  by (simp add: deleteScenario_def deleteScenario_stmts_def)

lemma deleteChatSession_eq:
  "deleteChatSession (Some db) i userId =
     Some (db\<lparr>chatMessages := delete_where (\<lambda>r. cm_sessionId r = i) (chatMessages db),
             chatSessions :=
               delete_where (\<lambda>r. cs_id r = i \<and> cs_userId r = userId) (chatSessions db)\<rparr>)"
  by (simp add: deleteChatSession_def deleteChatSession_stmts_def)

lemma deleteStory_eq:
  "deleteStory (Some db) i userId =
     Some (db\<lparr>storyCharacters := delete_where (\<lambda>r. stc_storyId r = i) (storyCharacters db),
             stories := delete_where (\<lambda>r. st_id r = i \<and> st_userId r = userId) (stories db)\<rparr>)"
  by (simp add: deleteStory_def deleteStory_stmts_def)

lemma prefix_cases: "(n::nat) = 0 \<or> n = 1 \<or> n = 2 \<or> 3 \<le> n"
  by arith

lemma scenario_prefix:
  "scenarios (run_prefix n (deleteScenario_stmts i userId) db) = scenarios db \<or>
   scenario_children (run_prefix n (deleteScenario_stmts i userId) db) i = ([], [])"
  using prefix_cases [of n]
  by (elim disjE) (simp_all add: run_prefix_def deleteScenario_stmts_def scenario_children_def)

lemma session_prefix:
  "chatSessions (run_prefix n (deleteChatSession_stmts i userId) db) = chatSessions db \<or>
   session_children (run_prefix n (deleteChatSession_stmts i userId) db) i = []"
  using prefix_cases [of n]
  by (elim disjE) (simp_all add: run_prefix_def deleteChatSession_stmts_def session_children_def)

lemma story_prefix:
  "stories (run_prefix n (deleteStory_stmts i userId) db) = stories db \<or>
   story_children (run_prefix n (deleteStory_stmts i userId) db) i = []"
  using prefix_cases [of n]
  by (elim disjE) (simp_all add: run_prefix_def deleteStory_stmts_def story_children_def)

lemma take_prefix_cases:
  "take n [a, b, c] = (if n = 0 then [] else if n = 1 then [a] else if n = 2 then [a, b] else [a, b, c])"
  "take n [a, b] = (if n = 0 then [] else if n = 1 then [a] else [a, b])"
  by (cases n; simp; cases "n - 1"; simp; cases "n - 2"; simp)+

lemma cascade_exact:
  "deleteScenario (Some db) i userId =
     Some (db\<lparr>scenarioInteractions :=
              (scenarioInteractions db)\<lparr>rows := filter (\<lambda>r. sci_scenarioId r \<noteq> i) (rows (scenarioInteractions db))\<rparr>,
            scenarioCharacters :=
              (scenarioCharacters db)\<lparr>rows := filter (\<lambda>r. scc_scenarioId r \<noteq> i) (rows (scenarioCharacters db))\<rparr>,
            scenarios :=
              (scenarios db)\<lparr>rows := filter (\<lambda>r. \<not> (sc_id r = i \<and> sc_userId r = userId)) (rows (scenarios db))\<rparr>\<rparr>) \<and>
   deleteChatSession (Some db) i userId =
     Some (db\<lparr>chatMessages :=
              (chatMessages db)\<lparr>rows := filter (\<lambda>r. cm_sessionId r \<noteq> i) (rows (chatMessages db))\<rparr>,
            chatSessions :=
              (chatSessions db)\<lparr>rows := filter (\<lambda>r. \<not> (cs_id r = i \<and> cs_userId r = userId)) (rows (chatSessions db))\<rparr>\<rparr>) \<and>
   deleteStory (Some db) i userId =
     Some (db\<lparr>storyCharacters :=
              (storyCharacters db)\<lparr>rows := filter (\<lambda>r. stc_storyId r \<noteq> i) (rows (storyCharacters db))\<rparr>,
            stories :=
              (stories db)\<lparr>rows := filter (\<lambda>r. \<not> (st_id r = i \<and> st_userId r = userId)) (rows (stories db))\<rparr>\<rparr>) \<and>
   run_prefix n (deleteScenario_stmts i userId) db =
     (if n = 0 then db
      else if n = 1 then db\<lparr>scenarioInteractions :=
              (scenarioInteractions db)\<lparr>rows := filter (\<lambda>r. sci_scenarioId r \<noteq> i) (rows (scenarioInteractions db))\<rparr>\<rparr>
      else if n = 2 then db\<lparr>scenarioInteractions :=
              (scenarioInteractions db)\<lparr>rows := filter (\<lambda>r. sci_scenarioId r \<noteq> i) (rows (scenarioInteractions db))\<rparr>,
            scenarioCharacters :=
              (scenarioCharacters db)\<lparr>rows := filter (\<lambda>r. scc_scenarioId r \<noteq> i) (rows (scenarioCharacters db))\<rparr>\<rparr>
      else db\<lparr>scenarioInteractions :=
              (scenarioInteractions db)\<lparr>rows := filter (\<lambda>r. sci_scenarioId r \<noteq> i) (rows (scenarioInteractions db))\<rparr>,
            scenarioCharacters :=
              (scenarioCharacters db)\<lparr>rows := filter (\<lambda>r. scc_scenarioId r \<noteq> i) (rows (scenarioCharacters db))\<rparr>,
            scenarios :=
              (scenarios db)\<lparr>rows := filter (\<lambda>r. \<not> (sc_id r = i \<and> sc_userId r = userId)) (rows (scenarios db))\<rparr>\<rparr>) \<and>
   run_prefix n (deleteChatSession_stmts i userId) db =
     (if n = 0 then db
      else if n = 1 then db\<lparr>chatMessages :=
              (chatMessages db)\<lparr>rows := filter (\<lambda>r. cm_sessionId r \<noteq> i) (rows (chatMessages db))\<rparr>\<rparr>
      else db\<lparr>chatMessages :=
              (chatMessages db)\<lparr>rows := filter (\<lambda>r. cm_sessionId r \<noteq> i) (rows (chatMessages db))\<rparr>,
            chatSessions :=
              (chatSessions db)\<lparr>rows := filter (\<lambda>r. \<not> (cs_id r = i \<and> cs_userId r = userId)) (rows (chatSessions db))\<rparr>\<rparr>) \<and>
   run_prefix n (deleteStory_stmts i userId) db =
     (if n = 0 then db
      else if n = 1 then db\<lparr>storyCharacters :=
              (storyCharacters db)\<lparr>rows := filter (\<lambda>r. stc_storyId r \<noteq> i) (rows (storyCharacters db))\<rparr>\<rparr>
      else db\<lparr>storyCharacters :=
              (storyCharacters db)\<lparr>rows := filter (\<lambda>r. stc_storyId r \<noteq> i) (rows (storyCharacters db))\<rparr>,
            stories :=
              (stories db)\<lparr>rows := filter (\<lambda>r. \<not> (st_id r = i \<and> st_userId r = userId)) (rows (stories db))\<rparr>\<rparr>)"
  by (simp add: deleteScenario_def deleteChatSession_def deleteStory_def run_prefix_def
        take_prefix_cases deleteScenario_stmts_def deleteChatSession_stmts_def
        deleteStory_stmts_def delete_where_def)

text \<open>
  C3. For Scenario, ChatSession and Story the delete runs the child-table deletes for
  the parent id first and the delete of the parent row last, and each statement removes
  the rows it names and no others. The store after the delete, and after every prefix
  of the statement sequence, is given exactly: the child tables lose the rows of the
  parent id and keep every other row, the parent table loses the row of that id and
  owner, and nothing else changes. So after the delete no child row references the
  parent id, and after every prefix either the parent table is still untouched or the
  children are already gone.
\<close>

theorem cascade_delete_complete:
  "deleteScenario (Some db) i userId =
     Some (db\<lparr>scenarioInteractions :=
              (scenarioInteractions db)\<lparr>rows := filter (\<lambda>r. sci_scenarioId r \<noteq> i) (rows (scenarioInteractions db))\<rparr>,
            scenarioCharacters :=
              (scenarioCharacters db)\<lparr>rows := filter (\<lambda>r. scc_scenarioId r \<noteq> i) (rows (scenarioCharacters db))\<rparr>,
            scenarios :=
              (scenarios db)\<lparr>rows := filter (\<lambda>r. \<not> (sc_id r = i \<and> sc_userId r = userId)) (rows (scenarios db))\<rparr>\<rparr>) \<and>
   deleteChatSession (Some db) i userId =
     Some (db\<lparr>chatMessages :=
              (chatMessages db)\<lparr>rows := filter (\<lambda>r. cm_sessionId r \<noteq> i) (rows (chatMessages db))\<rparr>,
            chatSessions :=
              (chatSessions db)\<lparr>rows := filter (\<lambda>r. \<not> (cs_id r = i \<and> cs_userId r = userId)) (rows (chatSessions db))\<rparr>\<rparr>) \<and>
   deleteStory (Some db) i userId =
     Some (db\<lparr>storyCharacters :=
              (storyCharacters db)\<lparr>rows := filter (\<lambda>r. stc_storyId r \<noteq> i) (rows (storyCharacters db))\<rparr>,
            stories :=
              (stories db)\<lparr>rows := filter (\<lambda>r. \<not> (st_id r = i \<and> st_userId r = userId)) (rows (stories db))\<rparr>\<rparr>) \<and>
   run_prefix n (deleteScenario_stmts i userId) db =
     (if n = 0 then db
      else if n = 1 then db\<lparr>scenarioInteractions :=
              (scenarioInteractions db)\<lparr>rows := filter (\<lambda>r. sci_scenarioId r \<noteq> i) (rows (scenarioInteractions db))\<rparr>\<rparr>
      else if n = 2 then db\<lparr>scenarioInteractions :=
              (scenarioInteractions db)\<lparr>rows := filter (\<lambda>r. sci_scenarioId r \<noteq> i) (rows (scenarioInteractions db))\<rparr>,
            scenarioCharacters :=
              (scenarioCharacters db)\<lparr>rows := filter (\<lambda>r. scc_scenarioId r \<noteq> i) (rows (scenarioCharacters db))\<rparr>\<rparr>
      else db\<lparr>scenarioInteractions :=
              (scenarioInteractions db)\<lparr>rows := filter (\<lambda>r. sci_scenarioId r \<noteq> i) (rows (scenarioInteractions db))\<rparr>,
            scenarioCharacters :=
              (scenarioCharacters db)\<lparr>rows := filter (\<lambda>r. scc_scenarioId r \<noteq> i) (rows (scenarioCharacters db))\<rparr>,
            scenarios :=
              (scenarios db)\<lparr>rows := filter (\<lambda>r. \<not> (sc_id r = i \<and> sc_userId r = userId)) (rows (scenarios db))\<rparr>\<rparr>) \<and>
   run_prefix n (deleteChatSession_stmts i userId) db =
     (if n = 0 then db
      else if n = 1 then db\<lparr>chatMessages :=
              (chatMessages db)\<lparr>rows := filter (\<lambda>r. cm_sessionId r \<noteq> i) (rows (chatMessages db))\<rparr>\<rparr>
      else db\<lparr>chatMessages :=
              (chatMessages db)\<lparr>rows := filter (\<lambda>r. cm_sessionId r \<noteq> i) (rows (chatMessages db))\<rparr>,
            chatSessions :=
              (chatSessions db)\<lparr>rows := filter (\<lambda>r. \<not> (cs_id r = i \<and> cs_userId r = userId)) (rows (chatSessions db))\<rparr>\<rparr>) \<and>
   run_prefix n (deleteStory_stmts i userId) db =
     (if n = 0 then db
      else if n = 1 then db\<lparr>storyCharacters :=
              (storyCharacters db)\<lparr>rows := filter (\<lambda>r. stc_storyId r \<noteq> i) (rows (storyCharacters db))\<rparr>\<rparr>
      else db\<lparr>storyCharacters :=
              (storyCharacters db)\<lparr>rows := filter (\<lambda>r. stc_storyId r \<noteq> i) (rows (storyCharacters db))\<rparr>,
            stories :=
              (stories db)\<lparr>rows := filter (\<lambda>r. \<not> (st_id r = i \<and> st_userId r = userId)) (rows (stories db))\<rparr>\<rparr>) \<and>
   map_option (\<lambda>db'. (scenario_children db' i,
        select_where (\<lambda>r. sc_id r = i \<and> sc_userId r = userId) (scenarios db')))
     (deleteScenario (Some db) i userId) = Some (([], []), []) \<and>
   map_option (\<lambda>db'. (session_children db' i,
        select_where (\<lambda>r. cs_id r = i \<and> cs_userId r = userId) (chatSessions db')))
     (deleteChatSession (Some db) i userId) = Some ([], []) \<and>
   map_option (\<lambda>db'. (story_children db' i,
        select_where (\<lambda>r. st_id r = i \<and> st_userId r = userId) (stories db')))
     (deleteStory (Some db) i userId) = Some ([], []) \<and>
   deleteScenario (Some db) i userId =
     Some (run_prefix (length (deleteScenario_stmts i userId)) (deleteScenario_stmts i userId) db) \<and>
   deleteChatSession (Some db) i userId =
     Some (run_prefix (length (deleteChatSession_stmts i userId))
        (deleteChatSession_stmts i userId) db) \<and>
   deleteStory (Some db) i userId =
     Some (run_prefix (length (deleteStory_stmts i userId)) (deleteStory_stmts i userId) db) \<and>
   (scenarios (run_prefix n (deleteScenario_stmts i userId) db) = scenarios db \<or>
    scenario_children (run_prefix n (deleteScenario_stmts i userId) db) i = ([], [])) \<and>
   (chatSessions (run_prefix n (deleteChatSession_stmts i userId) db) = chatSessions db \<or>
    session_children (run_prefix n (deleteChatSession_stmts i userId) db) i = []) \<and>
   (stories (run_prefix n (deleteStory_stmts i userId) db) = stories db \<or>
    story_children (run_prefix n (deleteStory_stmts i userId) db) i = [])"
proof -
  have a: "map_option (\<lambda>db'. (scenario_children db' i,
        select_where (\<lambda>r. sc_id r = i \<and> sc_userId r = userId) (scenarios db')))
     (deleteScenario (Some db) i userId) = Some (([], []), [])"
    by (simp add: deleteScenario_eq scenario_children_def)
  have b: "map_option (\<lambda>db'. (session_children db' i,
        select_where (\<lambda>r. cs_id r = i \<and> cs_userId r = userId) (chatSessions db')))
     (deleteChatSession (Some db) i userId) = Some ([], [])"
    by (simp add: deleteChatSession_eq session_children_def)
  have c: "map_option (\<lambda>db'. (story_children db' i,
        select_where (\<lambda>r. st_id r = i \<and> st_userId r = userId) (stories db')))
     (deleteStory (Some db) i userId) = Some ([], [])"
    by (simp add: deleteStory_eq story_children_def)
  have d: "deleteScenario (Some db) i userId =
     Some (run_prefix (length (deleteScenario_stmts i userId)) (deleteScenario_stmts i userId) db)"
    by (simp add: deleteScenario_def run_prefix_def)
  have e: "deleteChatSession (Some db) i userId =
     Some (run_prefix (length (deleteChatSession_stmts i userId))
        (deleteChatSession_stmts i userId) db)"
    by (simp add: deleteChatSession_def run_prefix_def)
  have f: "deleteStory (Some db) i userId =
     Some (run_prefix (length (deleteStory_stmts i userId)) (deleteStory_stmts i userId) db)"
    by (simp add: deleteStory_def run_prefix_def)
  note g = scenario_prefix [of n i userId db]
  note h = session_prefix [of n i userId db]
  note k = story_prefix [of n i userId db]
  note x = cascade_exact [of db i userId n]
  from x a b c d e f g h k show ?thesis by (intro conjI) (simp_all only:)
qed

theorem cascade_delete_complete_witness:
  "scenario_children demo_store 1 \<noteq> ([], []) \<and>
   session_children demo_store 1 \<noteq> [] \<and>
   story_children demo_store 1 \<noteq> [] \<and>
   map_option (\<lambda>db'. (scenario_children db' 1,
        select_where (\<lambda>r. sc_id r = 1 \<and> sc_userId r = 1) (scenarios db')))
     (deleteScenario (Some demo_store) 1 1) = Some (([], []), []) \<and>
   map_option (\<lambda>db'. map sc_id (rows (scenarios db'))) (deleteScenario (Some demo_store) 1 1) =
     Some [2] \<and>
   map_option (\<lambda>db'. (scenario_children db' 1, map sc_id (rows (scenarios db'))))
     (deleteScenario (Some demo_store) 2 1) = Some (scenario_children demo_store 1, [1])"
proof -
  have a: "scenario_children demo_store 1 \<noteq> ([], [])"
    by (simp add: scenario_children_def demo_store_def select_where_def)
  have b: "session_children demo_store 1 \<noteq> []"
    by (simp add: session_children_def demo_store_def select_where_def)
  have c: "story_children demo_store 1 \<noteq> []"
    by (simp add: story_children_def demo_store_def select_where_def)
  note t1 = cascade_delete_complete [of demo_store 1 1 3]
  note t2 = cascade_delete_complete [of demo_store 2 1 3, THEN conjunct1]
  have e: "map_option (\<lambda>db'. (scenario_children db' 1,
        select_where (\<lambda>r. sc_id r = 1 \<and> sc_userId r = 1) (scenarios db')))
     (deleteScenario (Some demo_store) 1 1) = Some (([], []), [])"
    using t1 by blast
  have d: "map_option (\<lambda>db'. map sc_id (rows (scenarios db'))) (deleteScenario (Some demo_store) 1 1) =
     Some [2]"
    using t1 [THEN conjunct1] by (simp add: demo_store_def)
  have f: "map_option (\<lambda>db'. (scenario_children db' 1, map sc_id (rows (scenarios db'))))
     (deleteScenario (Some demo_store) 2 1) = Some (scenario_children demo_store 1, [1])"
    using t2 by (simp add: scenario_children_def select_where_def demo_store_def)
  from a b c e d f show ?thesis by (intro conjI)
qed

text \<open>
  C9. The child deletes of \<open>deleteScenario\<close>, \<open>deleteChatSession\<close> and
  \<open>deleteStory\<close> filter by the parent id alone: the child tables keep exactly the rows
  of other parents, whoever calls. Called with a user id that does not own the parent
  row, the delete removes every child row of that parent id and the parent row stays.
\<close>

theorem foreign_cascade_delete:
  "(p \<in> set (rows (scenarios db)) \<and> sc_id p = i \<and> sc_userId p \<noteq> userId \<longrightarrow>
      map_option (\<lambda>db'. (p \<in> set (rows (scenarios db')), scenario_children db' i))
        (deleteScenario (Some db) i userId) = Some (True, [], [])) \<and>
   (q \<in> set (rows (chatSessions db)) \<and> cs_id q = i \<and> cs_userId q \<noteq> userId \<longrightarrow>
      map_option (\<lambda>db'. (q \<in> set (rows (chatSessions db')), session_children db' i))
        (deleteChatSession (Some db) i userId) = Some (True, [])) \<and>
   (s \<in> set (rows (stories db)) \<and> st_id s = i \<and> st_userId s \<noteq> userId \<longrightarrow>
      map_option (\<lambda>db'. (s \<in> set (rows (stories db')), story_children db' i))
        (deleteStory (Some db) i userId) = Some (True, [])) \<and>
   map_option (\<lambda>db'. (rows (scenarioInteractions db'), rows (scenarioCharacters db')))
     (deleteScenario (Some db) i userId) =
     Some (filter (\<lambda>r. sci_scenarioId r \<noteq> i) (rows (scenarioInteractions db)),
           filter (\<lambda>r. scc_scenarioId r \<noteq> i) (rows (scenarioCharacters db))) \<and>
   map_option (\<lambda>db'. rows (chatMessages db')) (deleteChatSession (Some db) i userId) =
     Some (filter (\<lambda>r. cm_sessionId r \<noteq> i) (rows (chatMessages db))) \<and>
   map_option (\<lambda>db'. rows (storyCharacters db')) (deleteStory (Some db) i userId) =
     Some (filter (\<lambda>r. stc_storyId r \<noteq> i) (rows (storyCharacters db)))"
  by (simp add: deleteScenario_eq deleteChatSession_eq deleteStory_eq scenario_children_def
        session_children_def story_children_def)

theorem foreign_cascade_delete_witness:
  "hd (rows (scenarios demo_store)) \<in> set (rows (scenarios demo_store)) \<and>
   sc_id (hd (rows (scenarios demo_store))) = 1 \<and>
   sc_userId (hd (rows (scenarios demo_store))) \<noteq> 2 \<and>
   scenario_children demo_store 1 \<noteq> ([], []) \<and>
   map_option (\<lambda>db'. (hd (rows (scenarios demo_store)) \<in> set (rows (scenarios db')),
        scenario_children db' 1))
     (deleteScenario (Some demo_store) 1 2) = Some (True, [], [])"
proof -
  have h: "hd (rows (scenarios demo_store)) \<in> set (rows (scenarios demo_store)) \<and>
   sc_id (hd (rows (scenarios demo_store))) = 1 \<and>
   sc_userId (hd (rows (scenarios demo_store))) \<noteq> 2"
    by (simp add: demo_store_def)
  have c: "scenario_children demo_store 1 \<noteq> ([], [])"
    by (simp add: scenario_children_def demo_store_def select_where_def)
  from h c foreign_cascade_delete [of "hd (rows (scenarios demo_store))" demo_store 1 2]
  show ?thesis by simp
qed

subsection \<open>Ownership checks\<close>

lemma find_append_miss:
  "find p xs = None \<Longrightarrow> find p (xs @ ys) = find p ys"
  by (induction xs) (auto split: if_splits)

lemma pk_ok_below:
  assumes "pk_ok idf t" and "r \<in> set (rows t)"
  shows "idf r < nextId t"
  using assms by (simp add: pk_ok_def list_all_iff)

lemma pk_ok_distinct: "pk_ok idf t \<Longrightarrow> distinct (map idf (rows t))"
  by (simp add: pk_ok_def)

lemma insert_row_foreign:
  assumes ok: "pk_ok idf t"
    and ins: "insert_row mk t = (i, t')"
    and mk_id: "\<And>k. idf (mk k) = k"
    and mk_own: "\<And>k. own (mk k) \<noteq> o2"
    and r: "r \<in> set (rows t')"
  shows "\<not> (idf r = i \<and> own r = o2)"
proof -
  from ins have i: "i = nextId t" and t': "rows t' = rows t @ [mk (nextId t)]"
    by (auto simp: insert_row_def)
  from r t' have "r \<in> set (rows t) \<or> r = mk (nextId t)" by auto
  then show ?thesis
  proof
    assume "r \<in> set (rows t)"
    with ok have "idf r < nextId t" by (rule pk_ok_below)
    with i show ?thesis by simp
  next
    assume "r = mk (nextId t)"
    with mk_own show ?thesis by simp
  qed
qed

lemma pk_ok_insert_row:
  assumes ok: "pk_ok idf t" and mk_id: "\<And>k. idf (mk k) = k"
  shows "pk_ok idf (snd (insert_row mk t))"
proof -
  have "\<And>r. r \<in> set (rows t) \<Longrightarrow> idf r < nextId t"
    using ok by (rule pk_ok_below)
  then have "nextId t \<notin> idf ` set (rows t)" by fastforce
  with ok mk_id show ?thesis
    by (auto simp: pk_ok_def insert_row_def list_all_iff less_Suc_eq)
qed

lemma pk_ok_empty_table: "pk_ok idf empty_table"
  by (simp add: pk_ok_def empty_table_def)

text \<open>An insert that succeeds has inserted the data or, in a store that is not strict,
  the data cut to its columns.\<close>

lemma insert_values_Inr:
  assumes "insert_values strict fits shorten mk d t = Inr (i, t')"
  shows "insert_row (mk (if fits d then d else shorten d)) t = (i, t')"
  using assms by (auto simp: insert_values_def split: if_splits)

text \<open>An update that matches no row changes nothing and raises nothing.\<close>

lemma update_set_no_match:
  assumes no: "\<And>r. r \<in> set (rows t) \<Longrightarrow> \<not> p r"
    and dist: "distinct (map idf (rows t))"
  shows "update_set strict fits setsId idf p f t = Inr t"
proof -
  from no have a: "\<not> list_ex p (rows t)"
    by (simp add: list_ex_iff)
  from no have b: "update_where p f t = t"
    by (rule update_where_no_match)
  from a b dist show ?thesis
    by (simp add: update_set_def)
qed

lemma apiKey_foreign:
  assumes "pk_ok ak_id (apiKeys db)" and "createApiKey (Some db) now d = Inr (i, db1)"
    and "iak_userId d \<noteq> o2"
  shows "getApiKeyById (Some db1) i o2 = None \<and> deleteApiKey (Some db1) i o2 = Some db1"
proof -
  obtain t' where iv: "insert_values (sqlStrict db) fits_InsertApiKey cut_InsertApiKey
      (new_ApiKey now) d (apiKeys db) = Inr (i, t')"
    and db1: "db1 = db\<lparr>apiKeys := t'\<rparr>"
    using assms(2) by (auto simp: createApiKey_def split: sum.splits)
  note ins = insert_values_Inr [OF iv]
  have no: "\<And>r. r \<in> set (rows (apiKeys db1)) \<Longrightarrow> \<not> (ak_id r = i \<and> ak_userId r = o2)"
    using insert_row_foreign [OF assms(1) ins, of ak_userId o2] assms(3) db1
    by (simp add: new_ApiKey_def cut_InsertApiKey_def)
  show ?thesis
    by (simp add: getApiKeyById_def deleteApiKey_def find_no_match [OF no]
          delete_where_no_match [OF no])
qed

lemma character_foreign:
  assumes "pk_ok ch_id (characters db)" and "createCharacter (Some db) now d = Inr (i, db1)"
    and "ich_userId d \<noteq> o2"
  shows "getCharacterById (Some db1) i o2 = None \<and>
         updateCharacter (Some db1) now' i o2 pd =
           (if no_values_PartialCharacter pd then Inl (Error ''No values to set'')
            else Inr (Some db1)) \<and>
         deleteCharacter (Some db1) i o2 = Some db1"
proof -
  obtain t' where iv: "insert_values (sqlStrict db) fits_InsertCharacter cut_InsertCharacter
      (new_Character now) d (characters db) = Inr (i, t')"
    and db1: "db1 = db\<lparr>characters := t'\<rparr>"
    using assms(2) by (auto simp: createCharacter_def split: sum.splits)
  note ins = insert_values_Inr [OF iv]
  have no: "\<And>r. r \<in> set (rows (characters db1)) \<Longrightarrow> \<not> (ch_id r = i \<and> ch_userId r = o2)"
    using insert_row_foreign [OF assms(1) ins, of ch_userId o2] assms(3) db1
    by (simp add: new_Character_def cut_InsertCharacter_def)
  have "pk_ok ch_id (snd (insert_row
      (new_Character now (if fits_InsertCharacter d then d else cut_InsertCharacter d))
      (characters db)))"
    using assms(1) by (rule pk_ok_insert_row) (simp add: new_Character_def)
  with ins db1 have dist: "distinct (map ch_id (rows (characters db1)))"
    by (simp add: pk_ok_distinct)
  show ?thesis
    by (simp add: getCharacterById_def updateCharacter_def deleteCharacter_def
          find_no_match [OF no] delete_where_no_match [OF no]
          update_set_no_match [OF no dist])
qed

lemma scenario_foreign:
  assumes "pk_ok sc_id (scenarios db)" and "createScenario (Some db) now d = Inr (i, db1)"
    and "isc_userId d \<noteq> o2"
  shows "getScenarioById (Some db1) i =
           Some (new_Scenario now (if fits_InsertScenario d then d else cut_InsertScenario d) i) \<and>
         updateScenario (Some db1) now' i o2 pd =
           (if no_values_PartialScenario pd then Inl (Error ''No values to set'')
            else Inr (Some db1)) \<and>
         map_option scenarios (deleteScenario (Some db1) i o2) = Some (scenarios db1)"
proof -
  obtain t' where iv: "insert_values (sqlStrict db) fits_InsertScenario cut_InsertScenario
      (new_Scenario now) d (scenarios db) = Inr (i, t')"
    and db1: "db1 = db\<lparr>scenarios := t'\<rparr>"
    using assms(2) by (auto simp: createScenario_def split: sum.splits)
  note ins = insert_values_Inr [OF iv]
  have no: "\<And>r. r \<in> set (rows (scenarios db1)) \<Longrightarrow> \<not> (sc_id r = i \<and> sc_userId r = o2)"
    using insert_row_foreign [OF assms(1) ins, of sc_userId o2] assms(3) db1
    by (simp add: new_Scenario_def cut_InsertScenario_def)
  have "pk_ok sc_id (snd (insert_row
      (new_Scenario now (if fits_InsertScenario d then d else cut_InsertScenario d))
      (scenarios db)))"
    using assms(1) by (rule pk_ok_insert_row) (simp add: new_Scenario_def)
  with ins db1 have dist: "distinct (map sc_id (rows (scenarios db1)))"
    by (simp add: pk_ok_distinct)
  from ins have i: "i = nextId (scenarios db)"
    and t': "rows t' = rows (scenarios db) @
      [new_Scenario now (if fits_InsertScenario d then d else cut_InsertScenario d)
         (nextId (scenarios db))]"
    by (auto simp: insert_row_def)
  have old: "\<And>r. r \<in> set (rows (scenarios db)) \<Longrightarrow> \<not> sc_id r = i"
    using pk_ok_below [OF assms(1)] i by fastforce
  have g: "find (\<lambda>r. sc_id r = i) (rows (scenarios db1)) =
      Some (new_Scenario now (if fits_InsertScenario d then d else cut_InsertScenario d) i)"
    using find_no_match [of "rows (scenarios db)" "\<lambda>r. sc_id r = i", OF old] i
    by (simp add: db1 t' find_append_miss new_Scenario_def)
  show ?thesis
    by (simp add: getScenarioById_def updateScenario_def deleteScenario_def
          deleteScenario_stmts_def g
          delete_where_no_match [OF no] update_set_no_match [OF no dist])
qed

lemma chatSession_foreign:
  assumes "pk_ok cs_id (chatSessions db)" and "createChatSession (Some db) now d = Inr (i, db1)"
    and "ics_userId d \<noteq> o2"
  shows "getChatSessionById (Some db1) i o2 = None \<and>
         updateChatSession (Some db1) now' i o2 pd =
           (if no_values_PartialChatSession pd then Inl (Error ''No values to set'')
            else Inr (Some db1)) \<and>
         map_option chatSessions (deleteChatSession (Some db1) i o2) = Some (chatSessions db1)"
proof -
  obtain t' where iv: "insert_values (sqlStrict db) fits_InsertChatSession cut_InsertChatSession
      (new_ChatSession now) d (chatSessions db) = Inr (i, t')"
    and db1: "db1 = db\<lparr>chatSessions := t'\<rparr>"
    using assms(2) by (auto simp: createChatSession_def split: sum.splits)
  note ins = insert_values_Inr [OF iv]
  have no: "\<And>r. r \<in> set (rows (chatSessions db1)) \<Longrightarrow> \<not> (cs_id r = i \<and> cs_userId r = o2)"
    using insert_row_foreign [OF assms(1) ins, of cs_userId o2] assms(3) db1
    by (simp add: new_ChatSession_def cut_InsertChatSession_def)
  have "pk_ok cs_id (snd (insert_row
      (new_ChatSession now (if fits_InsertChatSession d then d else cut_InsertChatSession d))
      (chatSessions db)))"
    using assms(1) by (rule pk_ok_insert_row) (simp add: new_ChatSession_def)
  with ins db1 have dist: "distinct (map cs_id (rows (chatSessions db1)))"
    by (simp add: pk_ok_distinct)
  show ?thesis
    by (simp add: getChatSessionById_def updateChatSession_def deleteChatSession_def
          deleteChatSession_stmts_def find_no_match [OF no]
          delete_where_no_match [OF no] update_set_no_match [OF no dist])
qed

lemma story_foreign:
  assumes "pk_ok st_id (stories db)" and "createStory (Some db) now d = Inr (i, db1)"
    and "ist_userId d \<noteq> o2"
  shows "getStoryById (Some db1) i o2 = None \<and>
         updateStory (Some db1) now' i o2 pd =
           (if no_values_PartialStory pd then Inl (Error ''No values to set'')
            else Inr (Some db1)) \<and>
         map_option stories (deleteStory (Some db1) i o2) = Some (stories db1)"
proof -
  obtain t' where iv: "insert_values (sqlStrict db) fits_InsertStory cut_InsertStory
      (new_Story now) d (stories db) = Inr (i, t')"
    and db1: "db1 = db\<lparr>stories := t'\<rparr>"
    using assms(2) by (auto simp: createStory_def split: sum.splits)
  note ins = insert_values_Inr [OF iv]
  have no: "\<And>r. r \<in> set (rows (stories db1)) \<Longrightarrow> \<not> (st_id r = i \<and> st_userId r = o2)"
    using insert_row_foreign [OF assms(1) ins, of st_userId o2] assms(3) db1
    by (simp add: new_Story_def cut_InsertStory_def)
  have "pk_ok st_id (snd (insert_row
      (new_Story now (if fits_InsertStory d then d else cut_InsertStory d)) (stories db)))"
    using assms(1) by (rule pk_ok_insert_row) (simp add: new_Story_def)
  with ins db1 have dist: "distinct (map st_id (rows (stories db1)))"
    by (simp add: pk_ok_distinct)
  show ?thesis
    by (simp add: getStoryById_def updateStory_def deleteStory_def
          deleteStory_stmts_def find_no_match [OF no]
          delete_where_no_match [OF no] update_set_no_match [OF no dist])
qed

lemma generatedImage_foreign:
  assumes "pk_ok gi_id (generatedImages db)"
    and "createGeneratedImage (Some db) now d = Inr (i, db1)"
    and "igi_userId d \<noteq> o2"
  shows "deleteGeneratedImage (Some db1) i o2 = Some db1"
proof -
  obtain t' where iv: "insert_values (sqlStrict db) fits_InsertGeneratedImage
      cut_InsertGeneratedImage (new_GeneratedImage now) d (generatedImages db) = Inr (i, t')"
    and db1: "db1 = db\<lparr>generatedImages := t'\<rparr>"
    using assms(2) by (auto simp: createGeneratedImage_def split: sum.splits)
  note ins = insert_values_Inr [OF iv]
  have no: "\<And>r. r \<in> set (rows (generatedImages db1)) \<Longrightarrow>
      \<not> (gi_id r = i \<and> gi_userId r = o2)"
    using insert_row_foreign [OF assms(1) ins, of gi_userId o2] assms(3) db1
    by (simp add: new_GeneratedImage_def cut_InsertGeneratedImage_def)
  show ?thesis
    by (simp add: deleteGeneratedImage_def delete_where_no_match [OF no])
qed

text \<open>
  C1, as the code has it. For the tables with a \<open>userId\<close> column and the operations
  that take the caller's user id: after a row is created under one owner, a get under
  another user finds nothing, a delete under another user leaves the store unchanged
  (for the cascading deletes of Scenario, ChatSession and Story: leaves the parent
  table unchanged), and an update under another user leaves the store unchanged too:
  it raises \<open>No values to set\<close> when its data has no defined key and returns silently
  otherwise. \<open>getScenarioById\<close> returns the scenario to any caller. The operations on
  child rows and \<open>updateApiKeyLastUsed\<close> take no user id and are not covered.
\<close>

theorem owner_scoped_access:
  "(pk_ok ak_id (apiKeys db) \<and> createApiKey (Some db) now dak = Inr (i, db1) \<and>
      iak_userId dak \<noteq> o2 \<longrightarrow>
      getApiKeyById (Some db1) i o2 = None \<and> deleteApiKey (Some db1) i o2 = Some db1) \<and>
   (pk_ok ch_id (characters db) \<and> createCharacter (Some db) now dch = Inr (i, db1) \<and>
      ich_userId dch \<noteq> o2 \<longrightarrow>
      getCharacterById (Some db1) i o2 = None \<and>
      updateCharacter (Some db1) now' i o2 pch =
        (if no_values_PartialCharacter pch then Inl (Error ''No values to set'')
         else Inr (Some db1)) \<and>
      deleteCharacter (Some db1) i o2 = Some db1) \<and>
   (pk_ok sc_id (scenarios db) \<and> createScenario (Some db) now dsc = Inr (i, db1) \<and>
      isc_userId dsc \<noteq> o2 \<longrightarrow>
      getScenarioById (Some db1) i =
        Some (new_Scenario now
                (if fits_InsertScenario dsc then dsc else cut_InsertScenario dsc) i) \<and>
      updateScenario (Some db1) now' i o2 psc =
        (if no_values_PartialScenario psc then Inl (Error ''No values to set'')
         else Inr (Some db1)) \<and>
      map_option scenarios (deleteScenario (Some db1) i o2) = Some (scenarios db1)) \<and>
   (pk_ok cs_id (chatSessions db) \<and> createChatSession (Some db) now dcs = Inr (i, db1) \<and>
      ics_userId dcs \<noteq> o2 \<longrightarrow>
      getChatSessionById (Some db1) i o2 = None \<and>
      updateChatSession (Some db1) now' i o2 pcs =
        (if no_values_PartialChatSession pcs then Inl (Error ''No values to set'')
         else Inr (Some db1)) \<and>
      map_option chatSessions (deleteChatSession (Some db1) i o2) = Some (chatSessions db1)) \<and>
   (pk_ok st_id (stories db) \<and> createStory (Some db) now dst = Inr (i, db1) \<and>
      ist_userId dst \<noteq> o2 \<longrightarrow>
      getStoryById (Some db1) i o2 = None \<and>
      updateStory (Some db1) now' i o2 pst =
        (if no_values_PartialStory pst then Inl (Error ''No values to set'')
         else Inr (Some db1)) \<and>
      map_option stories (deleteStory (Some db1) i o2) = Some (stories db1)) \<and>
   (pk_ok gi_id (generatedImages db) \<and> createGeneratedImage (Some db) now dgi = Inr (i, db1) \<and>
      igi_userId dgi \<noteq> o2 \<longrightarrow>
      deleteGeneratedImage (Some db1) i o2 = Some db1)"
proof -
  have a: "pk_ok ak_id (apiKeys db) \<and> createApiKey (Some db) now dak = Inr (i, db1) \<and>
      iak_userId dak \<noteq> o2 \<longrightarrow>
      getApiKeyById (Some db1) i o2 = None \<and> deleteApiKey (Some db1) i o2 = Some db1"
    using apiKey_foreign [of db now dak i db1 o2] by blast
  have b: "pk_ok ch_id (characters db) \<and> createCharacter (Some db) now dch = Inr (i, db1) \<and>
      ich_userId dch \<noteq> o2 \<longrightarrow>
      getCharacterById (Some db1) i o2 = None \<and>
      updateCharacter (Some db1) now' i o2 pch =
        (if no_values_PartialCharacter pch then Inl (Error ''No values to set'')
         else Inr (Some db1)) \<and>
      deleteCharacter (Some db1) i o2 = Some db1"
    using character_foreign [of db now dch i db1 o2 now' pch] by blast
  have c: "pk_ok sc_id (scenarios db) \<and> createScenario (Some db) now dsc = Inr (i, db1) \<and>
      isc_userId dsc \<noteq> o2 \<longrightarrow>
      getScenarioById (Some db1) i =
        Some (new_Scenario now
                (if fits_InsertScenario dsc then dsc else cut_InsertScenario dsc) i) \<and>
      updateScenario (Some db1) now' i o2 psc =
        (if no_values_PartialScenario psc then Inl (Error ''No values to set'')
         else Inr (Some db1)) \<and>
      map_option scenarios (deleteScenario (Some db1) i o2) = Some (scenarios db1)"
    using scenario_foreign [of db now dsc i db1 o2 now' psc] by blast
  have d: "pk_ok cs_id (chatSessions db) \<and> createChatSession (Some db) now dcs = Inr (i, db1) \<and>
      ics_userId dcs \<noteq> o2 \<longrightarrow>
      getChatSessionById (Some db1) i o2 = None \<and>
      updateChatSession (Some db1) now' i o2 pcs =
        (if no_values_PartialChatSession pcs then Inl (Error ''No values to set'')
         else Inr (Some db1)) \<and>
      map_option chatSessions (deleteChatSession (Some db1) i o2) = Some (chatSessions db1)"
    using chatSession_foreign [of db now dcs i db1 o2 now' pcs] by blast
  have e: "pk_ok st_id (stories db) \<and> createStory (Some db) now dst = Inr (i, db1) \<and>
      ist_userId dst \<noteq> o2 \<longrightarrow>
      getStoryById (Some db1) i o2 = None \<and>
      updateStory (Some db1) now' i o2 pst =
        (if no_values_PartialStory pst then Inl (Error ''No values to set'')
         else Inr (Some db1)) \<and>
      map_option stories (deleteStory (Some db1) i o2) = Some (stories db1)"
    using story_foreign [of db now dst i db1 o2 now' pst] by blast
  have f: "pk_ok gi_id (generatedImages db) \<and>
      createGeneratedImage (Some db) now dgi = Inr (i, db1) \<and>
      igi_userId dgi \<noteq> o2 \<longrightarrow>
      deleteGeneratedImage (Some db1) i o2 = Some db1"
    using generatedImage_foreign [of db now dgi i db1 o2] by blast
  from a b c d e f show ?thesis by (intro conjI)
qed

theorem owner_scoped_access_witness:
  "pk_ok ch_id (characters demo_store) \<and>
   createCharacter (Some demo_store) 60 demo_character =
     Inr (2, demo_store\<lparr>characters :=
        snd (insert_row (new_Character 60 demo_character) (characters demo_store))\<rparr>) \<and>
   ich_userId demo_character \<noteq> 2 \<and>
   getCharacterById
     (Some (demo_store\<lparr>characters :=
        snd (insert_row (new_Character 60 demo_character) (characters demo_store))\<rparr>)) 2 1 \<noteq> None \<and>
   getCharacterById
     (Some (demo_store\<lparr>characters :=
        snd (insert_row (new_Character 60 demo_character) (characters demo_store))\<rparr>)) 2 2 = None \<and>
   updateCharacter
     (Some (demo_store\<lparr>characters :=
        snd (insert_row (new_Character 60 demo_character) (characters demo_store))\<rparr>)) 61 2 2
     (undefined_PartialCharacter\<lparr>pch_name := Some ''Dog''\<rparr>) =
     Inr (Some (demo_store\<lparr>characters :=
        snd (insert_row (new_Character 60 demo_character) (characters demo_store))\<rparr>)) \<and>
   updateCharacter
     (Some (demo_store\<lparr>characters :=
        snd (insert_row (new_Character 60 demo_character) (characters demo_store))\<rparr>)) 61 2 2
     undefined_PartialCharacter = Inl (Error ''No values to set'')"
proof -
  have a: "pk_ok ch_id (characters demo_store)"
    by (simp add: pk_ok_def demo_store_def)
  have b: "createCharacter (Some demo_store) 60 demo_character =
     Inr (2, demo_store\<lparr>characters :=
        snd (insert_row (new_Character 60 demo_character) (characters demo_store))\<rparr>)"
    by (simp add: createCharacter_def insert_values_def fits_InsertCharacter_def varchar_def
          demo_character_def insert_row_def demo_store_def)
  have c: "ich_userId demo_character \<noteq> 2"
    by (simp add: demo_character_def)
  have d: "getCharacterById
     (Some (demo_store\<lparr>characters :=
        snd (insert_row (new_Character 60 demo_character) (characters demo_store))\<rparr>)) 2 1 \<noteq> None"
    by (simp add: getCharacterById_def insert_row_def demo_store_def new_Character_def
          demo_character_def)
  have n1: "\<not> no_values_PartialCharacter (undefined_PartialCharacter\<lparr>pch_name := Some ''Dog''\<rparr>)"
    by (simp add: no_values_PartialCharacter_def undefined_PartialCharacter_def)
  have n2: "no_values_PartialCharacter undefined_PartialCharacter"
    by (simp add: no_values_PartialCharacter_def undefined_PartialCharacter_def)
  note t1 = owner_scoped_access [where db = demo_store and now = 60 and i = 2 and ?o2.0 = 2
      and dch = demo_character and now' = 61
      and pch = "undefined_PartialCharacter\<lparr>pch_name := Some ''Dog''\<rparr>"
      and ?db1.0 = "demo_store\<lparr>characters :=
        snd (insert_row (new_Character 60 demo_character) (characters demo_store))\<rparr>",
      THEN conjunct2, THEN conjunct1]
  note t2 = owner_scoped_access [where db = demo_store and now = 60 and i = 2 and ?o2.0 = 2
      and dch = demo_character and now' = 61 and pch = undefined_PartialCharacter
      and ?db1.0 = "demo_store\<lparr>characters :=
        snd (insert_row (new_Character 60 demo_character) (characters demo_store))\<rparr>",
      THEN conjunct2, THEN conjunct1]
  from a b c d n1 n2 t1 t2 show ?thesis by simp
qed

text \<open>
  The sentence of the specification fails. User 1 creates a chat session and adds a
  message; user 2, who cannot get the session, deletes the message through
  \<open>chat.deleteMessage\<close>, which filters by the row id alone. \<open>scenarios.delete\<close> called
  by user 2 on a scenario of user 1 is not a no-op: it removes the scenario's child
  rows. And \<open>updateApiKeyLastUsed\<close> writes the API key of user 1 for whoever calls it.
\<close>

theorem owner_check_counterexample:
  "(case createChatSession (Some empty_store) 10
          \<lparr>ics_userId = 1, ics_scenarioId = None, ics_title = ''Evening'',
           ics_systemPrompt = None, ics_modelId = None, ics_samplingParams = None\<rparr> of
      Inl e \<Rightarrow> False
    | Inr (sid, db1) \<Rightarrow>
        (case addChatMessage (Some db1) 11
                \<lparr>icm_sessionId = sid, icm_messageType = MTUser, icm_characterLabel = None,
                 icm_characterName = None, icm_content = ''hello'', icm_isSticky = None\<rparr> of
           Inl e \<Rightarrow> False
         | Inr (mid, db2) \<Rightarrow>
             map cm_id (getChatMessages as_inserted (Some db2) sid) = [mid] \<and>
             map cs_userId (getChatSessionsByUserId as_inserted (Some db2) 1) = [1] \<and>
             getChatSessionById (Some db2) sid 2 = None \<and>
             map_option (\<lambda>db3. getChatMessages as_inserted (Some db3) sid)
               (chat_deleteMessage (Some db2) 2 mid) = Some [])) \<and>
   map sc_userId (rows (scenarios demo_store)) = [1, 1] \<and>
   scenario_children demo_store 1 \<noteq> ([], []) \<and>
   map_option (\<lambda>db'. scenario_children db' 1) (scenarios_delete (Some demo_store) 2 1) =
     Some ([], []) \<and>
   scenarios_delete (Some demo_store) 2 1 \<noteq> Some demo_store \<and>
   map (\<lambda>r. (ak_userId r, ak_lastUsed r)) (rows (apiKeys demo_store)) = [(1, None)] \<and>
   map_option (\<lambda>db'. map (\<lambda>r. (ak_userId r, ak_lastUsed r)) (rows (apiKeys db')))
     (updateApiKeyLastUsed (Some demo_store) 77 1) = Some [(1, Some 77)]"
  by (simp add: createChatSession_def addChatMessage_def insert_values_def insert_row_def
        fits_InsertChatSession_def fits_InsertChatMessage_def varchar_def varchar_null_def
        empty_store_def
        empty_table_def getChatMessages_def getChatSessionsByUserId_def getChatSessionById_def
        chat_deleteMessage_def deleteChatMessage_def select_where_def orderBy_def
        orderBy_desc_def delete_where_def new_ChatSession_def new_ChatMessage_def dflt_def
        scenarios_delete_def deleteScenario_def deleteScenario_stmts_def demo_store_def
        scenario_children_def updateApiKeyLastUsed_def update_where_def)

subsection \<open>Upsert on login\<close>

lemma assignNullable_id: "assignNullable field = field"
  by (simp add: assignNullable_def split: option.splits)

lemma upsert_supplied_eq:
  "upsert_supplied ownerOpenId user =
     \<lparr>us_name = iu_name user, us_email = iu_email user,
      us_loginMethod = iu_loginMethod user, us_lastSignedIn = iu_lastSignedIn user,
      us_role = upsert_role ownerOpenId user\<rparr>"
  by (simp add: upsert_supplied_def assignNullable_id)

lemma updateSet_keys_empty:
  "(updateSet_keys s = []) =
   (us_name s = None \<and> us_email s = None \<and> us_loginMethod s = None \<and>
    us_lastSignedIn s = None \<and> us_role s = None)"
  by (simp add: updateSet_keys_def split: option.splits)

text \<open>
  C4, as the code has it. The update set of \<open>upsertUser\<close> holds every field among
  name, email, loginMethod, lastSignedIn and role that the caller supplied, with the
  supplied value as it is: \<open>undefined\<close> leaves the field out, \<open>null\<close> stays \<open>null\<close> and
  the empty string stays the empty string (\<open>assignNullable\<close> is the identity and agrees
  with the falsy-to-null normalisation everywhere but on the empty string). Two fields
  are added that the caller did not supply: role \<open>admin\<close> when no role is given and
  the \<open>openId\<close> is the owner's, and \<open>lastSignedIn = now\<close> when the set would be empty.
\<close>

theorem upsert_update_set:
  "upsert_updateSet ownerOpenId now user =
     (if iu_name user = None \<and> iu_email user = None \<and> iu_loginMethod user = None \<and>
         iu_lastSignedIn user = None \<and> iu_role user = None \<and> iu_openId user \<noteq> ownerOpenId
      then \<lparr>us_name = None, us_email = None, us_loginMethod = None,
            us_lastSignedIn = Some now, us_role = None\<rparr>
      else \<lparr>us_name = iu_name user, us_email = iu_email user,
            us_loginMethod = iu_loginMethod user, us_lastSignedIn = iu_lastSignedIn user,
            us_role = (case iu_role user of
                         Some r \<Rightarrow> Some r
                       | None \<Rightarrow> if iu_openId user = ownerOpenId then Some RoleAdmin else None)\<rparr>) \<and>
   assignNullable field = field \<and>
   (assignNullable field = spec_normalize_falsy field) = (field \<noteq> Some (Some []))"
proof -
  have a: "upsert_updateSet ownerOpenId now user =
     (if iu_name user = None \<and> iu_email user = None \<and> iu_loginMethod user = None \<and>
         iu_lastSignedIn user = None \<and> iu_role user = None \<and> iu_openId user \<noteq> ownerOpenId
      then \<lparr>us_name = None, us_email = None, us_loginMethod = None,
            us_lastSignedIn = Some now, us_role = None\<rparr>
      else \<lparr>us_name = iu_name user, us_email = iu_email user,
            us_loginMethod = iu_loginMethod user, us_lastSignedIn = iu_lastSignedIn user,
            us_role = (case iu_role user of
                         Some r \<Rightarrow> Some r
                       | None \<Rightarrow> if iu_openId user = ownerOpenId then Some RoleAdmin else None)\<rparr>)"
    by (simp add: upsert_updateSet_def updateSet_keys_empty upsert_supplied_eq upsert_role_def
          Let_def split: option.splits)
  have b: "(assignNullable field = spec_normalize_falsy field) = (field \<noteq> Some (Some []))"
    by (simp add: assignNullable_def spec_normalize_falsy_def split: option.splits)
  from a b assignNullable_id [of field] show ?thesis by (intro conjI)
qed

theorem upsert_update_set_witness:
  "upsert_updateSet ''owner'' 5 ((only_openId ''x'')\<lparr>iu_email := Some None\<rparr>) =
     \<lparr>us_name = None, us_email = Some None, us_loginMethod = None,
      us_lastSignedIn = None, us_role = None\<rparr>"
  using upsert_update_set [of "''owner''" 5 "(only_openId ''x'')\<lparr>iu_email := Some None\<rparr>", THEN conjunct1]
  by (simp add: only_openId_def)

text \<open>
  The sentence of the specification fails: a supplied empty name is written as the empty string, not
  as \<open>null\<close>, and the owner's identity gets the role field without supplying one.
\<close>

theorem upsert_update_set_counterexample:
  "us_name (upsert_updateSet ''owner'' 5 ((only_openId ''x'')\<lparr>iu_name := Some (Some [])\<rparr>)) =
     Some (Some []) \<and>
   spec_normalize_falsy (Some (Some [])) = Some None \<and>
   iu_role (only_openId ''owner'') = None \<and>
   us_role (upsert_updateSet ''owner'' 5 (only_openId ''owner'')) = Some RoleAdmin"
  by (simp add: upsert_updateSet_def upsert_supplied_def updateSet_keys_def assignNullable_def
        upsert_role_def only_openId_def spec_normalize_falsy_def)

lemma update_where_last:
  assumes "\<And>r. r \<in> set xs \<Longrightarrow> \<not> p r" and "p x"
  shows "update_where p f (t\<lparr>rows := xs @ [x], nextId := n\<rparr>) = t\<lparr>rows := xs @ [f x], nextId := n\<rparr>"
proof -
  have "map (\<lambda>r. if p r then f r else r) xs = xs"
    using assms(1) by (simp add: map_idI)
  with assms(2) show ?thesis by (simp add: update_where_def)
qed

lemma find_last:
  assumes "find p xs = None" and "p x"
  shows "find p (xs @ [x]) = Some x"
  using assms by (simp add: find_append_miss)

text \<open>
  C5, as the code has it. For an identity with nothing but a non-empty \<open>openId\<close> that
  has no row yet, the first \<open>upsertUser\<close> appends exactly one row, with role \<open>user\<close>
  (\<open>admin\<close> for the owner's \<open>openId\<close>) and \<open>lastSignedIn\<close> the time of the call. The
  second call adds no row. For an \<open>openId\<close> other than the owner's the update set is
  empty and is replaced by the touch, so \<open>lastSignedIn\<close> becomes the time of the second
  call; for the owner's \<open>openId\<close> the update set is the role alone, no touch happens
  and \<open>lastSignedIn\<close> keeps the time of the first call.
\<close>

theorem upsert_twice:
  assumes x: "x \<noteq> []" and new: "getUserByOpenId (Some db) x = None"
  shows
    "(let r1 = \<lparr>u_id = nextId (users db), u_openId = x, u_name = None, u_email = None,
                u_loginMethod = None,
                u_role = (if x = ownerOpenId then RoleAdmin else RoleUser),
                u_createdAt = t1, u_updatedAt = t1, u_lastSignedIn = t1\<rparr>;
          r2 = r1\<lparr>u_updatedAt := (if x = ownerOpenId \<or> t2 = t1 then t1 else t2),
                  u_lastSignedIn := (if x = ownerOpenId then t1 else t2)\<rparr>;
          db1 = db\<lparr>users := (users db)\<lparr>rows := rows (users db) @ [r1],
                                        nextId := Suc (nextId (users db))\<rparr>\<rparr>;
          db2 = db\<lparr>users := (users db)\<lparr>rows := rows (users db) @ [r2],
                                        nextId := Suc (nextId (users db))\<rparr>\<rparr>
      in upsertUser ownerOpenId (Some db) t1 (only_openId x) = Inr (Some db1) \<and>
         upsertUser ownerOpenId (Some db1) t2 (only_openId x) = Inr (Some db2))"
proof -
  from new have none: "find (\<lambda>r. u_openId r = x) (rows (users db)) = None"
    by (simp add: getUserByOpenId_def)
  then have no: "\<And>r. r \<in> set (rows (users db)) \<Longrightarrow> \<not> u_openId r = x"
    by (simp add: find_None_iff)
  define r1 where "r1 = \<lparr>u_id = nextId (users db), u_openId = x, u_name = None, u_email = None,
                u_loginMethod = None,
                u_role = (if x = ownerOpenId then RoleAdmin else RoleUser),
                u_createdAt = t1, u_updatedAt = t1, u_lastSignedIn = t1\<rparr>"
  define r2 where "r2 = r1\<lparr>u_updatedAt := (if x = ownerOpenId \<or> t2 = t1 then t1 else t2),
                  u_lastSignedIn := (if x = ownerOpenId then t1 else t2)\<rparr>"
  have v1: "new_User t1 (upsert_values ownerOpenId t1 (only_openId x)) (nextId (users db)) = r1"
    by (simp add: new_User_def upsert_values_def only_openId_def assignNullable_def
          upsert_role_def dflt_def r1_def)
  have first: "insert_onDuplicateKeyUpdate t1 (upsert_values ownerOpenId t1 (only_openId x))
      (upsert_updateSet ownerOpenId t1 (only_openId x)) (users db) =
      (users db)\<lparr>rows := rows (users db) @ [r1], nextId := Suc (nextId (users db))\<rparr>"
    using none v1
    by (simp add: insert_onDuplicateKeyUpdate_def insert_row_def upsert_values_def only_openId_def)
  have hit: "find (\<lambda>r. u_openId r = x) (rows (users db) @ [r1]) = Some r1"
    using none by (simp add: find_append_miss r1_def)
  have upd: "onUpdateNow (\<lambda>r. r\<lparr>u_updatedAt := t2\<rparr>)
      (apply_UserUpdateSet (upsert_updateSet ownerOpenId t2 (only_openId x))) r1 = r2"
    by (simp add: onUpdateNow_def apply_UserUpdateSet_def upsert_updateSet_def
          upsert_supplied_def updateSet_keys_def assignNullable_def upsert_role_def only_openId_def
          setcol_def r1_def r2_def)
  have second: "insert_onDuplicateKeyUpdate t2 (upsert_values ownerOpenId t2 (only_openId x))
      (upsert_updateSet ownerOpenId t2 (only_openId x))
      ((users db)\<lparr>rows := rows (users db) @ [r1], nextId := Suc (nextId (users db))\<rparr>) =
      (users db)\<lparr>rows := rows (users db) @ [r2], nextId := Suc (nextId (users db))\<rparr>"
    using hit upd update_where_last [of "rows (users db)" "\<lambda>r. u_openId r = x" r1, OF no]
    by (simp add: insert_onDuplicateKeyUpdate_def upsert_values_def only_openId_def r1_def)
  show ?thesis
    using x first second
    by (simp add: upsertUser_def only_openId_def Let_def r1_def r2_def)
qed

theorem upsert_twice_witness:
  "''x'' \<noteq> [] \<and> getUserByOpenId (Some empty_store) ''x'' = None \<and>
   upsertUser ''owner'' (Some empty_store) 100 (only_openId ''x'') =
     Inr (Some (empty_store\<lparr>users := \<lparr>rows =
       [\<lparr>u_id = 1, u_openId = ''x'', u_name = None, u_email = None, u_loginMethod = None,
         u_role = RoleUser, u_createdAt = 100, u_updatedAt = 100, u_lastSignedIn = 100\<rparr>],
       nextId = 2\<rparr>\<rparr>)) \<and>
   upsertUser ''owner''
     (Some (empty_store\<lparr>users := \<lparr>rows =
       [\<lparr>u_id = 1, u_openId = ''x'', u_name = None, u_email = None, u_loginMethod = None,
         u_role = RoleUser, u_createdAt = 100, u_updatedAt = 100, u_lastSignedIn = 100\<rparr>],
       nextId = 2\<rparr>\<rparr>)) 200 (only_openId ''x'') =
     Inr (Some (empty_store\<lparr>users := \<lparr>rows =
       [\<lparr>u_id = 1, u_openId = ''x'', u_name = None, u_email = None, u_loginMethod = None,
         u_role = RoleUser, u_createdAt = 100, u_updatedAt = 200, u_lastSignedIn = 200\<rparr>],
       nextId = 2\<rparr>\<rparr>))"
proof -
  have a: "''x'' \<noteq> []" by simp
  have b: "getUserByOpenId (Some empty_store) ''x'' = None"
    by (simp add: getUserByOpenId_def empty_store_def empty_table_def)
  from a b upsert_twice [OF a b, of "''owner''" 100 200] show ?thesis
    by (simp add: Let_def empty_store_def empty_table_def numeral_2_eq_2)
qed

text \<open>
  The sentence of the specification fails for the owner's identity: the second login leaves
  \<open>lastSignedIn\<close> at the time of the first.
\<close>

theorem upsert_twice_counterexample:
  "getUserByOpenId (Some empty_store) ''owner'' = None \<and>
   upsertUser ''owner'' (Some empty_store) 100 (only_openId ''owner'') =
     Inr (Some (empty_store\<lparr>users := \<lparr>rows =
       [\<lparr>u_id = 1, u_openId = ''owner'', u_name = None, u_email = None, u_loginMethod = None,
         u_role = RoleAdmin, u_createdAt = 100, u_updatedAt = 100, u_lastSignedIn = 100\<rparr>],
       nextId = 2\<rparr>\<rparr>)) \<and>
   upsertUser ''owner''
     (Some (empty_store\<lparr>users := \<lparr>rows =
       [\<lparr>u_id = 1, u_openId = ''owner'', u_name = None, u_email = None, u_loginMethod = None,
         u_role = RoleAdmin, u_createdAt = 100, u_updatedAt = 100, u_lastSignedIn = 100\<rparr>],
       nextId = 2\<rparr>\<rparr>)) 200 (only_openId ''owner'') =
     Inr (Some (empty_store\<lparr>users := \<lparr>rows =
       [\<lparr>u_id = 1, u_openId = ''owner'', u_name = None, u_email = None, u_loginMethod = None,
         u_role = RoleAdmin, u_createdAt = 100, u_updatedAt = 100, u_lastSignedIn = 100\<rparr>],
       nextId = 2\<rparr>\<rparr>))"
  by (simp add: getUserByOpenId_def upsertUser_def insert_onDuplicateKeyUpdate_def
        upsert_values_def upsert_updateSet_def upsert_supplied_def updateSet_keys_def
        assignNullable_def upsert_role_def only_openId_def insert_row_def new_User_def dflt_def
        update_where_def onUpdateNow_def apply_UserUpdateSet_def setcol_def
        empty_store_def empty_table_def)

subsection \<open>Order of the lists\<close>

lemma listed_orderBy: "listed (\<le>) k src (orderBy tie k src)"
  by (simp add: listed_def orderBy_def)

lemma sorted_desc: "sorted_wrt (\<ge>) (map (k::'r \<Rightarrow> int) (sort_key (\<lambda>r. - k r) xs))"
proof -
  have "sorted (map (\<lambda>r. - k r) (sort_key (\<lambda>r. - k r) xs))"
    by (rule sorted_sort_key)
  then have "sorted_wrt (\<lambda>a b. - k a \<le> - k b) (sort_key (\<lambda>r. - k r) xs)"
    by (simp add: sorted_wrt_map)
  then show ?thesis
    by (simp add: sorted_wrt_map)
qed

lemma listed_orderBy_desc: "listed (\<ge>) k src (orderBy_desc tie k src)"
  by (simp add: listed_def orderBy_desc_def sorted_desc)

text \<open>
  C8, as the code has it. The owner-scoped lists of characters, scenarios, chat
  sessions and stories are ordered by \<open>updatedAt\<close> descending; generated images and the
  public scenarios are ordered by \<open>createdAt\<close> descending (the images cut to the limit,
  50 by default); scenario characters, scenario interactions and story characters are
  ordered by \<open>orderIndex\<close> ascending (\<open>NULL\<close> first) and chat messages by \<open>createdAt\<close>
  ascending. Each list holds exactly the selected rows. This holds whatever rank the
  store gives to rows with equal keys: the code names one sort key and no tie-breaker,
  so nothing is said about the order of ties.
\<close>

theorem list_order:
  "listed (\<ge>) ch_updatedAt (select_where (\<lambda>r. ch_userId r = userId) (characters db))
     (getCharactersByUserId tie_ch (Some db) userId) \<and>
   listed (\<ge>) sc_updatedAt (select_where (\<lambda>r. sc_userId r = userId) (scenarios db))
     (getScenariosByUserId tie_sc (Some db) userId) \<and>
   listed (\<ge>) cs_updatedAt (select_where (\<lambda>r. cs_userId r = userId) (chatSessions db))
     (getChatSessionsByUserId tie_cs (Some db) userId) \<and>
   listed (\<ge>) st_updatedAt (select_where (\<lambda>r. st_userId r = userId) (stories db))
     (getStoriesByUserId tie_st (Some db) userId) \<and>
   listed (\<ge>) gi_createdAt (select_where (\<lambda>r. gi_userId r = userId) (generatedImages db))
     (getGeneratedImagesByUserId tie_gi (Some db) userId
        (Some (length (rows (generatedImages db))))) \<and>
   getGeneratedImagesByUserId tie_gi (Some db) userId lim =
     take (dflt 50 lim)
       (getGeneratedImagesByUserId tie_gi (Some db) userId
          (Some (length (rows (generatedImages db))))) \<and>
   listed (\<ge>) sc_createdAt
     (select_where
        (\<lambda>r. sc_isPublic r = Some True \<and>
             (case searchQuery of
                None \<Rightarrow> True
              | Some q \<Rightarrow> q = [] \<or> like (''%'' @ q @ ''%'') (sc_title r)))
        (scenarios db))
     (getPublicScenarios tie_pub like (Some db) searchQuery) \<and>
   listed (\<le>) scc_orderIndex (select_where (\<lambda>r. scc_scenarioId r = i) (scenarioCharacters db))
     (getScenarioCharacters tie_scc (Some db) i) \<and>
   listed (\<le>) sci_orderIndex
     (select_where (\<lambda>r. sci_scenarioId r = i) (scenarioInteractions db))
     (getScenarioInteractions tie_sci (Some db) i) \<and>
   listed (\<le>) stc_orderIndex (select_where (\<lambda>r. stc_storyId r = i) (storyCharacters db))
     (getStoryCharacters tie_stc (Some db) i) \<and>
   listed (\<le>) cm_createdAt (select_where (\<lambda>r. cm_sessionId r = i) (chatMessages db))
     (getChatMessages tie_cm (Some db) i)"
proof -
  have len: "length (select_where (\<lambda>r. gi_userId r = userId) (generatedImages db)) \<le>
      length (rows (generatedImages db))"
    by (simp add: select_where_def)
  have full: "getGeneratedImagesByUserId tie_gi (Some db) userId
        (Some (length (rows (generatedImages db)))) =
      orderBy_desc tie_gi gi_createdAt
        (select_where (\<lambda>r. gi_userId r = userId) (generatedImages db))"
    using len by (simp add: getGeneratedImagesByUserId_def dflt_def orderBy_desc_def)
  have img: "getGeneratedImagesByUserId tie_gi (Some db) userId lim =
     take (dflt 50 lim)
       (getGeneratedImagesByUserId tie_gi (Some db) userId
          (Some (length (rows (generatedImages db)))))"
    unfolding full by (simp add: getGeneratedImagesByUserId_def)
  have pub: "listed (\<ge>) sc_createdAt
     (select_where
        (\<lambda>r. sc_isPublic r = Some True \<and>
             (case searchQuery of
                None \<Rightarrow> True
              | Some q \<Rightarrow> q = [] \<or> like (''%'' @ q @ ''%'') (sc_title r)))
        (scenarios db))
     (getPublicScenarios tie_pub like (Some db) searchQuery)"
    by (cases searchQuery) (simp_all add: getPublicScenarios_def listed_orderBy_desc)
  show ?thesis
    unfolding full
    using img [unfolded full] pub
    by (simp add: getCharactersByUserId_def getScenariosByUserId_def getChatSessionsByUserId_def
          getStoriesByUserId_def getScenarioCharacters_def
          getScenarioInteractions_def getStoryCharacters_def getChatMessages_def
          listed_orderBy listed_orderBy_desc)
qed

theorem list_order_witness:
  "map sc_id (getScenariosByUserId as_inserted (Some demo_store) 1) = [1, 2] \<and>
   map sc_updatedAt (getScenariosByUserId as_inserted (Some demo_store) 1) = [50, 20] \<and>
   listed (\<ge>) sc_updatedAt (select_where (\<lambda>r. sc_userId r = 1) (scenarios demo_store))
     (getScenariosByUserId as_inserted (Some demo_store) 1) \<and>
   map scc_orderIndex (select_where (\<lambda>r. scc_scenarioId r = 1) (scenarioCharacters demo_store)) =
     [Some 0, Some 0] \<and>
   listed (\<le>) scc_orderIndex
     (select_where (\<lambda>r. scc_scenarioId r = 1) (scenarioCharacters demo_store))
     (getScenarioCharacters (latest_first scc_id) (Some demo_store) 1)"
proof -
  have a: "map sc_id (getScenariosByUserId as_inserted (Some demo_store) 1) = [1, 2]"
    by (simp add: getScenariosByUserId_def demo_store_def select_where_def orderBy_desc_def
          as_inserted_def)
  have b: "map sc_updatedAt (getScenariosByUserId as_inserted (Some demo_store) 1) = [50, 20]"
    by (simp add: getScenariosByUserId_def demo_store_def select_where_def orderBy_desc_def
          as_inserted_def)
  have d: "map scc_orderIndex
      (select_where (\<lambda>r. scc_scenarioId r = 1) (scenarioCharacters demo_store)) =
     [Some 0, Some 0]"
    by (simp add: demo_store_def select_where_def)
  note c = list_order [where userId = 1 and db = demo_store and tie_sc = as_inserted,
      THEN conjunct2, THEN conjunct1]
  note e = list_order [where i = 1 and db = demo_store and tie_scc = "latest_first scc_id",
      THEN conjunct2, THEN conjunct2, THEN conjunct2, THEN conjunct2, THEN conjunct2,
      THEN conjunct2, THEN conjunct2, THEN conjunct1]
  from a b c d e show ?thesis by (intro conjI)
qed

text \<open>
  The sentence of the specification fails twice. The public list of scenarios is not
  most-recently-updated-first: scenario 2, last updated at 20, comes before scenario 1,
  last updated at 50, because the list is ordered by creation time. And ties of
  \<open>orderIndex\<close> are not kept in insertion order by anything in the code: the two
  characters of scenario 1 have \<open>orderIndex\<close> 0, and a store that ranks equal keys
  latest row first lists the row inserted second before the row inserted first.
\<close>

theorem list_order_counterexample:
  "map sc_id (getPublicScenarios as_inserted (\<lambda>pattern s. False) (Some demo_store) None) =
     [2, 1] \<and>
   map sc_updatedAt
     (getPublicScenarios as_inserted (\<lambda>pattern s. False) (Some demo_store) None) = [20, 50] \<and>
   \<not> sorted_wrt (\<ge>)
     (map sc_updatedAt
        (getPublicScenarios as_inserted (\<lambda>pattern s. False) (Some demo_store) None)) \<and>
   map (\<lambda>r. (scc_id r, scc_orderIndex r)) (rows (scenarioCharacters demo_store)) =
     [(1, Some 0), (2, Some 0)] \<and>
   map scc_id (getScenarioCharacters (latest_first scc_id) (Some demo_store) 1) = [2, 1]"
  by (simp add: getPublicScenarios_def getScenarioCharacters_def demo_store_def
        select_where_def orderBy_desc_def orderBy_def as_inserted_def latest_first_def)

subsection \<open>Partial updates\<close>

lemma setcol_cases: "setcol v old = (case v of None \<Rightarrow> old | Some x \<Rightarrow> x)"
  by (simp add: setcol_def)

lemma onUpdateNow_cases: "onUpdateNow stamp f r = f r \<or> onUpdateNow stamp f r = stamp (f r)"
  by (cases "f r = r") (simp_all add: onUpdateNow_def)

lemma setcol_cut_opt:
  "setcol (cut_opt n v) old = (case v of None \<Rightarrow> old | Some x \<Rightarrow> take n x)"
  by (cases v) (simp_all add: setcol_def cut_opt_def)

lemma setcol_cut_null:
  "setcol (cut_null n v) old = (case v of None \<Rightarrow> old | Some x \<Rightarrow> map_option (take n) x)"
  by (cases v) (simp_all add: setcol_def cut_null_def)

lemma case_cut_opt:
  "(case cut_opt n v of None \<Rightarrow> old | Some x \<Rightarrow> x) =
   (case v of None \<Rightarrow> old | Some x \<Rightarrow> take n x)"
  by (cases v) (simp_all add: cut_opt_def)

lemma case_cut_null:
  "(case cut_null n v of None \<Rightarrow> old | Some x \<Rightarrow> x) =
   (case v of None \<Rightarrow> old | Some x \<Rightarrow> map_option (take n) x)"
  by (cases v) (simp_all add: cut_null_def)

lemma cut_opt_fits: "varchar_opt n v = (cut_opt n v = v)"
  by (cases v) (simp_all add: varchar_opt_def varchar_def cut_opt_def take_all_iff)

lemma cut_null_fits: "varchar_null n v = (cut_null n v = v)"
proof (cases v)
  case None
  then show ?thesis by (simp add: varchar_null_def cut_null_def)
next
  case (Some w)
  then show ?thesis
    using cut_opt_fits [of n w] by (simp add: varchar_null_def cut_null_def cut_opt_def)
qed

lemma updateCharacter_outcome:
  "updateCharacter (Some db) now i userId d =
     (if no_values_PartialCharacter d then Inl (Error ''No values to set'')
      else if sqlStrict db \<and> \<not> fits_PartialCharacter d \<and>
              list_ex (\<lambda>r. ch_id r = i \<and> ch_userId r = userId) (rows (characters db))
      then Inl (Error ''Data too long for column'')
      else if pch_id d \<noteq> None \<and>
              \<not> distinct (map ch_id
                 (map (\<lambda>r. if ch_id r = i \<and> ch_userId r = userId then set_Character now (cut_PartialCharacter d) r else r) (rows (characters db))))
      then Inl (Error ''Duplicate entry for key PRIMARY'')
      else Inr (Some (db\<lparr>characters := (characters db)\<lparr>rows :=
        map (\<lambda>r. if ch_id r = i \<and> ch_userId r = userId then set_Character now (cut_PartialCharacter d) r else r) (rows (characters db))\<rparr>\<rparr>)))"
  by (simp add: updateCharacter_def update_set_def update_where_def)

lemma set_Character_fields:
  "ch_id (set_Character now (cut_PartialCharacter d) r) =
     (case pch_id d of None \<Rightarrow> ch_id r | Some v \<Rightarrow> v) \<and>
   ch_userId (set_Character now (cut_PartialCharacter d) r) =
     (case pch_userId d of None \<Rightarrow> ch_userId r | Some v \<Rightarrow> v) \<and>
   ch_name (set_Character now (cut_PartialCharacter d) r) =
     (case pch_name d of None \<Rightarrow> ch_name r | Some v \<Rightarrow> take 200 v) \<and>
   ch_label (set_Character now (cut_PartialCharacter d) r) =
     (case pch_label d of None \<Rightarrow> ch_label r | Some v \<Rightarrow> take 100 v) \<and>
   ch_promptDescription (set_Character now (cut_PartialCharacter d) r) =
     (case pch_promptDescription d of None \<Rightarrow> ch_promptDescription r | Some v \<Rightarrow> v) \<and>
   ch_displayDescription (set_Character now (cut_PartialCharacter d) r) =
     (case pch_displayDescription d of None \<Rightarrow> ch_displayDescription r | Some v \<Rightarrow> v) \<and>
   ch_imageUrl (set_Character now (cut_PartialCharacter d) r) =
     (case pch_imageUrl d of None \<Rightarrow> ch_imageUrl r | Some v \<Rightarrow> v) \<and>
   ch_isUserCharacter (set_Character now (cut_PartialCharacter d) r) =
     (case pch_isUserCharacter d of None \<Rightarrow> ch_isUserCharacter r | Some v \<Rightarrow> v) \<and>
   ch_createdAt (set_Character now (cut_PartialCharacter d) r) =
     (case pch_createdAt d of None \<Rightarrow> ch_createdAt r | Some v \<Rightarrow> v)"
  using onUpdateNow_cases [of "\<lambda>r. r\<lparr>ch_updatedAt := now\<rparr>"
      "apply_PartialCharacter (cut_PartialCharacter d)" r]
  by (auto simp: set_Character_def apply_PartialCharacter_def cut_PartialCharacter_def setcol_cut_opt
        setcol_cut_null setcol_cases case_cut_opt case_cut_null)

lemma set_Character_updatedAt:
  "ch_updatedAt (set_Character now (cut_PartialCharacter d) r) =
     (case pch_updatedAt d of
        None \<Rightarrow>
          if apply_PartialCharacter (cut_PartialCharacter d) r = r then ch_updatedAt r else now
      | Some v \<Rightarrow> v)"
proof (cases "pch_updatedAt d")
  case None
  then show ?thesis
    by (simp add: set_Character_def onUpdateNow_def cut_PartialCharacter_def)
next
  case (Some v)
  then show ?thesis
    by (simp add: set_Character_def cut_PartialCharacter_def apply_PartialCharacter_def setcol_def)
qed

lemma fits_cut_PartialCharacter:
  "fits_PartialCharacter d = (cut_PartialCharacter d = d)"
  by (cases d) (simp add: fits_PartialCharacter_def cut_PartialCharacter_def cut_opt_fits cut_null_fits)

lemma updateScenario_outcome:
  "updateScenario (Some db) now i userId d =
     (if no_values_PartialScenario d then Inl (Error ''No values to set'')
      else if sqlStrict db \<and> \<not> fits_PartialScenario d \<and>
              list_ex (\<lambda>r. sc_id r = i \<and> sc_userId r = userId) (rows (scenarios db))
      then Inl (Error ''Data too long for column'')
      else if psc_id d \<noteq> None \<and>
              \<not> distinct (map sc_id
                 (map (\<lambda>r. if sc_id r = i \<and> sc_userId r = userId then set_Scenario now (cut_PartialScenario d) r else r) (rows (scenarios db))))
      then Inl (Error ''Duplicate entry for key PRIMARY'')
      else Inr (Some (db\<lparr>scenarios := (scenarios db)\<lparr>rows :=
        map (\<lambda>r. if sc_id r = i \<and> sc_userId r = userId then set_Scenario now (cut_PartialScenario d) r else r) (rows (scenarios db))\<rparr>\<rparr>)))"
  by (simp add: updateScenario_def update_set_def update_where_def)

lemma set_Scenario_fields:
  "sc_id (set_Scenario now (cut_PartialScenario d) r) =
     (case psc_id d of None \<Rightarrow> sc_id r | Some v \<Rightarrow> v) \<and>
   sc_userId (set_Scenario now (cut_PartialScenario d) r) =
     (case psc_userId d of None \<Rightarrow> sc_userId r | Some v \<Rightarrow> v) \<and>
   sc_title (set_Scenario now (cut_PartialScenario d) r) =
     (case psc_title d of None \<Rightarrow> sc_title r | Some v \<Rightarrow> take 300 v) \<and>
   sc_promptDescription (set_Scenario now (cut_PartialScenario d) r) =
     (case psc_promptDescription d of None \<Rightarrow> sc_promptDescription r | Some v \<Rightarrow> v) \<and>
   sc_displayDescription (set_Scenario now (cut_PartialScenario d) r) =
     (case psc_displayDescription d of None \<Rightarrow> sc_displayDescription r | Some v \<Rightarrow> v) \<and>
   sc_imageUrl (set_Scenario now (cut_PartialScenario d) r) =
     (case psc_imageUrl d of None \<Rightarrow> sc_imageUrl r | Some v \<Rightarrow> v) \<and>
   sc_isPublic (set_Scenario now (cut_PartialScenario d) r) =
     (case psc_isPublic d of None \<Rightarrow> sc_isPublic r | Some v \<Rightarrow> v) \<and>
   sc_createdAt (set_Scenario now (cut_PartialScenario d) r) =
     (case psc_createdAt d of None \<Rightarrow> sc_createdAt r | Some v \<Rightarrow> v)"
  using onUpdateNow_cases [of "\<lambda>r. r\<lparr>sc_updatedAt := now\<rparr>"
      "apply_PartialScenario (cut_PartialScenario d)" r]
  by (auto simp: set_Scenario_def apply_PartialScenario_def cut_PartialScenario_def setcol_cut_opt
        setcol_cut_null setcol_cases case_cut_opt case_cut_null)

lemma set_Scenario_updatedAt:
  "sc_updatedAt (set_Scenario now (cut_PartialScenario d) r) =
     (case psc_updatedAt d of
        None \<Rightarrow>
          if apply_PartialScenario (cut_PartialScenario d) r = r then sc_updatedAt r else now
      | Some v \<Rightarrow> v)"
proof (cases "psc_updatedAt d")
  case None
  then show ?thesis
    by (simp add: set_Scenario_def onUpdateNow_def cut_PartialScenario_def)
next
  case (Some v)
  then show ?thesis
    by (simp add: set_Scenario_def cut_PartialScenario_def apply_PartialScenario_def setcol_def)
qed

lemma fits_cut_PartialScenario:
  "fits_PartialScenario d = (cut_PartialScenario d = d)"
  by (cases d) (simp add: fits_PartialScenario_def cut_PartialScenario_def cut_opt_fits cut_null_fits)

lemma updateChatSession_outcome:
  "updateChatSession (Some db) now i userId d =
     (if no_values_PartialChatSession d then Inl (Error ''No values to set'')
      else if sqlStrict db \<and> \<not> fits_PartialChatSession d \<and>
              list_ex (\<lambda>r. cs_id r = i \<and> cs_userId r = userId) (rows (chatSessions db))
      then Inl (Error ''Data too long for column'')
      else if pcs_id d \<noteq> None \<and>
              \<not> distinct (map cs_id
                 (map (\<lambda>r. if cs_id r = i \<and> cs_userId r = userId then set_ChatSession now (cut_PartialChatSession d) r else r) (rows (chatSessions db))))
      then Inl (Error ''Duplicate entry for key PRIMARY'')
      else Inr (Some (db\<lparr>chatSessions := (chatSessions db)\<lparr>rows :=
        map (\<lambda>r. if cs_id r = i \<and> cs_userId r = userId then set_ChatSession now (cut_PartialChatSession d) r else r) (rows (chatSessions db))\<rparr>\<rparr>)))"
  by (simp add: updateChatSession_def update_set_def update_where_def)

lemma set_ChatSession_fields:
  "cs_id (set_ChatSession now (cut_PartialChatSession d) r) =
     (case pcs_id d of None \<Rightarrow> cs_id r | Some v \<Rightarrow> v) \<and>
   cs_userId (set_ChatSession now (cut_PartialChatSession d) r) =
     (case pcs_userId d of None \<Rightarrow> cs_userId r | Some v \<Rightarrow> v) \<and>
   cs_scenarioId (set_ChatSession now (cut_PartialChatSession d) r) =
     (case pcs_scenarioId d of None \<Rightarrow> cs_scenarioId r | Some v \<Rightarrow> v) \<and>
   cs_title (set_ChatSession now (cut_PartialChatSession d) r) =
     (case pcs_title d of None \<Rightarrow> cs_title r | Some v \<Rightarrow> take 300 v) \<and>
   cs_systemPrompt (set_ChatSession now (cut_PartialChatSession d) r) =
     (case pcs_systemPrompt d of None \<Rightarrow> cs_systemPrompt r | Some v \<Rightarrow> v) \<and>
   cs_modelId (set_ChatSession now (cut_PartialChatSession d) r) =
     (case pcs_modelId d of None \<Rightarrow> cs_modelId r | Some v \<Rightarrow> map_option (take 100) v) \<and>
   cs_samplingParams (set_ChatSession now (cut_PartialChatSession d) r) =
     (case pcs_samplingParams d of None \<Rightarrow> cs_samplingParams r | Some v \<Rightarrow> v) \<and>
   cs_createdAt (set_ChatSession now (cut_PartialChatSession d) r) =
     (case pcs_createdAt d of None \<Rightarrow> cs_createdAt r | Some v \<Rightarrow> v)"
  using onUpdateNow_cases [of "\<lambda>r. r\<lparr>cs_updatedAt := now\<rparr>"
      "apply_PartialChatSession (cut_PartialChatSession d)" r]
  by (auto simp: set_ChatSession_def apply_PartialChatSession_def cut_PartialChatSession_def setcol_cut_opt
        setcol_cut_null setcol_cases case_cut_opt case_cut_null)

lemma set_ChatSession_updatedAt:
  "cs_updatedAt (set_ChatSession now (cut_PartialChatSession d) r) =
     (case pcs_updatedAt d of
        None \<Rightarrow>
          if apply_PartialChatSession (cut_PartialChatSession d) r = r then cs_updatedAt r else now
      | Some v \<Rightarrow> v)"
proof (cases "pcs_updatedAt d")
  case None
  then show ?thesis
    by (simp add: set_ChatSession_def onUpdateNow_def cut_PartialChatSession_def)
next
  case (Some v)
  then show ?thesis
    by (simp add: set_ChatSession_def cut_PartialChatSession_def apply_PartialChatSession_def setcol_def)
qed

lemma fits_cut_PartialChatSession:
  "fits_PartialChatSession d = (cut_PartialChatSession d = d)"
  by (cases d) (simp add: fits_PartialChatSession_def cut_PartialChatSession_def cut_opt_fits cut_null_fits)

lemma updateStory_outcome:
  "updateStory (Some db) now i userId d =
     (if no_values_PartialStory d then Inl (Error ''No values to set'')
      else if sqlStrict db \<and> \<not> fits_PartialStory d \<and>
              list_ex (\<lambda>r. st_id r = i \<and> st_userId r = userId) (rows (stories db))
      then Inl (Error ''Data too long for column'')
      else if pst_id d \<noteq> None \<and>
              \<not> distinct (map st_id
                 (map (\<lambda>r. if st_id r = i \<and> st_userId r = userId then set_Story now (cut_PartialStory d) r else r) (rows (stories db))))
      then Inl (Error ''Duplicate entry for key PRIMARY'')
      else Inr (Some (db\<lparr>stories := (stories db)\<lparr>rows :=
        map (\<lambda>r. if st_id r = i \<and> st_userId r = userId then set_Story now (cut_PartialStory d) r else r) (rows (stories db))\<rparr>\<rparr>)))"
  by (simp add: updateStory_def update_set_def update_where_def)

lemma set_Story_fields:
  "st_id (set_Story now (cut_PartialStory d) r) =
     (case pst_id d of None \<Rightarrow> st_id r | Some v \<Rightarrow> v) \<and>
   st_userId (set_Story now (cut_PartialStory d) r) =
     (case pst_userId d of None \<Rightarrow> st_userId r | Some v \<Rightarrow> v) \<and>
   st_title (set_Story now (cut_PartialStory d) r) =
     (case pst_title d of None \<Rightarrow> st_title r | Some v \<Rightarrow> take 300 v) \<and>
   st_plotDescription (set_Story now (cut_PartialStory d) r) =
     (case pst_plotDescription d of None \<Rightarrow> st_plotDescription r | Some v \<Rightarrow> v) \<and>
   st_styleDescription (set_Story now (cut_PartialStory d) r) =
     (case pst_styleDescription d of None \<Rightarrow> st_styleDescription r | Some v \<Rightarrow> v) \<and>
   st_content (set_Story now (cut_PartialStory d) r) =
     (case pst_content d of None \<Rightarrow> st_content r | Some v \<Rightarrow> v) \<and>
   st_modelId (set_Story now (cut_PartialStory d) r) =
     (case pst_modelId d of None \<Rightarrow> st_modelId r | Some v \<Rightarrow> map_option (take 100) v) \<and>
   st_samplingParams (set_Story now (cut_PartialStory d) r) =
     (case pst_samplingParams d of None \<Rightarrow> st_samplingParams r | Some v \<Rightarrow> v) \<and>
   st_createdAt (set_Story now (cut_PartialStory d) r) =
     (case pst_createdAt d of None \<Rightarrow> st_createdAt r | Some v \<Rightarrow> v)"
  using onUpdateNow_cases [of "\<lambda>r. r\<lparr>st_updatedAt := now\<rparr>"
      "apply_PartialStory (cut_PartialStory d)" r]
  by (auto simp: set_Story_def apply_PartialStory_def cut_PartialStory_def setcol_cut_opt
        setcol_cut_null setcol_cases case_cut_opt case_cut_null)

lemma set_Story_updatedAt:
  "st_updatedAt (set_Story now (cut_PartialStory d) r) =
     (case pst_updatedAt d of
        None \<Rightarrow>
          if apply_PartialStory (cut_PartialStory d) r = r then st_updatedAt r else now
      | Some v \<Rightarrow> v)"
proof (cases "pst_updatedAt d")
  case None
  then show ?thesis
    by (simp add: set_Story_def onUpdateNow_def cut_PartialStory_def)
next
  case (Some v)
  then show ?thesis
    by (simp add: set_Story_def cut_PartialStory_def apply_PartialStory_def setcol_def)
qed

lemma fits_cut_PartialStory:
  "fits_PartialStory d = (cut_PartialStory d = d)"
  by (cases d) (simp add: fits_PartialStory_def cut_PartialStory_def cut_opt_fits cut_null_fits)

lemma updateScenarioInteraction_outcome:
  "updateScenarioInteraction (Some db) i d =
     (if no_values_PartialScenarioInteraction d then Inl (Error ''No values to set'')
      else if sqlStrict db \<and> \<not> fits_PartialScenarioInteraction d \<and>
              list_ex (\<lambda>r. sci_id r = i) (rows (scenarioInteractions db))
      then Inl (Error ''Data too long for column'')
      else if psci_id d \<noteq> None \<and>
              \<not> distinct (map sci_id
                 (map (\<lambda>r. if sci_id r = i then apply_PartialScenarioInteraction (cut_PartialScenarioInteraction d) r else r) (rows (scenarioInteractions db))))
      then Inl (Error ''Duplicate entry for key PRIMARY'')
      else Inr (Some (db\<lparr>scenarioInteractions := (scenarioInteractions db)\<lparr>rows :=
        map (\<lambda>r. if sci_id r = i then apply_PartialScenarioInteraction (cut_PartialScenarioInteraction d) r else r) (rows (scenarioInteractions db))\<rparr>\<rparr>)))"
  by (simp add: updateScenarioInteraction_def update_set_def update_where_def)

lemma set_ScenarioInteraction_fields:
  "sci_id (apply_PartialScenarioInteraction (cut_PartialScenarioInteraction d) r) =
     (case psci_id d of None \<Rightarrow> sci_id r | Some v \<Rightarrow> v) \<and>
   sci_scenarioId (apply_PartialScenarioInteraction (cut_PartialScenarioInteraction d) r) =
     (case psci_scenarioId d of None \<Rightarrow> sci_scenarioId r | Some v \<Rightarrow> v) \<and>
   sci_interactionType (apply_PartialScenarioInteraction (cut_PartialScenarioInteraction d) r) =
     (case psci_interactionType d of None \<Rightarrow> sci_interactionType r | Some v \<Rightarrow> v) \<and>
   sci_characterLabel (apply_PartialScenarioInteraction (cut_PartialScenarioInteraction d) r) =
     (case psci_characterLabel d of None \<Rightarrow> sci_characterLabel r | Some v \<Rightarrow> map_option (take 100) v) \<and>
   sci_content (apply_PartialScenarioInteraction (cut_PartialScenarioInteraction d) r) =
     (case psci_content d of None \<Rightarrow> sci_content r | Some v \<Rightarrow> v) \<and>
   sci_isSticky (apply_PartialScenarioInteraction (cut_PartialScenarioInteraction d) r) =
     (case psci_isSticky d of None \<Rightarrow> sci_isSticky r | Some v \<Rightarrow> v) \<and>
   sci_orderIndex (apply_PartialScenarioInteraction (cut_PartialScenarioInteraction d) r) =
     (case psci_orderIndex d of None \<Rightarrow> sci_orderIndex r | Some v \<Rightarrow> v)"
  by (simp add: apply_PartialScenarioInteraction_def cut_PartialScenarioInteraction_def setcol_cut_opt
        setcol_cut_null setcol_cases case_cut_opt case_cut_null)

lemma fits_cut_PartialScenarioInteraction:
  "fits_PartialScenarioInteraction d = (cut_PartialScenarioInteraction d = d)"
  by (cases d) (simp add: fits_PartialScenarioInteraction_def cut_PartialScenarioInteraction_def cut_opt_fits cut_null_fits)

lemma updateStoryCharacter_outcome:
  "updateStoryCharacter (Some db) i d =
     (if no_values_PartialStoryCharacter d then Inl (Error ''No values to set'')
      else if sqlStrict db \<and> \<not> fits_PartialStoryCharacter d \<and>
              list_ex (\<lambda>r. stc_id r = i) (rows (storyCharacters db))
      then Inl (Error ''Data too long for column'')
      else if pstc_id d \<noteq> None \<and>
              \<not> distinct (map stc_id
                 (map (\<lambda>r. if stc_id r = i then apply_PartialStoryCharacter (cut_PartialStoryCharacter d) r else r) (rows (storyCharacters db))))
      then Inl (Error ''Duplicate entry for key PRIMARY'')
      else Inr (Some (db\<lparr>storyCharacters := (storyCharacters db)\<lparr>rows :=
        map (\<lambda>r. if stc_id r = i then apply_PartialStoryCharacter (cut_PartialStoryCharacter d) r else r) (rows (storyCharacters db))\<rparr>\<rparr>)))"
  by (simp add: updateStoryCharacter_def update_set_def update_where_def)

lemma set_StoryCharacter_fields:
  "stc_id (apply_PartialStoryCharacter (cut_PartialStoryCharacter d) r) =
     (case pstc_id d of None \<Rightarrow> stc_id r | Some v \<Rightarrow> v) \<and>
   stc_storyId (apply_PartialStoryCharacter (cut_PartialStoryCharacter d) r) =
     (case pstc_storyId d of None \<Rightarrow> stc_storyId r | Some v \<Rightarrow> v) \<and>
   stc_name (apply_PartialStoryCharacter (cut_PartialStoryCharacter d) r) =
     (case pstc_name d of None \<Rightarrow> stc_name r | Some v \<Rightarrow> take 200 v) \<and>
   stc_description (apply_PartialStoryCharacter (cut_PartialStoryCharacter d) r) =
     (case pstc_description d of None \<Rightarrow> stc_description r | Some v \<Rightarrow> v) \<and>
   stc_orderIndex (apply_PartialStoryCharacter (cut_PartialStoryCharacter d) r) =
     (case pstc_orderIndex d of None \<Rightarrow> stc_orderIndex r | Some v \<Rightarrow> v)"
  by (simp add: apply_PartialStoryCharacter_def cut_PartialStoryCharacter_def setcol_cut_opt
        setcol_cut_null setcol_cases case_cut_opt case_cut_null)

lemma fits_cut_PartialStoryCharacter:
  "fits_PartialStoryCharacter d = (cut_PartialStoryCharacter d = d)"
  by (cases d) (simp add: fits_PartialStoryCharacter_def cut_PartialStoryCharacter_def cut_opt_fits cut_null_fits)

text \<open>
  C7, as the code has it. An update whose data has no defined key raises
  \<open>No values to set\<close> and writes nothing. Any other update changes only the rows its
  filter matches, in its one table, or raises and changes nothing: a strict store
  refuses a value longer than its \<open>varchar\<close> column, and an assigned \<open>id\<close> may not
  repeat another row's. In a row that is written, a key that is \<open>undefined\<close> leaves the
  stored column as it is, while a supplied value, the empty one included, overwrites
  it (cut to the length of a \<open>varchar\<close> column, which leaves a value that fits as it
  is); \<open>id\<close>, \<open>userId\<close>, \<open>createdAt\<close> and \<open>updatedAt\<close> are keys of the data like the
  others. The one column that changes without being supplied is \<open>updatedAt\<close> of
  characters, scenarios, chat sessions and stories: it becomes the time of the update
  when the update changes the row.
\<close>

theorem partial_update_frame:
  "updateCharacter (Some db) now i userId dch =
     (if no_values_PartialCharacter dch then Inl (Error ''No values to set'')
      else if sqlStrict db \<and> \<not> fits_PartialCharacter dch \<and>
              list_ex (\<lambda>r. ch_id r = i \<and> ch_userId r = userId) (rows (characters db))
      then Inl (Error ''Data too long for column'')
      else if pch_id dch \<noteq> None \<and>
              \<not> distinct (map ch_id
                 (map (\<lambda>r. if ch_id r = i \<and> ch_userId r = userId then set_Character now (cut_PartialCharacter dch) r else r) (rows (characters db))))
      then Inl (Error ''Duplicate entry for key PRIMARY'')
      else Inr (Some (db\<lparr>characters := (characters db)\<lparr>rows :=
        map (\<lambda>r. if ch_id r = i \<and> ch_userId r = userId then set_Character now (cut_PartialCharacter dch) r else r) (rows (characters db))\<rparr>\<rparr>))) \<and>
   updateScenario (Some db) now i userId dsc =
     (if no_values_PartialScenario dsc then Inl (Error ''No values to set'')
      else if sqlStrict db \<and> \<not> fits_PartialScenario dsc \<and>
              list_ex (\<lambda>r. sc_id r = i \<and> sc_userId r = userId) (rows (scenarios db))
      then Inl (Error ''Data too long for column'')
      else if psc_id dsc \<noteq> None \<and>
              \<not> distinct (map sc_id
                 (map (\<lambda>r. if sc_id r = i \<and> sc_userId r = userId then set_Scenario now (cut_PartialScenario dsc) r else r) (rows (scenarios db))))
      then Inl (Error ''Duplicate entry for key PRIMARY'')
      else Inr (Some (db\<lparr>scenarios := (scenarios db)\<lparr>rows :=
        map (\<lambda>r. if sc_id r = i \<and> sc_userId r = userId then set_Scenario now (cut_PartialScenario dsc) r else r) (rows (scenarios db))\<rparr>\<rparr>))) \<and>
   updateChatSession (Some db) now i userId dcs =
     (if no_values_PartialChatSession dcs then Inl (Error ''No values to set'')
      else if sqlStrict db \<and> \<not> fits_PartialChatSession dcs \<and>
              list_ex (\<lambda>r. cs_id r = i \<and> cs_userId r = userId) (rows (chatSessions db))
      then Inl (Error ''Data too long for column'')
      else if pcs_id dcs \<noteq> None \<and>
              \<not> distinct (map cs_id
                 (map (\<lambda>r. if cs_id r = i \<and> cs_userId r = userId then set_ChatSession now (cut_PartialChatSession dcs) r else r) (rows (chatSessions db))))
      then Inl (Error ''Duplicate entry for key PRIMARY'')
      else Inr (Some (db\<lparr>chatSessions := (chatSessions db)\<lparr>rows :=
        map (\<lambda>r. if cs_id r = i \<and> cs_userId r = userId then set_ChatSession now (cut_PartialChatSession dcs) r else r) (rows (chatSessions db))\<rparr>\<rparr>))) \<and>
   updateStory (Some db) now i userId dst =
     (if no_values_PartialStory dst then Inl (Error ''No values to set'')
      else if sqlStrict db \<and> \<not> fits_PartialStory dst \<and>
              list_ex (\<lambda>r. st_id r = i \<and> st_userId r = userId) (rows (stories db))
      then Inl (Error ''Data too long for column'')
      else if pst_id dst \<noteq> None \<and>
              \<not> distinct (map st_id
                 (map (\<lambda>r. if st_id r = i \<and> st_userId r = userId then set_Story now (cut_PartialStory dst) r else r) (rows (stories db))))
      then Inl (Error ''Duplicate entry for key PRIMARY'')
      else Inr (Some (db\<lparr>stories := (stories db)\<lparr>rows :=
        map (\<lambda>r. if st_id r = i \<and> st_userId r = userId then set_Story now (cut_PartialStory dst) r else r) (rows (stories db))\<rparr>\<rparr>))) \<and>
   updateScenarioInteraction (Some db) i dsci =
     (if no_values_PartialScenarioInteraction dsci then Inl (Error ''No values to set'')
      else if sqlStrict db \<and> \<not> fits_PartialScenarioInteraction dsci \<and>
              list_ex (\<lambda>r. sci_id r = i) (rows (scenarioInteractions db))
      then Inl (Error ''Data too long for column'')
      else if psci_id dsci \<noteq> None \<and>
              \<not> distinct (map sci_id
                 (map (\<lambda>r. if sci_id r = i then apply_PartialScenarioInteraction (cut_PartialScenarioInteraction dsci) r else r) (rows (scenarioInteractions db))))
      then Inl (Error ''Duplicate entry for key PRIMARY'')
      else Inr (Some (db\<lparr>scenarioInteractions := (scenarioInteractions db)\<lparr>rows :=
        map (\<lambda>r. if sci_id r = i then apply_PartialScenarioInteraction (cut_PartialScenarioInteraction dsci) r else r) (rows (scenarioInteractions db))\<rparr>\<rparr>))) \<and>
   updateStoryCharacter (Some db) i dstc =
     (if no_values_PartialStoryCharacter dstc then Inl (Error ''No values to set'')
      else if sqlStrict db \<and> \<not> fits_PartialStoryCharacter dstc \<and>
              list_ex (\<lambda>r. stc_id r = i) (rows (storyCharacters db))
      then Inl (Error ''Data too long for column'')
      else if pstc_id dstc \<noteq> None \<and>
              \<not> distinct (map stc_id
                 (map (\<lambda>r. if stc_id r = i then apply_PartialStoryCharacter (cut_PartialStoryCharacter dstc) r else r) (rows (storyCharacters db))))
      then Inl (Error ''Duplicate entry for key PRIMARY'')
      else Inr (Some (db\<lparr>storyCharacters := (storyCharacters db)\<lparr>rows :=
        map (\<lambda>r. if stc_id r = i then apply_PartialStoryCharacter (cut_PartialStoryCharacter dstc) r else r) (rows (storyCharacters db))\<rparr>\<rparr>))) \<and>
   ch_id (set_Character now (cut_PartialCharacter dch) rch) =
     (case pch_id dch of None \<Rightarrow> ch_id rch | Some v \<Rightarrow> v) \<and>
   ch_userId (set_Character now (cut_PartialCharacter dch) rch) =
     (case pch_userId dch of None \<Rightarrow> ch_userId rch | Some v \<Rightarrow> v) \<and>
   ch_name (set_Character now (cut_PartialCharacter dch) rch) =
     (case pch_name dch of None \<Rightarrow> ch_name rch | Some v \<Rightarrow> take 200 v) \<and>
   ch_label (set_Character now (cut_PartialCharacter dch) rch) =
     (case pch_label dch of None \<Rightarrow> ch_label rch | Some v \<Rightarrow> take 100 v) \<and>
   ch_promptDescription (set_Character now (cut_PartialCharacter dch) rch) =
     (case pch_promptDescription dch of None \<Rightarrow> ch_promptDescription rch | Some v \<Rightarrow> v) \<and>
   ch_displayDescription (set_Character now (cut_PartialCharacter dch) rch) =
     (case pch_displayDescription dch of None \<Rightarrow> ch_displayDescription rch | Some v \<Rightarrow> v) \<and>
   ch_imageUrl (set_Character now (cut_PartialCharacter dch) rch) =
     (case pch_imageUrl dch of None \<Rightarrow> ch_imageUrl rch | Some v \<Rightarrow> v) \<and>
   ch_isUserCharacter (set_Character now (cut_PartialCharacter dch) rch) =
     (case pch_isUserCharacter dch of None \<Rightarrow> ch_isUserCharacter rch | Some v \<Rightarrow> v) \<and>
   ch_createdAt (set_Character now (cut_PartialCharacter dch) rch) =
     (case pch_createdAt dch of None \<Rightarrow> ch_createdAt rch | Some v \<Rightarrow> v) \<and>
   ch_updatedAt (set_Character now (cut_PartialCharacter dch) rch) =
     (case pch_updatedAt dch of
        None \<Rightarrow>
          if apply_PartialCharacter (cut_PartialCharacter dch) rch = rch then ch_updatedAt rch else now
      | Some v \<Rightarrow> v) \<and>
   fits_PartialCharacter dch = (cut_PartialCharacter dch = dch) \<and>
   sc_id (set_Scenario now (cut_PartialScenario dsc) rsc) =
     (case psc_id dsc of None \<Rightarrow> sc_id rsc | Some v \<Rightarrow> v) \<and>
   sc_userId (set_Scenario now (cut_PartialScenario dsc) rsc) =
     (case psc_userId dsc of None \<Rightarrow> sc_userId rsc | Some v \<Rightarrow> v) \<and>
   sc_title (set_Scenario now (cut_PartialScenario dsc) rsc) =
     (case psc_title dsc of None \<Rightarrow> sc_title rsc | Some v \<Rightarrow> take 300 v) \<and>
   sc_promptDescription (set_Scenario now (cut_PartialScenario dsc) rsc) =
     (case psc_promptDescription dsc of None \<Rightarrow> sc_promptDescription rsc | Some v \<Rightarrow> v) \<and>
   sc_displayDescription (set_Scenario now (cut_PartialScenario dsc) rsc) =
     (case psc_displayDescription dsc of None \<Rightarrow> sc_displayDescription rsc | Some v \<Rightarrow> v) \<and>
   sc_imageUrl (set_Scenario now (cut_PartialScenario dsc) rsc) =
     (case psc_imageUrl dsc of None \<Rightarrow> sc_imageUrl rsc | Some v \<Rightarrow> v) \<and>
   sc_isPublic (set_Scenario now (cut_PartialScenario dsc) rsc) =
     (case psc_isPublic dsc of None \<Rightarrow> sc_isPublic rsc | Some v \<Rightarrow> v) \<and>
   sc_createdAt (set_Scenario now (cut_PartialScenario dsc) rsc) =
     (case psc_createdAt dsc of None \<Rightarrow> sc_createdAt rsc | Some v \<Rightarrow> v) \<and>
   sc_updatedAt (set_Scenario now (cut_PartialScenario dsc) rsc) =
     (case psc_updatedAt dsc of
        None \<Rightarrow>
          if apply_PartialScenario (cut_PartialScenario dsc) rsc = rsc then sc_updatedAt rsc else now
      | Some v \<Rightarrow> v) \<and>
   fits_PartialScenario dsc = (cut_PartialScenario dsc = dsc) \<and>
   cs_id (set_ChatSession now (cut_PartialChatSession dcs) rcs) =
     (case pcs_id dcs of None \<Rightarrow> cs_id rcs | Some v \<Rightarrow> v) \<and>
   cs_userId (set_ChatSession now (cut_PartialChatSession dcs) rcs) =
     (case pcs_userId dcs of None \<Rightarrow> cs_userId rcs | Some v \<Rightarrow> v) \<and>
   cs_scenarioId (set_ChatSession now (cut_PartialChatSession dcs) rcs) =
     (case pcs_scenarioId dcs of None \<Rightarrow> cs_scenarioId rcs | Some v \<Rightarrow> v) \<and>
   cs_title (set_ChatSession now (cut_PartialChatSession dcs) rcs) =
     (case pcs_title dcs of None \<Rightarrow> cs_title rcs | Some v \<Rightarrow> take 300 v) \<and>
   cs_systemPrompt (set_ChatSession now (cut_PartialChatSession dcs) rcs) =
     (case pcs_systemPrompt dcs of None \<Rightarrow> cs_systemPrompt rcs | Some v \<Rightarrow> v) \<and>
   cs_modelId (set_ChatSession now (cut_PartialChatSession dcs) rcs) =
     (case pcs_modelId dcs of None \<Rightarrow> cs_modelId rcs | Some v \<Rightarrow> map_option (take 100) v) \<and>
   cs_samplingParams (set_ChatSession now (cut_PartialChatSession dcs) rcs) =
     (case pcs_samplingParams dcs of None \<Rightarrow> cs_samplingParams rcs | Some v \<Rightarrow> v) \<and>
   cs_createdAt (set_ChatSession now (cut_PartialChatSession dcs) rcs) =
     (case pcs_createdAt dcs of None \<Rightarrow> cs_createdAt rcs | Some v \<Rightarrow> v) \<and>
   cs_updatedAt (set_ChatSession now (cut_PartialChatSession dcs) rcs) =
     (case pcs_updatedAt dcs of
        None \<Rightarrow>
          if apply_PartialChatSession (cut_PartialChatSession dcs) rcs = rcs then cs_updatedAt rcs else now
      | Some v \<Rightarrow> v) \<and>
   fits_PartialChatSession dcs = (cut_PartialChatSession dcs = dcs) \<and>
   st_id (set_Story now (cut_PartialStory dst) rst) =
     (case pst_id dst of None \<Rightarrow> st_id rst | Some v \<Rightarrow> v) \<and>
   st_userId (set_Story now (cut_PartialStory dst) rst) =
     (case pst_userId dst of None \<Rightarrow> st_userId rst | Some v \<Rightarrow> v) \<and>
   st_title (set_Story now (cut_PartialStory dst) rst) =
     (case pst_title dst of None \<Rightarrow> st_title rst | Some v \<Rightarrow> take 300 v) \<and>
   st_plotDescription (set_Story now (cut_PartialStory dst) rst) =
     (case pst_plotDescription dst of None \<Rightarrow> st_plotDescription rst | Some v \<Rightarrow> v) \<and>
   st_styleDescription (set_Story now (cut_PartialStory dst) rst) =
     (case pst_styleDescription dst of None \<Rightarrow> st_styleDescription rst | Some v \<Rightarrow> v) \<and>
   st_content (set_Story now (cut_PartialStory dst) rst) =
     (case pst_content dst of None \<Rightarrow> st_content rst | Some v \<Rightarrow> v) \<and>
   st_modelId (set_Story now (cut_PartialStory dst) rst) =
     (case pst_modelId dst of None \<Rightarrow> st_modelId rst | Some v \<Rightarrow> map_option (take 100) v) \<and>
   st_samplingParams (set_Story now (cut_PartialStory dst) rst) =
     (case pst_samplingParams dst of None \<Rightarrow> st_samplingParams rst | Some v \<Rightarrow> v) \<and>
   st_createdAt (set_Story now (cut_PartialStory dst) rst) =
     (case pst_createdAt dst of None \<Rightarrow> st_createdAt rst | Some v \<Rightarrow> v) \<and>
   st_updatedAt (set_Story now (cut_PartialStory dst) rst) =
     (case pst_updatedAt dst of
        None \<Rightarrow>
          if apply_PartialStory (cut_PartialStory dst) rst = rst then st_updatedAt rst else now
      | Some v \<Rightarrow> v) \<and>
   fits_PartialStory dst = (cut_PartialStory dst = dst) \<and>
   sci_id (apply_PartialScenarioInteraction (cut_PartialScenarioInteraction dsci) rsci) =
     (case psci_id dsci of None \<Rightarrow> sci_id rsci | Some v \<Rightarrow> v) \<and>
   sci_scenarioId (apply_PartialScenarioInteraction (cut_PartialScenarioInteraction dsci) rsci) =
     (case psci_scenarioId dsci of None \<Rightarrow> sci_scenarioId rsci | Some v \<Rightarrow> v) \<and>
   sci_interactionType (apply_PartialScenarioInteraction (cut_PartialScenarioInteraction dsci) rsci) =
     (case psci_interactionType dsci of None \<Rightarrow> sci_interactionType rsci | Some v \<Rightarrow> v) \<and>
   sci_characterLabel (apply_PartialScenarioInteraction (cut_PartialScenarioInteraction dsci) rsci) =
     (case psci_characterLabel dsci of None \<Rightarrow> sci_characterLabel rsci | Some v \<Rightarrow> map_option (take 100) v) \<and>
   sci_content (apply_PartialScenarioInteraction (cut_PartialScenarioInteraction dsci) rsci) =
     (case psci_content dsci of None \<Rightarrow> sci_content rsci | Some v \<Rightarrow> v) \<and>
   sci_isSticky (apply_PartialScenarioInteraction (cut_PartialScenarioInteraction dsci) rsci) =
     (case psci_isSticky dsci of None \<Rightarrow> sci_isSticky rsci | Some v \<Rightarrow> v) \<and>
   sci_orderIndex (apply_PartialScenarioInteraction (cut_PartialScenarioInteraction dsci) rsci) =
     (case psci_orderIndex dsci of None \<Rightarrow> sci_orderIndex rsci | Some v \<Rightarrow> v) \<and>
   fits_PartialScenarioInteraction dsci = (cut_PartialScenarioInteraction dsci = dsci) \<and>
   stc_id (apply_PartialStoryCharacter (cut_PartialStoryCharacter dstc) rstc) =
     (case pstc_id dstc of None \<Rightarrow> stc_id rstc | Some v \<Rightarrow> v) \<and>
   stc_storyId (apply_PartialStoryCharacter (cut_PartialStoryCharacter dstc) rstc) =
     (case pstc_storyId dstc of None \<Rightarrow> stc_storyId rstc | Some v \<Rightarrow> v) \<and>
   stc_name (apply_PartialStoryCharacter (cut_PartialStoryCharacter dstc) rstc) =
     (case pstc_name dstc of None \<Rightarrow> stc_name rstc | Some v \<Rightarrow> take 200 v) \<and>
   stc_description (apply_PartialStoryCharacter (cut_PartialStoryCharacter dstc) rstc) =
     (case pstc_description dstc of None \<Rightarrow> stc_description rstc | Some v \<Rightarrow> v) \<and>
   stc_orderIndex (apply_PartialStoryCharacter (cut_PartialStoryCharacter dstc) rstc) =
     (case pstc_orderIndex dstc of None \<Rightarrow> stc_orderIndex rstc | Some v \<Rightarrow> v) \<and>
   fits_PartialStoryCharacter dstc = (cut_PartialStoryCharacter dstc = dstc)"
  by (simp only: updateCharacter_outcome [of db now i userId dch]
        updateScenario_outcome [of db now i userId dsc]
        updateChatSession_outcome [of db now i userId dcs]
        updateStory_outcome [of db now i userId dst]
        updateScenarioInteraction_outcome [of db i dsci]
        updateStoryCharacter_outcome [of db i dstc]
        set_Character_fields [of now dch rch]
        set_Character_updatedAt [of now dch rch]
        fits_cut_PartialCharacter [of dch]
        set_Scenario_fields [of now dsc rsc]
        set_Scenario_updatedAt [of now dsc rsc]
        fits_cut_PartialScenario [of dsc]
        set_ChatSession_fields [of now dcs rcs]
        set_ChatSession_updatedAt [of now dcs rcs]
        fits_cut_PartialChatSession [of dcs]
        set_Story_fields [of now dst rst]
        set_Story_updatedAt [of now dst rst]
        fits_cut_PartialStory [of dst]
        set_ScenarioInteraction_fields [of dsci rsci]
        fits_cut_PartialScenarioInteraction [of dsci]
        set_StoryCharacter_fields [of dstc rstc]
        fits_cut_PartialStoryCharacter [of dstc])

theorem partial_update_frame_witness:
  "sc_title (hd (rows (scenarios demo_store))) = ''Inn'' \<and>
   sc_title (set_Scenario 99
      (cut_PartialScenario (undefined_PartialScenario\<lparr>psc_isPublic := Some (Some False)\<rparr>))
      (hd (rows (scenarios demo_store)))) = ''Inn'' \<and>
   sc_title (set_Scenario 99
      (cut_PartialScenario (undefined_PartialScenario\<lparr>psc_title := Some []\<rparr>))
      (hd (rows (scenarios demo_store)))) = [] \<and>
   map_option (map_option (\<lambda>db'. map (\<lambda>r. (sc_id r, sc_title r)) (rows (scenarios db'))))
     (case updateScenario (Some demo_store) 99 1 1
             (undefined_PartialScenario\<lparr>psc_title := Some []\<rparr>) of
        Inl e \<Rightarrow> None | Inr c \<Rightarrow> Some c) =
     Some (Some [(1, []), (2, ''Moor'')])"
proof -
  have a: "sc_title (hd (rows (scenarios demo_store))) = ''Inn''"
    by (simp add: demo_store_def)
  have b: "sc_title (set_Scenario 99
      (cut_PartialScenario (undefined_PartialScenario\<lparr>psc_isPublic := Some (Some False)\<rparr>))
      (hd (rows (scenarios demo_store)))) =
      (case psc_title (undefined_PartialScenario\<lparr>psc_isPublic := Some (Some False)\<rparr>) of
         None \<Rightarrow> sc_title (hd (rows (scenarios demo_store))) | Some v \<Rightarrow> take 300 v)"
    using partial_update_frame [where now = 99
        and dsc = "undefined_PartialScenario\<lparr>psc_isPublic := Some (Some False)\<rparr>"
        and rsc = "hd (rows (scenarios demo_store))"]
    by blast
  have c: "sc_title (set_Scenario 99
      (cut_PartialScenario (undefined_PartialScenario\<lparr>psc_title := Some []\<rparr>))
      (hd (rows (scenarios demo_store)))) =
      (case psc_title (undefined_PartialScenario\<lparr>psc_title := Some []\<rparr>) of
         None \<Rightarrow> sc_title (hd (rows (scenarios demo_store))) | Some v \<Rightarrow> take 300 v)"
    using partial_update_frame [where now = 99
        and dsc = "undefined_PartialScenario\<lparr>psc_title := Some []\<rparr>"
        and rsc = "hd (rows (scenarios demo_store))"]
    by blast
  have d: "map_option (map_option (\<lambda>db'. map (\<lambda>r. (sc_id r, sc_title r)) (rows (scenarios db'))))
     (case updateScenario (Some demo_store) 99 1 1
             (undefined_PartialScenario\<lparr>psc_title := Some []\<rparr>) of
        Inl e \<Rightarrow> None | Inr c \<Rightarrow> Some c) =
     Some (Some [(1, []), (2, ''Moor'')])"
    by (simp add: updateScenario_def update_set_def update_where_def set_Scenario_def
        onUpdateNow_def apply_PartialScenario_def setcol_def undefined_PartialScenario_def
        no_values_PartialScenario_def fits_PartialScenario_def cut_PartialScenario_def
        varchar_opt_def varchar_def cut_opt_def demo_store_def)
  from a b c d show ?thesis by (simp add: undefined_PartialScenario_def)
qed

text \<open>
  The sentence of the specification fails on \<open>updatedAt\<close>: an update of scenario 1 that
  supplies only an empty title also moves \<open>updatedAt\<close> from 50 to the time of the
  update. And the update whose every key is \<open>undefined\<close> does not return: it raises
  \<open>No values to set\<close>.
\<close>

theorem partial_update_frame_counterexample:
  "map (\<lambda>r. (sc_id r, sc_title r, sc_updatedAt r)) (rows (scenarios demo_store)) =
     [(1, ''Inn'', 50), (2, ''Moor'', 20)] \<and>
   updateScenario (Some demo_store) 99 1 1 (undefined_PartialScenario\<lparr>psc_title := Some []\<rparr>) =
     Inr (Some (demo_store\<lparr>scenarios := (scenarios demo_store)\<lparr>rows :=
       [(hd (rows (scenarios demo_store)))\<lparr>sc_title := [], sc_updatedAt := 99\<rparr>,
        hd (tl (rows (scenarios demo_store)))]\<rparr>\<rparr>)) \<and>
   updateScenario (Some demo_store) 99 1 1 undefined_PartialScenario =
     Inl (Error ''No values to set'')"
  by (simp add: updateScenario_def update_set_def update_where_def set_Scenario_def
        onUpdateNow_def apply_PartialScenario_def setcol_def undefined_PartialScenario_def
        no_values_PartialScenario_def fits_PartialScenario_def cut_PartialScenario_def
        varchar_opt_def varchar_def cut_opt_def demo_store_def)

subsection \<open>Scenario copy\<close>



























end
